(* ===== verification/Tsu_Prelude.thy ===== *)
theory Tsu_Prelude
  imports Main "HOL-Library.Char_ord" "HOL-Library.List_Lexorder"
begin

text \<open>
  Shared vocabulary of the development: the Python string operations that
  \<open>nwr_tsu.py\<close> applies to bulletin text (\<open>str.replace\<close>, \<open>str.find\<close>,
  \<open>str.split\<close>, \<open>str.splitlines\<close>, \<open>str.upper\<close>, \<open>str.strip\<close>,
  \<open>str.zfill\<close>, \<open>str(int)\<close>, \<open>int(str)\<close>), written as executable HOL
  functions over \<open>string\<close> (a list of 8-bit characters, which is what an
  ASCII bulletin is), and the generic lemmas about them that the component
  theories share. Python strings compare by code point, lexicographically,
  which is the order that \<open>Char_ord\<close> and \<open>List_Lexorder\<close> put on
  \<open>string\<close>; \<open>list.sort()\<close> is therefore \<open>sort\<close> of the library.
\<close>

named_theorems pystr_eval "equations that evaluate the Python string model on literals"

type_synonym zone = string

text \<open>The Python exceptions that the modelled code can raise.\<close>

datatype py_error = KeyError | IndexError | ValueError | TypeError

abbreviation NL :: char where "NL \<equiv> CHR 0x0A"

subsection \<open>Character classes\<close>

definition is_digit :: "char \<Rightarrow> bool" where
  "is_digit c \<longleftrightarrow> c \<in> set ''0123456789''"

definition is_upper :: "char \<Rightarrow> bool" where
  "is_upper c \<longleftrightarrow> c \<in> set ''ABCDEFGHIJKLMNOPQRSTUVWXYZ''"

text \<open>\<open>c.upper()\<close> on ASCII: the letters \<open>a\<close>-\<open>z\<close> (codes 97-122) move down by 32.\<close>

definition upper_char :: "char \<Rightarrow> char" where
  "upper_char c =
     (let n = (of_char c :: nat) in if 97 \<le> n \<and> n \<le> 122 then char_of (n - 32) else c)"

text \<open>\<open>str.upper()\<close> on ASCII text.\<close>

definition py_upper :: "string \<Rightarrow> string" where
  "py_upper s = map upper_char s"

text \<open>The ASCII whitespace of \<open>str.strip()\<close> and the line boundaries of \<open>str.splitlines()\<close>.\<close>

definition is_space :: "char \<Rightarrow> bool" where
  "is_space c \<longleftrightarrow> c \<in> {CHR '' '', CHR 0x09, CHR 0x0A, CHR 0x0B, CHR 0x0C, CHR 0x0D,
                        CHR 0x1C, CHR 0x1D, CHR 0x1E, CHR 0x1F}"

definition is_line_break :: "char \<Rightarrow> bool" where
  "is_line_break c \<longleftrightarrow> c \<in> {CHR 0x0A, CHR 0x0B, CHR 0x0C, CHR 0x0D, CHR 0x1C, CHR 0x1D, CHR 0x1E}"

declare is_digit_def [pystr_eval] is_upper_def [pystr_eval] upper_char_def [pystr_eval]
  char_of_def [pystr_eval] bit_simps [pystr_eval] Let_def [pystr_eval]
  py_upper_def [pystr_eval] is_space_def [pystr_eval] is_line_break_def [pystr_eval]

subsection \<open>Substring search: \<open>s.startswith(p)\<close>, \<open>sub in s\<close>, \<open>s.find(sub)\<close>\<close>

fun starts_with :: "string \<Rightarrow> string \<Rightarrow> bool" where
  "starts_with [] s = True"
| "starts_with (x # xs) [] = False"
| "starts_with (x # xs) (y # ys) = (x = y \<and> starts_with xs ys)"

fun str_in :: "string \<Rightarrow> string \<Rightarrow> bool" where
  "str_in sub [] = (sub = [])"
| "str_in sub (c # cs) = (starts_with sub (c # cs) \<or> str_in sub cs)"

text \<open>\<open>s.find(sub)\<close>: the least index of an occurrence, or -1.\<close>

fun py_find :: "string \<Rightarrow> string \<Rightarrow> int" where
  "py_find [] sub = (if sub = [] then 0 else -1)"
| "py_find (c # cs) sub =
     (if starts_with sub (c # cs) then 0
      else (let r = py_find cs sub in if r = -1 then -1 else r + 1))"

subsection \<open>\<open>s.replace(old, new)\<close>\<close>

text \<open>
  Python replaces the occurrences of \<open>old\<close> from left to right, never
  overlapping, and does not rescan what it inserted. An empty \<open>old\<close> puts
  \<open>new\<close> before every character and at the end.
\<close>

function replace_ne :: "string \<Rightarrow> string \<Rightarrow> string \<Rightarrow> string" where
  "replace_ne old new [] = []"
| "replace_ne old new (c # cs) =
     (if old \<noteq> [] \<and> starts_with old (c # cs)
      then new @ replace_ne old new (drop (length old) (c # cs))
      else c # replace_ne old new cs)"
  by pat_completeness auto
termination
  by (relation "measure (\<lambda>(old, new, s). length s)") auto

definition py_replace :: "string \<Rightarrow> string \<Rightarrow> string \<Rightarrow> string" where
  "py_replace s old new =
     (if old = [] then new @ concat (map (\<lambda>c. c # new) s) else replace_ne old new s)"

subsection \<open>\<open>s.split(sep)\<close> and \<open>sep.join(parts)\<close>\<close>

function split_aux :: "string \<Rightarrow> string \<Rightarrow> string \<Rightarrow> string list" where
  "split_aux sep acc [] = [acc]"
| "split_aux sep acc (c # cs) =
     (if sep \<noteq> [] \<and> starts_with sep (c # cs)
      then acc # split_aux sep [] (drop (length sep) (c # cs))
      else split_aux sep (acc @ [c]) cs)"
  by pat_completeness auto
termination
  by (relation "measure (\<lambda>(sep, acc, s). length s)") auto

text \<open>\<open>s.split(sep)\<close> for a non-empty \<open>sep\<close> (every call in the program passes one).\<close>

definition py_split :: "string \<Rightarrow> string \<Rightarrow> string list" where
  "py_split s sep = split_aux sep [] s"

fun py_join :: "string \<Rightarrow> string list \<Rightarrow> string" where
  "py_join sep [] = []"
| "py_join sep [x] = x"
| "py_join sep (x # xs) = x @ sep @ py_join sep xs"

text \<open>\<open>xs[i]\<close>: a negative index counts from the end; \<open>None\<close> is an
  \<open>IndexError\<close>.\<close>

definition py_index :: "'a list \<Rightarrow> int \<Rightarrow> 'a option" where
  "py_index xs i =
     (if 0 \<le> i \<and> i < int (length xs) then Some (xs ! nat i)
      else if - int (length xs) \<le> i \<and> i < 0 then Some (xs ! nat (int (length xs) + i)) else None)"

subsection \<open>\<open>s.splitlines()\<close>\<close>

fun splitlines_aux :: "string \<Rightarrow> string \<Rightarrow> string list" where
  "splitlines_aux acc [] = (if acc = [] then [] else [acc])"
| "splitlines_aux acc (c # cs) =
     (if c = CHR 0x0D \<and> cs \<noteq> [] \<and> hd cs = NL then acc # splitlines_aux [] (tl cs)
      else if is_line_break c then acc # splitlines_aux [] cs
      else splitlines_aux (acc @ [c]) cs)"

definition py_splitlines :: "string \<Rightarrow> string list" where
  "py_splitlines s = splitlines_aux [] s"

subsection \<open>\<open>strip\<close>\<close>

definition py_lstrip :: "string \<Rightarrow> string" where
  "py_lstrip s = dropWhile is_space s"

definition py_rstrip :: "string \<Rightarrow> string" where
  "py_rstrip s = rev (dropWhile is_space (rev s))"

definition py_strip :: "string \<Rightarrow> string" where
  "py_strip s = py_rstrip (py_lstrip s)"

subsection \<open>Numbers as text: \<open>str(i)\<close>, \<open>s.zfill(w)\<close>, \<open>int(s)\<close>\<close>

definition digit_char :: "nat \<Rightarrow> char" where
  "digit_char d = ''0123456789'' ! d"

fun nat_str :: "nat \<Rightarrow> string" where
  "nat_str n = (if n < 10 then [digit_char n] else nat_str (n div 10) @ [digit_char (n mod 10)])"

declare nat_str.simps [simp del]

definition py_zfill :: "nat \<Rightarrow> string \<Rightarrow> string" where
  "py_zfill w s = replicate (w - length s) (CHR ''0'') @ s"

definition digit_val :: "char \<Rightarrow> nat" where
  "digit_val c = of_char c - 48"

text \<open>\<open>int(s)\<close> on a string of decimal digits.\<close>

definition digits_val :: "string \<Rightarrow> nat" where
  "digits_val s = foldl (\<lambda>n c. 10 * n + digit_val c) 0 s"

text \<open>\<open>int(s)\<close> on a string: surrounding whitespace, an optional sign, and
  digits with single underscores between them; anything else is a
  \<open>ValueError\<close> (\<open>None\<close>).\<close>

definition int_body_ok :: "string \<Rightarrow> bool" where
  "int_body_ok b \<longleftrightarrow> b \<noteq> [] \<and> is_digit (hd b) \<and> is_digit (last b) \<and>
                      list_all (\<lambda>c. is_digit c \<or> c = CHR ''_'') b \<and> \<not> str_in ''__'' b"

definition py_int :: "string \<Rightarrow> int option" where
  "py_int s =
     (let t = py_strip s;
          (sgn, body) = (case t of c # r \<Rightarrow> if c = CHR ''-'' then (-1, r) else if c = CHR ''+'' then (1, r) else (1, t)
                                 | [] \<Rightarrow> (1, t))
      in if int_body_ok body then Some (sgn * int (digits_val (filter (\<lambda>c. c \<noteq> CHR ''_'') body))) else None)"

declare digit_char_def [pystr_eval] digit_val_def [pystr_eval] digits_val_def [pystr_eval]
  py_zfill_def [pystr_eval] py_split_def [pystr_eval] py_replace_def [pystr_eval]
  py_splitlines_def [pystr_eval] py_lstrip_def [pystr_eval] py_rstrip_def [pystr_eval]
  py_strip_def [pystr_eval] nat_str.simps [pystr_eval]

subsection \<open>Generic lemmas\<close>

lemma str_in_Nil [simp]: "str_in [] s"
  by (cases s) auto

lemma starts_with_iff: "starts_with p s \<longleftrightarrow> (\<exists>vs. s = p @ vs)"
  by (induction p s rule: starts_with.induct) auto

lemma starts_with_append [simp]: "starts_with p (p @ s)"
  by (simp add: starts_with_iff)

lemma starts_with_drop: "starts_with p s \<Longrightarrow> p @ drop (length p) s = s"
  by (auto simp: starts_with_iff)

lemma str_in_prefix: "starts_with sub s \<Longrightarrow> str_in sub s"
  by (cases s) (auto simp: starts_with_iff)

lemma str_in_iff: "str_in sub s \<longleftrightarrow> (\<exists>us vs. s = us @ sub @ vs)"
proof (induction s)
  case Nil
  then show ?case by auto
next
  case (Cons c cs)
  have "(\<exists>us vs. c # cs = us @ sub @ vs) \<longleftrightarrow>
        (\<exists>vs. c # cs = sub @ vs) \<or> (\<exists>us vs. cs = us @ sub @ vs)"
    by (auto simp: Cons_eq_append_conv)
  with Cons show ?case by (simp add: starts_with_iff)
qed

lemma str_in_append_left: "str_in sub xs \<Longrightarrow> str_in sub (xs @ ys)"
  by (auto simp: str_in_iff) (metis append.assoc)

lemma str_in_append_right: "str_in sub ys \<Longrightarrow> str_in sub (xs @ ys)"
  by (auto simp: str_in_iff) (metis append.assoc)

lemma replicate_numeral_eval [pystr_eval]:
  "replicate (numeral k) x = x # replicate (pred_numeral k) x"
  by (simp add: numeral_eq_Suc)

lemma replace_ne_absent:
  "\<not> str_in old s \<Longrightarrow> replace_ne old new s = s"
proof (induction old new s rule: replace_ne.induct)
  case (2 old new c cs)
  then show ?case by auto
qed simp

lemma py_replace_absent [simp]:
  "old \<noteq> [] \<Longrightarrow> \<not> str_in old s \<Longrightarrow> py_replace s old new = s"
  by (simp add: py_replace_def replace_ne_absent)

lemma py_replace_Nil [simp]: "old \<noteq> [] \<Longrightarrow> py_replace [] old new = []"
  by (simp add: py_replace_def)

text \<open>Splitting and joining with the same separator is a round trip.\<close>

lemma py_join_Cons_split:
  "py_join sep (x # xs) = (if xs = [] then x else x @ sep @ py_join sep xs)"
  by (cases xs) auto

lemma split_aux_nonempty: "split_aux sep acc s \<noteq> []"
  by (induction sep acc s rule: split_aux.induct) auto

lemma join_split_aux:
  "sep \<noteq> [] \<Longrightarrow> py_join sep (split_aux sep acc s) = acc @ s"
proof (induction sep acc s rule: split_aux.induct)
  case (1 sep acc)
  then show ?case by simp
next
  case (2 sep acc c cs)
  show ?case
  proof (cases "starts_with sep (c # cs)")
    case True
    have "py_join sep (split_aux sep [] (drop (length sep) (c # cs))) = drop (length sep) (c # cs)"
      using "2.IH"(1) "2.prems" True by simp
    then have "py_join sep (split_aux sep acc (c # cs)) = acc @ sep @ drop (length sep) (c # cs)"
      using "2.prems" True by (simp add: py_join_Cons_split split_aux_nonempty)
    also have "\<dots> = acc @ c # cs"
      using True by (simp add: starts_with_drop)
    finally show ?thesis .
  next
    case False
    with "2.IH"(2) "2.prems" show ?thesis by simp
  qed
qed

lemma py_join_py_split: "sep \<noteq> [] \<Longrightarrow> py_join sep (py_split s sep) = s"
  by (simp add: py_split_def join_split_aux)

text \<open>Numbers printed by \<open>str\<close> and padded by \<open>zfill\<close> read back by \<open>int\<close>.\<close>

lemma digit_val_digit_char [simp]: "d < 10 \<Longrightarrow> digit_val (digit_char d) = d"
proof -
  assume "d < 10"
  then have "d \<in> {0,1,2,3,4,5,6,7,8,9}" by auto
  then show ?thesis by (auto simp: digit_val_def digit_char_def)
qed

lemma digits_val_append:
  "digits_val (xs @ ys) = foldl (\<lambda>n c. 10 * n + digit_val c) (digits_val xs) ys"
  by (simp add: digits_val_def)

lemma digits_val_nat_str [simp]: "digits_val (nat_str n) = n"
proof (induction n rule: nat_str.induct)
  case (1 n)
  show ?case
  proof (cases "n < 10")
    case True
    then show ?thesis by (simp add: nat_str.simps digits_val_def)
  next
    case False
    with "1.IH" show ?thesis by (simp add: nat_str.simps [of n] digits_val_append)
  qed
qed

lemma digits_val_zeros [simp]: "digits_val (replicate k (CHR ''0'') @ s) = digits_val s"
proof -
  have "foldl (\<lambda>n c. 10 * n + digit_val c) 0 (replicate k (CHR ''0'')) = 0"
    by (induction k) (simp_all add: digit_val_def)
  then show ?thesis by (simp add: digits_val_def del: foldl_append) (simp add: digits_val_def)
qed

lemma digits_val_py_zfill [simp]: "digits_val (py_zfill w s) = digits_val s"
  unfolding py_zfill_def by (rule digits_val_zeros)

lemma length_nat_str_le: "n < 10 ^ k \<Longrightarrow> 0 < k \<Longrightarrow> length (nat_str n) \<le> k"
proof (induction n arbitrary: k rule: nat_str.induct)
  case (1 n)
  show ?case
  proof (cases "n < 10")
    case True
    with "1.prems" show ?thesis by (simp add: nat_str.simps)
  next
    case False
    then obtain k' where k: "k = Suc k'" "0 < k'"
      using "1.prems" by (cases k; cases "k - 1") (auto simp: power_Suc)
    have "n div 10 < 10 ^ k'"
      using "1.prems"(1) k by (simp add: less_mult_imp_div_less mult.commute)
    then have "length (nat_str (n div 10)) \<le> k'"
      using "1.IH" False k(2) by blast
    with False k show ?thesis by (simp add: nat_str.simps [of n])
  qed
qed

lemma is_digit_digit_char: "d < 10 \<Longrightarrow> is_digit (digit_char d)"
  unfolding is_digit_def digit_char_def by (rule nth_mem) simp

lemma nat_str_digits: "\<forall>c \<in> set (nat_str n). is_digit c"
proof (induction n rule: nat_str.induct)
  case (1 n)
  then show ?case by (subst nat_str.simps) (auto simp: is_digit_digit_char)
qed

lemma nat_str_nonempty: "nat_str n \<noteq> []"
  by (subst nat_str.simps) simp

lemma length_py_zfill: "length s \<le> w \<Longrightarrow> length (py_zfill w s) = w"
  by (simp add: py_zfill_def)

text \<open>Removing one character with \<open>replace(c, "")\<close> filters it out.\<close>

lemma replace_ne_single_Nil: "replace_ne [c] [] s = filter (\<lambda>x. x \<noteq> c) s"
  by (induction s) auto

lemma py_replace_remove_char: "py_replace s [c] [] = filter (\<lambda>x. x \<noteq> c) s"
  by (simp add: py_replace_def replace_ne_single_Nil)

lemma filter_py_join: "filter P (py_join sep xs) = py_join (filter P sep) (map (filter P) xs)"
  by (induction sep xs rule: py_join.induct) auto

text \<open>Replacing a text that starts with a character \<open>c\<close>: before the first \<open>c\<close>
  nothing changes.\<close>

lemma replace_ne_no_head: "c \<notin> set x \<Longrightarrow> replace_ne (c # w) new (x @ y) = x @ replace_ne (c # w) new y"
  by (induction x) auto

lemma replace_ne_at_head:
  "replace_ne (c # w) new (c # w @ y) = new @ replace_ne (c # w) new y"
  by simp

lemma replace_ne_no_char: "c \<notin> set y \<Longrightarrow> replace_ne (c # w) new y = y"
  using replace_ne_no_head [of c y w new "[]"] by simp


text \<open>Reading the digits of a concatenation.\<close>

lemma foldl_digits_shift:
  "foldl (\<lambda>n c. 10 * n + digit_val c) a ys = a * 10 ^ length ys + foldl (\<lambda>n c. 10 * n + digit_val c) 0 ys"
proof (induction ys arbitrary: a)
  case (Cons y ys)
  have "foldl (\<lambda>n c. 10 * n + digit_val c) 0 (y # ys) = digit_val y * 10 ^ length ys + foldl (\<lambda>n c. 10 * n + digit_val c) 0 ys"
    using Cons.IH [of "digit_val y"] by simp
  then show ?case using Cons.IH [of "10 * a + digit_val y"] by (simp add: algebra_simps)
qed simp

lemma digits_val_append_pow: "digits_val (xs @ ys) = digits_val xs * 10 ^ length ys + digits_val ys"
proof -
  have "digits_val (xs @ ys) = foldl (\<lambda>n c. 10 * n + digit_val c) (digits_val xs) ys"
    by (rule digits_val_append)
  also have "\<dots> = digits_val xs * 10 ^ length ys + foldl (\<lambda>n c. 10 * n + digit_val c) 0 ys"
    by (rule foldl_digits_shift)
  finally show ?thesis by (simp add: digits_val_def)
qed

lemma length_zfill2: "n < 100 \<Longrightarrow> length (py_zfill 2 (nat_str n)) = 2"
  using length_nat_str_le [of n 2] by (simp add: length_py_zfill)

text \<open>Splitting at a one-character separator.\<close>

lemma split_single_sep:
  "d \<notin> set x \<Longrightarrow> split_aux [d] acc (x @ d # rest) = (acc @ x) # split_aux [d] [] rest"
  by (induction x arbitrary: acc) auto

text \<open>\<open>s.find(sub) == -1\<close> exactly when \<open>sub\<close> does not occur in \<open>s\<close>.\<close>

lemma py_find_neg_iff: "py_find s sub \<ge> -1 \<and> (py_find s sub = -1 \<longleftrightarrow> \<not> str_in sub s)"
  by (induction s) (auto simp: Let_def)

lemma split_aux_no_sep: "d \<notin> set x \<Longrightarrow> split_aux [d] acc x = [acc @ x]"
  by (induction x arbitrary: acc) auto

text \<open>Splitting a join at a one-character separator the parts do not contain
  gives the parts back.\<close>

lemma split_join_single:
  "\<forall>x \<in> set xs. d \<notin> set x \<Longrightarrow> xs \<noteq> [] \<Longrightarrow> py_split (py_join [d] xs) [d] = xs"
proof (induction xs rule: induct_list012)
  case (2 x)
  then show ?case by (simp add: py_split_def split_aux_no_sep)
next
  case (3 x y zs)
  then have "split_aux [d] [] (x @ d # py_join [d] (y # zs)) = x # split_aux [d] [] (py_join [d] (y # zs))"
    using split_single_sep [of d x "[]"] by simp
  with 3 show ?case by (simp add: py_split_def)
qed simp

text \<open>Replacing one character by another with \<open>replace(c, d)\<close> maps it.\<close>

lemma replace_ne_single: "replace_ne [c] [d] s = map (\<lambda>x. if x = c then d else x) s"
  by (induction s) auto

lemma py_replace_single_char: "py_replace s [c] [d] = map (\<lambda>x. if x = c then d else x) s"
  by (simp add: py_replace_def replace_ne_single)

lemma map_py_join: "map f (py_join sep xs) = py_join (map f sep) (map (map f) xs)"
  by (induction sep xs rule: py_join.induct) auto

lemma set_py_join: "set (py_join sep xs) \<subseteq> set sep \<union> \<Union> (set ` set xs)"
  by (induction sep xs rule: py_join.induct) auto

lemma str_in_Cons_mem: "str_in (c # w) s \<Longrightarrow> c \<in> set s"
  by (auto simp: str_in_iff)

end
