(* ===== verification/Hazard.thy ===== *)
theory Hazard
  imports Tsu_Prelude
begin

text \<open>
  The data that flows between the parser, the scenario logic, the area
  description and the composer of \<open>nwr_tsu.py\<close>: the three hazard kinds
  (the dictionary keys \<open>"warning"\<close>, \<open>"watch"\<close>, \<open>"advisory"\<close>), the
  issuance status of a segment (\<open>"new"\<close>, \<open>"continue"\<close>, \<open>"final"\<close>) and
  the \<open>info\<close> dictionary that \<open>grabTWC\<close> returns, as a record whose
  per-hazard entries are functions of the hazard.
\<close>

datatype hazard = Warning | Watch | Advisory

text \<open>The key under which the source stores each hazard.\<close>

fun hazard_name :: "hazard \<Rightarrow> string" where
  "hazard_name Warning = ''warning''"
| "hazard_name Watch = ''watch''"
| "hazard_name Advisory = ''advisory''"

lemma hazard_name_inj: "hazard_name h = hazard_name h' \<longleftrightarrow> h = h'"
  by (cases h; cases h') auto

lemma UNIV_hazard: "(UNIV :: hazard set) = {Warning, Watch, Advisory}"
  using hazard.exhaust by auto

text \<open>The three hazards enumerated, so that equality of the per-hazard entries
  of \<open>info\<close> (functions of the hazard) is executable.\<close>

instantiation hazard :: enum
begin

definition enum_hazard :: "hazard list" where
  "enum_hazard = [Warning, Watch, Advisory]"

definition enum_all_hazard :: "(hazard \<Rightarrow> bool) \<Rightarrow> bool" where
  "enum_all_hazard P \<longleftrightarrow> P Warning \<and> P Watch \<and> P Advisory"

definition enum_ex_hazard :: "(hazard \<Rightarrow> bool) \<Rightarrow> bool" where
  "enum_ex_hazard P \<longleftrightarrow> P Warning \<or> P Watch \<or> P Advisory"

instance
  by standard (auto simp: enum_hazard_def enum_all_hazard_def enum_ex_hazard_def UNIV_hazard)

end

datatype issue = New | Continue | Final

text \<open>
  \<open>info\<close> of \<open>grabTWC\<close>: \<open>info[wwa]\<close> is \<open>zones info wwa\<close>,
  \<open>info["arrivals_"+wwa]\<close> is \<open>arrivals info wwa\<close>.
\<close>

record hazard_info =
  zones :: "hazard \<Rightarrow> zone list"
  arrivals :: "hazard \<Rightarrow> string list"
  issues :: "issue list"
  eseg :: string
  daytime :: string
  extra :: string

text \<open>The dictionary as \<open>grabTWC\<close> initialises it (lines 1052-1062).\<close>

definition info_init :: hazard_info where
  "info_init = \<lparr>zones = (\<lambda>_. []), arrivals = (\<lambda>_. []), issues = [], eseg = [],
                daytime = ''XXXXXX'', extra = []\<rparr>"

text \<open>
  The reduced dictionary \<open>{"warning":[],"watch":[],"advisory":[],"extra":msg}\<close>
  that \<open>grabTWC\<close> returns on a failed or empty parse (lines 1389-1398). The keys
  it lacks are read by \<open>autoFill\<close> only when some hazard has zones, which this
  dictionary never has, so they are given their initial values here.
\<close>

definition info_reduced :: "string \<Rightarrow> hazard_info" where
  "info_reduced msg = info_init\<lparr>extra := msg\<rparr>"

definition has_zones :: "hazard_info \<Rightarrow> hazard \<Rightarrow> bool" where
  "has_zones info h \<longleftrightarrow> zones info h \<noteq> []"

lemma info_reduced_no_zones [simp]: "zones (info_reduced msg) h = []"
  by (simp add: info_reduced_def info_init_def)

lemma info_init_simps [simp]:
  "zones info_init h = []" "arrivals info_init h = []" "issues info_init = []"
  "eseg info_init = []" "extra info_init = []"
  by (simp_all add: info_init_def)

end
