(* ===== verification/ZoneExpand.thy ===== *)
theory ZoneExpand
  imports Tsu_Prelude
begin

text \<open>
  The zone-range expander of \<open>grabTWC\<close> (\<open>nwr_tsu.py\<close> lines 1112 and
  1161-1169): every condensed range \<open>NNN>MMM\<close> of a segment is replaced by the
  dash-joined, zero-padded numbers from \<open>NNN\<close> to \<open>MMM\<close>. The source keeps the
  replacement text \<open>b\<close> in one variable for all the ranges of a segment and
  never resets it, so the text substituted for a range also holds the
  expansions of every earlier range; \<open>expand_ranges\<close> keeps that accumulator.
\<close>

text \<open>\<open>re.findall("[0-9][0-9][0-9]>[0-9][0-9][0-9]", s)\<close>: leftmost, non-overlapping.\<close>

fun range_matches :: "string \<Rightarrow> string list" where
  "range_matches (a # b # c # g # d # e # f # rest) =
     (if is_digit a \<and> is_digit b \<and> is_digit c \<and> g = CHR ''>'' \<and>
         is_digit d \<and> is_digit e \<and> is_digit f
      then [a, b, c, g, d, e, f] # range_matches rest
      else range_matches (b # c # g # d # e # f # rest))"
| "range_matches _ = []"

text \<open>\<open>str(i).zfill(3)\<close>: the three-digit zone number.\<close>

definition zone_num :: "nat \<Rightarrow> string" where
  "zone_num i = py_zfill 3 (nat_str i)"

text \<open>The text the inner loop appends for one range: \<open>str(i).zfill(3)+"-"\<close> for
  \<open>i\<close> in \<open>range(lo, hi+1)\<close>.\<close>

definition range_expansion :: "nat \<Rightarrow> nat \<Rightarrow> string" where
  "range_expansion lo hi = concat (map (\<lambda>i. zone_num i @ ''-'') [lo..<Suc hi])"

text \<open>The outer loop over the matches; \<open>b\<close> is carried from one match to the next.\<close>

fun expand_ranges :: "string \<Rightarrow> string \<Rightarrow> string list \<Rightarrow> string" where
  "expand_ranges b s [] = s"
| "expand_ranges b s (a # as) =
     (let tmp2 = py_split a ''>'';
          b' = b @ range_expansion (digits_val (tmp2 ! 0)) (digits_val (tmp2 ! 1))
      in expand_ranges b' (py_replace s a b') as)"

text \<open>Lines 1161-1169: expand when there is a match, then \<open>s.replace("--","-")\<close>.\<close>

definition zone_expand :: "string \<Rightarrow> string" where
  "zone_expand s =
     (let tmp = range_matches s;
          s' = (if tmp \<noteq> [] then expand_ranges [] s tmp else s)
      in py_replace s' ''--'' ''-'')"

subsection \<open>Lemmas\<close>

lemma zone_num_digits: "\<forall>c \<in> set (zone_num i). is_digit c"
proof -
  have "is_digit (CHR ''0'')" by (simp add: is_digit_def)
  with nat_str_digits [of i] show ?thesis by (auto simp: zone_num_def py_zfill_def)
qed

lemma dash_notin_zone_num [simp]: "CHR ''-'' \<notin> set (zone_num i)"
proof -
  have "\<not> is_digit (CHR ''-'')" by (simp add: is_digit_def)
  with zone_num_digits [of i] show ?thesis by blast
qed

lemma split_range_tokens:
  "py_split (concat (map (\<lambda>i. zone_num i @ ''-'') xs)) ''-'' = map zone_num xs @ ['''']"
proof -
  have "split_aux ''-'' [] (concat (map (\<lambda>i. zone_num i @ ''-'') xs)) = map zone_num xs @ ['''']"
  proof (induction xs)
    case (Cons x xs)
    have "split_aux ''-'' [] (zone_num x @ CHR ''-'' # concat (map (\<lambda>i. zone_num i @ ''-'') xs))
          = zone_num x # split_aux ''-'' [] (concat (map (\<lambda>i. zone_num i @ ''-'') xs))"
      using split_single_sep [of "CHR ''-''" "zone_num x" "[]"] by simp
    with Cons.IH show ?case by simp
  qed simp
  then show ?thesis by (simp add: py_split_def)
qed

lemma length_zone_num: "i < 1000 \<Longrightarrow> length (zone_num i) = 3"
  using length_nat_str_le [of i 3] by (simp add: zone_num_def length_py_zfill)

lemma digits_val_zone_num [simp]: "digits_val (zone_num i) = i"
  by (simp add: zone_num_def)

subsection \<open>Properties of the expander\<close>

text \<open>
  C1. The text appended for a range \<open>lo>hi\<close> (numbers below 1000) splits at
  the dashes into exactly the zero-padded three-digit numbers \<open>lo\<close>,
  \<open>lo+1\<close>, ..., \<open>hi\<close> (followed by the empty tail after the last dash),
  and each of them reads back as its number.
\<close>

theorem range_expansion_tokens:
  assumes "hi < 1000"
  shows "py_split (range_expansion lo hi) ''-'' = map zone_num [lo..<Suc hi] @ [''''] \<and>
         (\<forall>i \<in> set [lo..<Suc hi]. length (zone_num i) = 3 \<and> digits_val (zone_num i) = i)"
  using assms by (auto simp: range_expansion_def split_range_tokens length_zone_num)

theorem range_expansion_tokens_witness:
  "py_split (range_expansion 39 41) ''-'' = [''039'', ''040'', ''041'', ''''] \<and>
   length (zone_num 40) = 3 \<and> digits_val (zone_num 40) = 40"
proof -
  have "(41::nat) < 1000" by simp
  from range_expansion_tokens [OF this, of 39] show ?thesis
    by (simp add: zone_num_def pystr_eval upt_rec)
qed

text \<open>
  A degenerate range \<open>NNN>NNN\<close> expands to the single number, and a
  reversed range \<open>NNN>MMM\<close> with \<open>MMM < NNN\<close> expands to nothing:
  \<open>range(NNN, MMM+1)\<close> is empty, so the range disappears from the zone line.
\<close>

theorem range_expansion_degenerate:
  "range_expansion n n = zone_num n @ ''-'' \<and> (hi < lo \<longrightarrow> range_expansion lo hi = [])"
  by (simp add: range_expansion_def)

theorem range_expansion_degenerate_witness:
  "range_expansion 41 41 = ''041-'' \<and> range_expansion 41 39 = []"
  using range_expansion_degenerate [of 41 39 41] by (simp add: zone_num_def pystr_eval)

text \<open>
  On a zone line with one condensed range, \<open>zone_expand\<close> writes the
  range out: \<open>CAZ039>041\<close> becomes \<open>CAZ039-040-041\<close>.
\<close>

theorem zone_expand_single_range:
  "zone_expand ''\<newline>CAZ039>041-'' = ''\<newline>CAZ039-040-041-''"
  by (simp add: zone_expand_def range_expansion_def zone_num_def pystr_eval upt_rec)


end
