(* ===== verification/BulletinParser.thy ===== *)
theory BulletinParser
  imports Hazard ZoneExpand
begin

text \<open>
  The zone path of \<open>grabTWC\<close> (\<open>nwr_tsu.py\<close> lines 1111-1188 and 1389-1400):
  the bulletin is upper-cased and split into \<open>$$\<close> segments; in each
  segment the first VTEC line that is not expiring, cancelled or upgraded
  names the hazard and the issuance status; the condensed zone ranges are
  expanded (theory \<open>ZoneExpand\<close>), the first zone line is found, and the
  zones of the office are appended to the hazard's list, which is then
  sorted. After the loop an empty result is replaced by the reduced
  dictionary with its notice, and a bulletin that contains \<open>TEST\<close> gets the
  test notice. The state of the loop is the \<open>info\<close> record and the
  \<open>testvtec\<close> flag. The arrival and earthquake paragraphs that the loop
  also reads are modelled in later theories.
\<close>

subsection \<open>Bulletin variant (lines 1118-1127)\<close>

record variant_flags =
  isHawaii :: bool
  isGuam :: bool
  isCarib :: bool

definition detect_variant :: "string \<Rightarrow> variant_flags" where
  "detect_variant seg0 =
     \<lparr>isHawaii = (py_find seg0 (NL # ''TSUHWX'') > 0),
      isGuam = (py_find seg0 (NL # ''TSUGUM'') > 0 \<or> py_find seg0 (NL # ''TSUPPG'') > 0),
      isCarib = (py_find seg0 (NL # ''TSUCA1'') > 0)\<rparr>"

subsection \<open>The VTEC line of a segment (lines 1134-1158)\<close>

definition is_vtec_line :: "string \<Rightarrow> bool" where
  "is_vtec_line l \<longleftrightarrow> str_in ''TS.W'' l \<or> str_in ''TS.A'' l \<or> str_in ''TS.Y'' l"

definition is_terminal_line :: "string \<Rightarrow> bool" where
  "is_terminal_line l \<longleftrightarrow> str_in ''.EXP.'' l \<or> str_in ''.CAN.'' l \<or> str_in ''.UPG.'' l"

text \<open>The loop over the lines stops at the first VTEC line that is not terminal.\<close>

fun select_vline :: "string list \<Rightarrow> string" where
  "select_vline [] = []"
| "select_vline (l # ls) = (if is_vtec_line l \<and> \<not> is_terminal_line l then l else select_vline ls)"

text \<open>\<open>TS.A\<close> is tested first, then \<open>TS.W\<close>, then \<open>TS.Y\<close> (lines 1146-1149).\<close>

definition hazard_of_vline :: "string \<Rightarrow> hazard option" where
  "hazard_of_vline v =
     (if str_in ''TS.A'' v then Some Watch
      else if str_in ''TS.W'' v then Some Warning
      else if str_in ''TS.Y'' v then Some Advisory else None)"

text \<open>Lines 1152-1157; the extension codes are looked for in the whole segment \<open>s\<close>.\<close>

definition issue_of :: "string \<Rightarrow> string \<Rightarrow> issue" where
  "issue_of v s =
     (let i1 = (if str_in ''.EXP.'' v \<or> str_in ''.CAN.'' v then Final else New);
          i2 = (if str_in ''.CON.'' v \<or> str_in ''.UPG.'' v \<or> str_in ''.EXT.'' s \<or>
                   str_in ''.EXB.'' s \<or> str_in ''.EXA.'' s then Continue else i1)
      in if str_in ''.NEW.'' v then New else i2)"

subsection \<open>The zone line (lines 1170-1173)\<close>

definition zone_class :: "char \<Rightarrow> bool" where
  "zone_class c \<longleftrightarrow> is_upper c \<or> is_digit c \<or> c = CHR ''-'' \<or> c = NL"

text \<open>\<open>re.findall("\n[A-Z][A-Z][Z][0-9][0-9][0-9]-[A-Z0-9-\n]+", s)[0]\<close>: the
  leftmost match, extended greedily.\<close>

fun zone_block :: "string \<Rightarrow> string option" where
  "zone_block (n # a # b # z # d1 # d2 # d3 # h # c # rest) =
     (if n = NL \<and> is_upper a \<and> is_upper b \<and> z = CHR ''Z'' \<and> is_digit d1 \<and> is_digit d2 \<and>
         is_digit d3 \<and> h = CHR ''-'' \<and> zone_class c
      then Some (n # a # b # z # d1 # d2 # d3 # h # takeWhile zone_class (c # rest))
      else zone_block (a # b # z # d1 # d2 # d3 # h # c # rest))"
| "zone_block _ = None"

subsection \<open>Zone accumulation (lines 1174-1188)\<close>

definition add_issue :: "issue \<Rightarrow> issue list \<Rightarrow> issue list" where
  "add_issue i is = (if i \<in> set is then is else is @ [i])"

text \<open>
  The loop over the tokens of the zone line: a token longer than three
  characters that contains \<open>Z\<close> sets the prefix \<open>pre\<close> and is itself a
  zone; a token of three characters is a zone number under the last prefix.
  A zone is appended when the office has it and it is not yet in the list;
  the issuance status is recorded with it.
\<close>

fun collect_zones ::
  "zone list \<Rightarrow> issue \<Rightarrow> string \<Rightarrow> zone list \<times> issue list \<Rightarrow> string list \<Rightarrow> zone list \<times> issue list"
where
  "collect_zones ids iss pre acc [] = acc"
| "collect_zones ids iss pre (zs, is) (a # arr) =
     (if 3 < length a then
        (if str_in ''Z'' a then
           (if a \<notin> set zs \<and> a \<in> set ids
            then collect_zones ids iss (take 3 a) (zs @ [a], add_issue iss is) arr
            else collect_zones ids iss (take 3 a) (zs, is) arr)
         else collect_zones ids iss pre (zs, is) arr)
      else
        (let zid = pre @ a in
         if length a = 3 \<and> zid \<notin> set zs \<and> zid \<in> set ids
         then collect_zones ids iss pre (zs @ [zid], add_issue iss is) arr
         else collect_zones ids iss pre (zs, is) arr))"

subsection \<open>One segment, the loop, the result\<close>

text \<open>Line 1134: the lines of a segment.\<close>

definition segment_lines :: "string \<Rightarrow> string list" where
  "segment_lines s = py_splitlines (py_replace (py_replace s [CHR 0x0D] []) [NL, CHR '' ''] [NL])"

text \<open>The body of \<open>for s in segs\<close> on the zone path; the state is \<open>(info, testvtec)\<close>.\<close>

definition process_segment :: "zone list \<Rightarrow> hazard_info \<times> bool \<Rightarrow> string \<Rightarrow> hazard_info \<times> bool" where
  "process_segment ids st s =
     (let (info, tv) = st;
          vline = select_vline (segment_lines s)
      in if vline = [] then (info, tv)
         else case hazard_of_vline vline of
           None \<Rightarrow> (info, tv)
         | Some w \<Rightarrow>
             (let tv' = (tv \<or> str_in ''/T.'' vline);
                  iss = issue_of vline s
              in if iss = Final then (info, tv')
                 else case zone_block (zone_expand s) of
                   None \<Rightarrow> (info, tv')
                 | Some blk \<Rightarrow>
                     (let arr = py_split (py_replace blk [NL] []) ''-'';
                          (zs, is) = collect_zones ids iss [] (zones info w, issues info) arr
                      in (info\<lparr>zones := (zones info)(w := sort zs), issues := is\<rparr>, tv'))))"

definition bulletin_segments :: "string \<Rightarrow> string list" where
  "bulletin_segments tsuin = py_split (py_upper (py_replace tsuin [CHR 0x0D] [])) ''$$''"

definition parse_segments :: "zone list \<Rightarrow> string \<Rightarrow> hazard_info \<times> bool" where
  "parse_segments ids tsuin = foldl (process_segment ids) (info_init, False) (bulletin_segments tsuin)"

definition msg_no_wwa :: string where
  "msg_no_wwa = ''No tsunami WWA is in effect for your area, or the parsing failed.'' @ [NL] @
     ''Click the View TSU statement to check or load a previous version''"

definition msg_test :: string where
  "msg_test = ''The latest message from the Tsunami Warning Center appears to be a test.'' @ [NL] @
     ''You may Load it with test wording or cancel.''"

text \<open>Lines 1394-1400: the empty result and the test notice.\<close>

definition grab_twc :: "zone list \<Rightarrow> string \<Rightarrow> hazard_info" where
  "grab_twc ids tsuin =
     (let (info, tv) = parse_segments ids tsuin
      in if zones info Warning = [] \<and> zones info Watch = [] \<and> zones info Advisory = []
         then info_reduced msg_no_wwa
         else if tsuin \<noteq> [] \<and> ((tv \<and> str_in ''TEST'' tsuin) \<or> str_in ''TEST'' tsuin)
         then info\<lparr>extra := msg_test\<rparr>
         else info)"

subsection \<open>Invariant of the parse state\<close>

text \<open>
  What the loop keeps true of the state: each hazard's zone list is sorted,
  without repetitions and made of zones of the office, and the status
  \<open>Final\<close> is never recorded.
\<close>

definition zones_ok :: "zone list \<Rightarrow> hazard_info \<Rightarrow> bool" where
  "zones_ok ids info \<longleftrightarrow>
     (\<forall>h. sorted (zones info h) \<and> distinct (zones info h) \<and> set (zones info h) \<subseteq> set ids)"

definition parse_inv :: "zone list \<Rightarrow> hazard_info \<Rightarrow> bool" where
  "parse_inv ids info \<longleftrightarrow> zones_ok ids info \<and> Final \<notin> set (issues info)"

lemma add_issue_set: "set (add_issue i is) = insert i (set is)"
  by (auto simp: add_issue_def)

lemma collect_zones_inv:
  assumes "distinct (fst acc)" "set (fst acc) \<subseteq> set ids" "Final \<notin> set (snd acc)" "iss \<noteq> Final"
  shows "distinct (fst (collect_zones ids iss pre acc arr)) \<and>
         set (fst (collect_zones ids iss pre acc arr)) \<subseteq> set ids \<and>
         Final \<notin> set (snd (collect_zones ids iss pre acc arr))"
  using assms
  by (induction ids iss pre acc arr rule: collect_zones.induct)
     (auto simp: Let_def add_issue_set)

lemma select_vline_not_terminal:
  "select_vline ss \<noteq> [] \<Longrightarrow> \<not> is_terminal_line (select_vline ss)"
  by (induction ss) auto

lemma issue_of_not_Final:
  "\<not> is_terminal_line v \<Longrightarrow> issue_of v s \<noteq> Final"
  by (auto simp: issue_of_def is_terminal_line_def Let_def)

lemma collect_step_inv:
  assumes "parse_inv ids info" "iss \<noteq> Final"
  shows "parse_inv ids (info\<lparr>zones := (zones info)(w := sort (fst (collect_zones ids iss pre (zones info w, issues info) arr))),
                           issues := snd (collect_zones ids iss pre (zones info w, issues info) arr)\<rparr>)"
proof -
  let ?c = "collect_zones ids iss pre (zones info w, issues info) arr"
  from assms(1) have "distinct (zones info w)" "set (zones info w) \<subseteq> set ids" "Final \<notin> set (issues info)"
    by (auto simp: parse_inv_def zones_ok_def)
  with collect_zones_inv [OF _ _ _ assms(2)]
  have "distinct (fst ?c)" "set (fst ?c) \<subseteq> set ids" "Final \<notin> set (snd ?c)"
    by simp_all
  with assms(1) show ?thesis by (auto simp: parse_inv_def zones_ok_def)
qed

lemma process_segment_inv:
  assumes "parse_inv ids (fst st)"
  shows "parse_inv ids (fst (process_segment ids st s))"
proof -
  obtain info tv where st: "st = (info, tv)" by fastforce
  with assms have "parse_inv ids info" by simp
  then show ?thesis
    unfolding st process_segment_def
    by (simp add: Let_def split_def collect_step_inv split: option.splits)
qed

lemma parse_segments_inv: "parse_inv ids (fst (parse_segments ids tsuin))"
proof -
  have "parse_inv ids (fst (foldl (process_segment ids) st segs))" if "parse_inv ids (fst st)" for st segs
    using that
  proof (induction segs arbitrary: st)
    case (Cons s segs)
    from Cons.prems have "parse_inv ids (fst (process_segment ids st s))"
      by (rule process_segment_inv)
    then show ?case by (simp add: Cons.IH)
  qed simp
  moreover have "parse_inv ids info_init"
    by (simp add: parse_inv_def zones_ok_def)
  ultimately show ?thesis by (simp add: parse_segments_def)
qed

lemma grab_twc_cases:
  "grab_twc ids tsuin = info_reduced msg_no_wwa \<or>
   grab_twc ids tsuin = fst (parse_segments ids tsuin) \<or>
   grab_twc ids tsuin = (fst (parse_segments ids tsuin))\<lparr>extra := msg_test\<rparr>"
  by (auto simp: grab_twc_def split: prod.splits)

lemma select_vline_Nil:
  "\<forall>l \<in> set ss. is_vtec_line l \<longrightarrow> is_terminal_line l \<Longrightarrow> select_vline ss = []"
  by (induction ss) auto

lemma process_segment_extra: "extra (fst (process_segment ids st s)) = extra (fst st)"
  by (simp add: process_segment_def Let_def split_def split: option.splits)

lemma parse_segments_extra: "extra (fst (parse_segments ids tsuin)) = []"
proof -
  have "extra (fst (foldl (process_segment ids) st segs)) = extra (fst st)" for st segs
    by (induction segs arbitrary: st) (simp_all add: process_segment_extra)
  then show ?thesis by (simp add: parse_segments_def)
qed

lemma msg_test_not_Nil: "msg_test \<noteq> []"
  by (simp add: msg_test_def)

lemma grab_twc_zones_ok: "zones_ok ids (grab_twc ids tsuin)"
proof -
  have "zones_ok ids (fst (parse_segments ids tsuin))"
    using parse_segments_inv by (simp add: parse_inv_def)
  moreover have "zones_ok ids (info_reduced msg)" for msg
    by (simp add: zones_ok_def)
  moreover have "zones_ok ids (info\<lparr>extra := m\<rparr>) \<longleftrightarrow> zones_ok ids info" for info m
    by (simp add: zones_ok_def)
  ultimately show ?thesis
    using grab_twc_cases [of ids tsuin] by (elim disjE) simp_all
qed

lemmas parser_eval = grab_twc_def parse_segments_def bulletin_segments_def process_segment_def
  segment_lines_def hazard_of_vline_def issue_of_def is_vtec_line_def is_terminal_line_def
  zone_expand_def zone_class_def Let_def

subsection \<open>Properties of the parser\<close>

text \<open>
  C3. Whatever the bulletin, each hazard's zone list in the result of
  \<open>grabTWC\<close> is sorted ascending, has no repeated zone and holds only zones
  configured for the office.
\<close>

theorem grab_twc_zones_wellformed:
  "sorted (zones (grab_twc ids tsuin) h) \<and> distinct (zones (grab_twc ids tsuin) h) \<and>
   set (zones (grab_twc ids tsuin) h) \<subseteq> set ids"
  using grab_twc_zones_ok [of ids tsuin] by (simp add: zones_ok_def)

text \<open>
  C4. The issuance status \<open>final\<close> is never recorded: lines with
  \<open>.EXP.\<close> or \<open>.CAN.\<close> are skipped when the VTEC line is chosen, so the test
  for them that follows can never succeed, and the cancellation notice of
  \<open>autoFill\<close> (\<open>info["issue"]==["final"]\<close>) cannot be reached.
\<close>

theorem grab_twc_never_final: "Final \<notin> set (issues (grab_twc ids tsuin))"
proof -
  have "Final \<notin> set (issues (fst (parse_segments ids tsuin)))"
    using parse_segments_inv by (simp add: parse_inv_def)
  then show ?thesis
    using grab_twc_cases [of ids tsuin] by (auto simp: info_reduced_def)
qed

text \<open>
  A segment whose VTEC lines all expire, cancel or upgrade contributes
  nothing: the parse state is left as it was.
\<close>

theorem terminal_segment_unchanged:
  assumes "\<forall>l \<in> set (segment_lines s). is_vtec_line l \<longrightarrow> is_terminal_line l"
  shows "process_segment ids st s = st"
  using select_vline_Nil [OF assms] by (simp add: process_segment_def split_def)

theorem terminal_segment_unchanged_witness:
  "process_segment [''CAZ039''] (info_init, False)
     (''\<newline>CAZ039-091300-\<newline>/O.CAN.PAAQ.TS.W.0001.000000T0000Z-000000T0000Z/\<newline>'') =
   (info_init, False)"
proof -
  have "\<forall>l \<in> set (segment_lines
          (''\<newline>CAZ039-091300-\<newline>/O.CAN.PAAQ.TS.W.0001.000000T0000Z-000000T0000Z/\<newline>'')).
          is_vtec_line l \<longrightarrow> is_terminal_line l"
    by (simp add: segment_lines_def is_vtec_line_def is_terminal_line_def pystr_eval)
  then show ?thesis by (rule terminal_segment_unchanged)
qed


text \<open>
  C6. Once some hazard has zones, the test notice is set exactly when the
  raw bulletin contains the substring \<open>TEST\<close>: the VTEC test flag plays no
  part, and any word containing \<open>TEST\<close> (such as \<open>LATEST\<close>) marks a live
  bulletin as a test.
\<close>

theorem grab_twc_test_notice:
  assumes "zones (fst (parse_segments ids tsuin)) h \<noteq> []"
  shows "extra (grab_twc ids tsuin) = msg_test \<longleftrightarrow> str_in ''TEST'' tsuin"
proof -
  have nz: "\<not> (zones (fst (parse_segments ids tsuin)) Warning = [] \<and>
              zones (fst (parse_segments ids tsuin)) Watch = [] \<and>
              zones (fst (parse_segments ids tsuin)) Advisory = [])"
    using assms by (cases h) auto
  have "str_in ''TEST'' tsuin \<Longrightarrow> tsuin \<noteq> []" by auto
  with nz show ?thesis
    using parse_segments_extra [of ids tsuin] msg_test_not_Nil
    by (auto simp: grab_twc_def split: prod.splits)
qed

theorem grab_twc_test_notice_witness:
  "extra (grab_twc [''CAZ039''] (''$$\<newline>CAZ039-091300-\<newline>/O.NEW.PAAQ.TS.W.0001.000000T0000Z-000000T0000Z/'' @
      ''\<newline>THE LATEST FORECAST\<newline>$$'')) = msg_test"
proof -
  let ?t = "''$$\<newline>CAZ039-091300-\<newline>/O.NEW.PAAQ.TS.W.0001.000000T0000Z-000000T0000Z/'' @
      ''\<newline>THE LATEST FORECAST\<newline>$$''"
  have z: "zones (fst (parse_segments [''CAZ039''] ?t)) Warning \<noteq> []"
    by (simp add: parser_eval pystr_eval)
  have "str_in ''TEST'' ?t" by simp
  with grab_twc_test_notice [OF z] show ?thesis by simp
qed

text \<open>
  The spec's end-to-end example: a two-segment bulletin whose segment
  carries a \<open>NEW\<close> warning for zones \<open>039-040\<close> parses to the warning
  zones \<open>CAZ039, CAZ040\<close>, no watch or advisory zones, the status
  \<open>new\<close> and no notice.
\<close>

theorem grab_twc_spec_example:
  "zones (grab_twc [''CAZ039'', ''CAZ040'', ''CAZ041'']
      (''WEPA41 PAAQ 091200\<newline>TSUWCA\<newline>$$\<newline>CAZ039-040-091300-\<newline>'' @
       ''/O.NEW.PAAQ.TS.W.0001.000000T0000Z-000000T0000Z/\<newline>COASTAL AREAS\<newline>$$'')) =
     (\<lambda>h. if h = Warning then [''CAZ039'', ''CAZ040''] else []) \<and>
   issues (grab_twc [''CAZ039'', ''CAZ040'', ''CAZ041'']
      (''WEPA41 PAAQ 091200\<newline>TSUWCA\<newline>$$\<newline>CAZ039-040-091300-\<newline>'' @
       ''/O.NEW.PAAQ.TS.W.0001.000000T0000Z-000000T0000Z/\<newline>COASTAL AREAS\<newline>$$'')) = [New] \<and>
   extra (grab_twc [''CAZ039'', ''CAZ040'', ''CAZ041'']
      (''WEPA41 PAAQ 091200\<newline>TSUWCA\<newline>$$\<newline>CAZ039-040-091300-\<newline>'' @
       ''/O.NEW.PAAQ.TS.W.0001.000000T0000Z-000000T0000Z/\<newline>COASTAL AREAS\<newline>$$'')) = []"
  by (simp add: parser_eval pystr_eval add_issue_def fun_eq_iff)

end
