(* ===== verification/Scenario.thy ===== *)
theory Scenario
  imports Hazard
begin

text \<open>
  The scenario decision of \<open>autoFill\<close> (\<open>nwr_tsu.py\<close> lines 631-656) and
  the operator decision of \<open>comboOption\<close> (lines 886-927). \<open>autoFill\<close>
  is called with \<open>combowhat\<close> empty on a fresh load, with \<open>"all"\<close> when the
  operator asked for the combined statement, or with one hazard chosen from
  the combo window. From the zone lists of \<open>info\<close> and the configuration
  flag \<open>advisory_handle\<close> it either settles the string \<open>dowhat\<close> or opens
  the combo window and returns: the two outcomes of \<open>resolution\<close>. The combo
  window offers one button per hazard of the combination (the \<open>All\<close> button
  needs \<open>combo_handle == "yes"\<close>, which line 329 fixes to \<open>"no"\<close>).
\<close>

datatype combowhat = CNone | CAll | CHaz hazard

text \<open>\<open>dowhat\<close>: \<open>""\<close>, one hazard name, \<open>"a_b"\<close>, or \<open>"warning_watch_advisory"\<close>.\<close>

datatype dowhat = DNone | DSingle hazard | DPair hazard hazard | DTriple

datatype resolution = Resolved dowhat | AskCombo dowhat

definition resolve_scenario :: "combowhat \<Rightarrow> bool \<Rightarrow> hazard_info \<Rightarrow> resolution" where
  "resolve_scenario cw adv_handle info =
     (let wa = (zones info Warning = []); wt = (zones info Watch = []); ad = (zones info Advisory = [])
      in case cw of
        CHaz h \<Rightarrow> Resolved (DSingle h)
      | _ \<Rightarrow>
        (if wa \<and> wt \<and> ad then Resolved DNone
         else if \<not> adv_handle then
           (if wa \<and> wt then Resolved DNone
            else if wa then Resolved (DSingle Watch)
            else if wt then Resolved (DSingle Warning)
            else if cw = CAll then Resolved (DPair Warning Watch)
            else AskCombo (DPair Warning Watch))
         else if wa \<and> wt then Resolved (DSingle Advisory)
         else if wa \<and> ad then Resolved (DSingle Watch)
         else if wt \<and> ad then Resolved (DSingle Warning)
         else
           (let d = (if wa then DPair Watch Advisory
                     else if wt then DPair Warning Advisory
                     else if ad then DPair Warning Watch
                     else DTriple)
            in if cw \<noteq> CAll then AskCombo d else Resolved d)))"

text \<open>The hazard buttons of the combo window, in the order \<open>comboOption\<close> makes them.\<close>

fun dowhat_hazards :: "dowhat \<Rightarrow> hazard list" where
  "dowhat_hazards DNone = []"
| "dowhat_hazards (DSingle h) = [h]"
| "dowhat_hazards (DPair a b) = [a, b]"
| "dowhat_hazards DTriple = [Warning, Watch, Advisory]"

definition combo_choices :: "dowhat \<Rightarrow> hazard list" where
  "combo_choices d = filter (\<lambda>h. h \<in> set (dowhat_hazards d)) [Warning, Watch, Advisory]"

subsection \<open>The abstract decision\<close>

text \<open>
  The scenario the spec describes: the hazards that count are those with
  zones, with advisories dropped when advisory handling is off; none, one,
  two or three of them give the four scenarios, and a combination needs the
  operator's decision.
\<close>

definition active_hazards :: "bool \<Rightarrow> hazard_info \<Rightarrow> hazard list" where
  "active_hazards adv_handle info =
     filter (\<lambda>h. zones info h \<noteq> [] \<and> (adv_handle \<or> h \<noteq> Advisory)) [Warning, Watch, Advisory]"

fun scenario_of :: "hazard list \<Rightarrow> dowhat" where
  "scenario_of [] = DNone"
| "scenario_of [h] = DSingle h"
| "scenario_of [a, b] = DPair a b"
| "scenario_of _ = DTriple"

definition needs_decision :: "dowhat \<Rightarrow> bool" where
  "needs_decision d \<longleftrightarrow> (case d of DPair _ _ \<Rightarrow> True | DTriple \<Rightarrow> True | _ \<Rightarrow> False)"

definition resolve_spec :: "bool \<Rightarrow> hazard_info \<Rightarrow> resolution" where
  "resolve_spec adv_handle info =
     (let d = scenario_of (active_hazards adv_handle info)
      in if needs_decision d then AskCombo d else Resolved d)"

text \<open>Two sample parse results: warning and watch zones; zones for all three hazards.\<close>

definition info_ww :: hazard_info where
  "info_ww = info_init\<lparr>zones := (\<lambda>h. if h = Advisory then [] else [''CAZ039''])\<rparr>"

definition info_all3 :: hazard_info where
  "info_all3 = info_init\<lparr>zones := (\<lambda>h. [''CAZ039''])\<rparr>"

subsection \<open>Properties of the decision\<close>

text \<open>
  C7. On a fresh load the nested tests of \<open>autoFill\<close> implement the
  abstract decision: for all eight combinations of empty and non-empty zone
  lists and both settings of advisory handling, the outcome is the scenario
  of the active hazards, settled when it is none or one hazard and put to
  the operator when hazards combine.
\<close>

theorem resolve_scenario_refines_spec:
  "resolve_scenario CNone adv_handle info = resolve_spec adv_handle info"
  by (cases "zones info Warning = []"; cases "zones info Watch = []";
      cases "zones info Advisory = []"; cases adv_handle)
     (simp_all add: resolve_scenario_def resolve_spec_def active_hazards_def needs_decision_def)

text \<open>
  C8. Every button the combo window offers leads, when pressed, to a settled
  single-hazard scenario for a hazard that has zones; the offered hazards are
  exactly those of the combination.
\<close>

theorem combo_choice_resolves:
  assumes "resolve_scenario CNone adv_handle info = AskCombo d" "h \<in> set (combo_choices d)"
  shows "resolve_scenario (CHaz h) adv_handle info = Resolved (DSingle h) \<and> zones info h \<noteq> []"
proof -
  have "h \<in> set (dowhat_hazards d)" using assms(2) by (simp add: combo_choices_def del: filter.simps)
  with assms(1) have "zones info h \<noteq> []"
    by (cases "zones info Warning = []"; cases "zones info Watch = []";
        cases "zones info Advisory = []"; cases adv_handle; cases h)
       (auto simp: resolve_scenario_def)
  then show ?thesis by (simp add: resolve_scenario_def)
qed

theorem combo_choice_resolves_witness:
  "resolve_scenario (CHaz Watch) True info_ww = Resolved (DSingle Watch) \<and> zones info_ww Watch \<noteq> []"
proof -
  have a: "resolve_scenario CNone True info_ww = AskCombo (DPair Warning Watch)"
    by (simp add: resolve_scenario_def info_ww_def)
  have b: "Watch \<in> set (combo_choices (DPair Warning Watch))"
    by (simp add: combo_choices_def)
  from combo_choice_resolves [OF a b] show ?thesis .
qed

text \<open>
  All three hazards together are not reported as an unsupported
  combination: the operator is offered the three single hazards, and the
  combined request (\<open>"all"\<close>) settles the triple scenario as if it could
  be composed.
\<close>

theorem triple_not_unsupported:
  assumes "zones info Warning \<noteq> []" "zones info Watch \<noteq> []" "zones info Advisory \<noteq> []" "adv_handle"
  shows "resolve_scenario CNone adv_handle info = AskCombo DTriple \<and>
         combo_choices DTriple = [Warning, Watch, Advisory] \<and>
         resolve_scenario CAll adv_handle info = Resolved DTriple"
  using assms by (simp add: resolve_scenario_def combo_choices_def)

theorem triple_not_unsupported_witness:
  "resolve_scenario CNone True info_all3 = AskCombo DTriple \<and>
   combo_choices DTriple = [Warning, Watch, Advisory] \<and>
   resolve_scenario CAll True info_all3 = Resolved DTriple"
  by (rule triple_not_unsupported) (simp_all add: info_all3_def)

end
