(* ===== verification/AreaDescription.thy ===== *)
theory AreaDescription
  imports Hazard Scenario
begin

text \<open>
  The area phrase of a statement: \<open>zonelistFull\<close> (\<open>nwr_tsu.py\<close> lines
  1510-1527) names a list of zones, and \<open>breakpointMe\<close> (lines 1530-1604)
  chooses for each hazard between the office's short local phrase, a
  breakpoint phrase \<open>coastal areas D of B\<close> and the list of zone names.
  \<open>zonelistFull\<close> builds its list with Python's \<open>str()\<close> of a list of
  strings and then strips the brackets and quotes; \<open>py_repr\<close> is the
  \<open>repr\<close> of a string that \<open>str()\<close> writes for each element.
\<close>

subsection \<open>\<open>str(list)\<close>\<close>

definition hex_digit :: "nat \<Rightarrow> char" where
  "hex_digit d = ''0123456789abcdef'' ! d"

text \<open>One character inside the quotes \<open>q\<close> of \<open>repr\<close> (ASCII text).\<close>

definition repr_char :: "char \<Rightarrow> char \<Rightarrow> string" where
  "repr_char q c =
     (if c = CHR 0x5C then [CHR 0x5C, CHR 0x5C]
      else if c = q then [CHR 0x5C, q]
      else if c = NL then [CHR 0x5C, CHR ''n'']
      else if c = CHR 0x09 then [CHR 0x5C, CHR ''t'']
      else if c = CHR 0x0D then [CHR 0x5C, CHR ''r'']
      else if of_char c < (32::nat) \<or> of_char c = (127::nat)
      then [CHR 0x5C, CHR ''x'', hex_digit (of_char c div 16), hex_digit (of_char c mod 16)]
      else [c])"

text \<open>Single quotes, unless the string has a single and no double quote.\<close>

definition py_repr :: "string \<Rightarrow> string" where
  "py_repr s =
     (let q = (if CHR 0x27 \<in> set s \<and> CHR 0x22 \<notin> set s then CHR 0x22 else CHR 0x27)
      in q # concat (map (repr_char q) s) @ [q])"

definition py_str_list :: "string list \<Rightarrow> string" where
  "py_str_list xs = ''['' @ py_join '', '' (map py_repr xs) @ '']''"

subsection \<open>\<open>zonelistFull\<close>\<close>

definition zonelist_full :: "(zone \<Rightarrow> string option) \<Rightarrow> zone list \<Rightarrow> string" where
  "zonelist_full zone_list zs =
     (let pre = map (\<lambda>z. case zone_list z of Some n \<Rightarrow> n | None \<Rightarrow> ''XXXXXX'') zs
      in if ''XXXXXX'' \<in> set pre \<or> pre = [] then ''XXXXXX''
         else if length pre = 1 then hd pre
         else
           (let pre' = butlast pre @ [''AND '' @ last pre];
                preme = py_replace (py_replace (py_replace (py_replace (py_str_list pre')
                          ''['' []) '']'' []) [CHR 0x22] []) [CHR 0x27] []
            in if length pre' = 2 then py_replace preme '', AND'' '' AND'' else preme))"

subsection \<open>\<open>breakpointMe\<close>\<close>

text \<open>The result: \<open>[]\<close> (line 1538) or the dictionary \<open>out\<close> of phrases per hazard.\<close>

datatype area = AreaNone | AreaOut "hazard \<Rightarrow> string"

text \<open>
  Lines 1550-1559: the entries of one breakpoint are compass labels (any
  length but 6), each opening a new group, and zone codes (length 6), added
  to the current group; a zone before any label indexes group \<open>-1\<close>, which
  does not exist (\<open>KeyError\<close>).
\<close>

fun bp_parse :: "string list \<Rightarrow> string list \<times> zone list list \<Rightarrow> py_error + string list \<times> zone list list" where
  "bp_parse [] acc = Inr acc"
| "bp_parse (a # arr) (cs, gs) =
     (if length a \<noteq> 6 then bp_parse arr (cs @ [a], gs @ [[]])
      else if gs = [] then Inl KeyError
      else bp_parse arr (cs, butlast gs @ [last gs @ [a]]))"

type_synonym breakpoint = "string \<times> string list \<times> zone list list"

fun parse_breakpoints :: "(string \<times> string list) list \<Rightarrow> py_error + breakpoint list" where
  "parse_breakpoints [] = Inr []"
| "parse_breakpoints ((b, arr) # rest) =
     (case bp_parse arr ([], []) of
        Inl e \<Rightarrow> Inl e
      | Inr (cs, gs) \<Rightarrow> (case parse_breakpoints rest of Inl e \<Rightarrow> Inl e | Inr bps \<Rightarrow> Inr ((b, cs, gs) # bps)))"

definition bp_phrase :: "string \<Rightarrow> string \<Rightarrow> string" where
  "bp_phrase dir b = ''coastal areas '' @ dir @ '' of '' @ b"

text \<open>Lines 1572-1574: the last breakpoint group equal to the zone list wins.\<close>

fun bp_single :: "zone list \<Rightarrow> breakpoint list \<Rightarrow> string \<Rightarrow> string" where
  "bp_single zs [] cur = cur"
| "bp_single zs ((b, cs, gs) # rest) cur =
     (let c1 = (if 0 < length gs \<and> zs = gs ! 0 then bp_phrase (cs ! 0) b else cur);
          c2 = (if 1 < length gs \<and> zs = gs ! 1 then bp_phrase (cs ! 1) b else c1)
      in bp_single zs rest c2)"

text \<open>Lines 1586-1593: only the first hazard's list is compared with the groups.\<close>

fun bp_pair :: "zone list \<Rightarrow> breakpoint list \<Rightarrow> string \<times> string \<Rightarrow> string \<times> string" where
  "bp_pair zs1 [] cur = cur"
| "bp_pair zs1 ((b, cs, gs) # rest) cur =
     (if 0 < length gs \<and> 1 < length gs then
        (let c1 = (if zs1 = gs ! 0 then (bp_phrase (cs ! 0) b, bp_phrase (cs ! 1) b) else cur);
             c2 = (if zs1 = gs ! 1 then (bp_phrase (cs ! 1) b, bp_phrase (cs ! 0) b) else c1)
         in bp_pair zs1 rest c2)
      else bp_pair zs1 rest cur)"

text \<open>Line 1533.\<close>

fun others :: "hazard \<Rightarrow> hazard \<times> hazard" where
  "others Warning = (Watch, Advisory)"
| "others Watch = (Warning, Advisory)"
| "others Advisory = (Watch, Warning)"

text \<open>Lines 1566-1601: the loop over \<open>watch, warning, advisory\<close>.\<close>

fun bp_loop ::
  "(zone \<Rightarrow> string option) \<Rightarrow> zone list \<Rightarrow> string \<Rightarrow> breakpoint list \<Rightarrow> hazard_info \<Rightarrow> hazard list \<Rightarrow> hazard \<Rightarrow> string"
where
  "bp_loop zl ids lp bps info [] = (\<lambda>_. [])"
| "bp_loop zl ids lp bps info (w # ws) =
     (let Z = zones info; (o1, o2) = others w; out = (\<lambda>_. [])
      in if Z w \<noteq> [] \<and> Z o1 = [] \<and> Z o2 = [] then
           (if length (Z w) = length ids
            then out(w := (if lp = [] then ''the local coastal areas'' else lp))
            else (let p = bp_single (Z w) bps [] in out(w := (if p = [] then zonelist_full zl (Z w) else p))))
         else if Z w = [] \<and> Z o1 \<noteq> [] \<and> Z o2 \<noteq> [] then
           (if length (filter (\<lambda>z. z \<in> set (Z o1) \<or> z \<in> set (Z o2)) ids) = length ids
            then (let (p1, p2) = bp_pair (Z o1) bps ([], [])
                  in if p1 = [] \<or> p2 = [] then out(o1 := zonelist_full zl (Z o1), o2 := zonelist_full zl (Z o2))
                     else out(o1 := p1, o2 := p2))
            else (\<lambda>h. zonelist_full zl (Z h)))
         else bp_loop zl ids lp bps info ws)"

text \<open>
  The whole function. Its parameters besides \<open>info\<close> and \<open>wwa\<close> are the
  globals it reads: \<open>zone_list\<close>, \<open>zone_ids\<close>, \<open>localphrase\<close>,
  \<open>breakpoint_list\<close> (an association list in the dictionary's order) and
  \<open>active\<close>. \<open>wwa\<close> is the \<open>dowhat\<close> that \<open>autoFill\<close> passes; in the
  scheme without breakpoints a combined \<open>dowhat\<close> is not a key of \<open>info\<close>.
\<close>

definition breakpoint_me ::
  "(zone \<Rightarrow> string option) \<Rightarrow> zone list \<Rightarrow> string \<Rightarrow> (string \<times> string list) list \<Rightarrow> dowhat \<Rightarrow>
   hazard_info \<Rightarrow> dowhat \<Rightarrow> py_error + area"
where
  "breakpoint_me zl ids lp bl active info wwa =
     (let Z = zones info; out = (\<lambda>_. [])
      in if bl = [] then
           (if wwa = DNone \<and> active = DNone then Inr AreaNone
            else case (if wwa = DNone then active else wwa) of
              DSingle h \<Rightarrow>
                Inr (AreaOut (out(h := (if length (Z h) = length ids
                                        then (if lp = [] then zonelist_full zl (Z h) else lp)
                                        else zonelist_full zl (Z h)))))
            | _ \<Rightarrow> Inl KeyError)
         else case parse_breakpoints bl of
           Inl e \<Rightarrow> Inl e
         | Inr bps \<Rightarrow>
             (if Z Warning = [] \<and> Z Watch = [] \<and> Z Advisory = [] then Inr (AreaOut out)
              else if Z Warning \<noteq> [] \<and> Z Watch \<noteq> [] \<and> Z Advisory \<noteq> []
              then Inr (AreaOut (\<lambda>h. zonelist_full zl (Z h)))
              else Inr (AreaOut (bp_loop zl ids lp bps info [Watch, Warning, Advisory]))))"

subsection \<open>The enumeration the spec describes\<close>

fun enum_phrase :: "string list \<Rightarrow> string" where
  "enum_phrase [] = ''XXXXXX''"
| "enum_phrase [a] = a"
| "enum_phrase [a, b] = a @ '' AND '' @ b"
| "enum_phrase xs = py_join '', '' (butlast xs @ [''AND '' @ last xs])"

text \<open>A zone name that \<open>str()\<close> quotes plainly and the stripping leaves intact.\<close>

definition clean_char :: "char \<Rightarrow> bool" where
  "clean_char c \<longleftrightarrow> c \<noteq> CHR ''['' \<and> c \<noteq> CHR '']'' \<and> c \<noteq> CHR 0x22 \<and> c \<noteq> CHR 0x27 \<and>
     c \<noteq> CHR 0x5C \<and> c \<noteq> CHR '','' \<and> (32::nat) \<le> of_char c \<and> of_char c \<noteq> (127::nat)"

definition clean_name :: "string \<Rightarrow> bool" where
  "clean_name n \<longleftrightarrow> n \<noteq> ''XXXXXX'' \<and> (\<forall>c \<in> set n. clean_char c)"

definition strip_chars :: "char \<Rightarrow> bool" where
  "strip_chars c \<longleftrightarrow> c \<noteq> CHR ''['' \<and> c \<noteq> CHR '']'' \<and> c \<noteq> CHR 0x22 \<and> c \<noteq> CHR 0x27"

text \<open>A sample configuration: three zones and one breakpoint.\<close>

definition names_lox :: "zone \<Rightarrow> string option" where
  "names_lox = map_of [(''CAZ039'', ''Santa Barbara County South Coast''),
                       (''CAZ040'', ''Ventura County Coast''), (''CAZ041'', ''Los Angeles County Coast'')]"

definition ids_lox :: "zone list" where
  "ids_lox = [''CAZ039'', ''CAZ040'', ''CAZ041'']"

definition bl_mugu :: "(string \<times> string list) list" where
  "bl_mugu = [(''POINT MUGU'', [''north'', ''CAZ041'', ''CAZ040'', ''south'', ''CAZ039''])]"

definition bl_mugu_sorted :: "(string \<times> string list) list" where
  "bl_mugu_sorted = [(''POINT MUGU'', [''north'', ''CAZ039'', ''CAZ040'', ''south'', ''CAZ041''])]"

subsection \<open>Lemmas\<close>

lemma repr_char_clean:
  assumes "clean_char c"
  shows "repr_char (CHR 0x27) c = [c]"
proof -
  from assms have o: "(32::nat) \<le> of_char c" "of_char c \<noteq> (127::nat)"
    by (simp_all add: clean_char_def)
  then have "c \<noteq> NL" "c \<noteq> CHR 0x09" "c \<noteq> CHR 0x0D" by auto
  with o assms show ?thesis by (simp add: repr_char_def clean_char_def)
qed

lemma concat_repr_clean:
  "\<forall>c \<in> set n. clean_char c \<Longrightarrow> concat (map (repr_char (CHR 0x27)) n) = n"
  by (induction n) (simp_all add: repr_char_clean)

lemma py_repr_clean: "clean_name n \<Longrightarrow> py_repr n = CHR 0x27 # n @ [CHR 0x27]"
proof -
  assume cl: "clean_name n"
  then have "concat (map (repr_char (CHR 0x27)) n) = n"
    by (simp add: clean_name_def concat_repr_clean)
  moreover from cl have "CHR 0x27 \<notin> set n" by (auto simp: clean_name_def clean_char_def)
  ultimately show ?thesis by (simp add: py_repr_def Let_def)
qed

lemma strip_clean: "clean_name n \<Longrightarrow> filter strip_chars n = n"
  by (auto simp: clean_name_def clean_char_def strip_chars_def filter_id_conv)

lemma strip_py_str_list:
  assumes "\<forall>n \<in> set xs. clean_name n"
  shows "filter strip_chars (py_str_list xs) = py_join '', '' xs"
proof -
  have "map (filter strip_chars) (map py_repr xs) = xs"
    using assms by (induction xs) (auto simp: py_repr_clean strip_chars_def strip_clean)
  moreover have "filter strip_chars '', '' = '', ''" by (simp add: strip_chars_def)
  moreover have "\<not> strip_chars (CHR ''['')" "\<not> strip_chars (CHR '']'')"
    by (simp_all add: strip_chars_def)
  ultimately show ?thesis
    by (simp add: py_str_list_def filter_py_join)
qed

lemma strip_four:
  "py_replace (py_replace (py_replace (py_replace s ''['' []) '']'' []) [CHR 0x22] []) [CHR 0x27] [] =
   filter strip_chars s"
  unfolding py_replace_remove_char filter_filter
  by (rule filter_cong) (auto simp: strip_chars_def)

lemma clean_name_AND: "clean_name b \<Longrightarrow> clean_name (''AND '' @ b)"
  by (auto simp: clean_name_def clean_char_def)

lemma comma_AND_replace:
  assumes "CHR '','' \<notin> set a" "CHR '','' \<notin> set b"
  shows "py_replace (a @ '', '' @ ''AND '' @ b) '', AND'' '' AND'' = a @ '' AND '' @ b"
proof -
  have "replace_ne '', AND'' '' AND'' (a @ '', AND '' @ b) = a @ replace_ne '', AND'' '' AND'' ('', AND '' @ b)"
    using replace_ne_no_head [OF assms(1)] by simp
  also have "replace_ne '', AND'' '' AND'' ('', AND '' @ b) = '' AND'' @ replace_ne '', AND'' '' AND'' ('' '' @ b)"
    by simp
  also have "replace_ne '', AND'' '' AND'' ('' '' @ b) = '' '' @ b"
    using replace_ne_no_char [of "CHR '',''" "'' '' @ b"] assms(2) by simp
  finally show ?thesis by (simp add: py_replace_def)
qed

lemma zonelist_full_names:
  assumes "\<forall>z \<in> set zs. \<exists>n. zone_list z = Some n \<and> clean_name n"
  shows "map (\<lambda>z. case zone_list z of Some n \<Rightarrow> n | None \<Rightarrow> ''XXXXXX'') zs = map (the \<circ> zone_list) zs"
    and "\<forall>n \<in> set (map (the \<circ> zone_list) zs). clean_name n"
  using assms by auto

subsection \<open>Properties of \<open>zonelistFull\<close>\<close>

text \<open>
  C9. For zones that all have configured names (names that \<open>str()\<close>
  quotes plainly), \<open>zonelistFull\<close> is the enumeration of the spec: one name
  alone, two as \<open>A AND B\<close>, three or more comma-joined with \<open>AND\<close> before
  the last.
\<close>

theorem zonelist_full_enumerates:
  assumes names: "\<forall>z \<in> set zs. \<exists>n. zone_list z = Some n \<and> clean_name n" and ne: "zs \<noteq> []"
  shows "zonelist_full zone_list zs = enum_phrase (map (the \<circ> zone_list) zs)"
proof -
  define ns where "ns = map (the \<circ> zone_list) zs"
  have pre: "map (\<lambda>z. case zone_list z of Some n \<Rightarrow> n | None \<Rightarrow> ''XXXXXX'') zs = ns"
    and cl: "\<forall>n \<in> set ns. clean_name n"
    using zonelist_full_names [OF names] by (simp_all add: ns_def)
  have nx: "''XXXXXX'' \<notin> set ns" using cl by (auto simp: clean_name_def)
  have nne: "ns \<noteq> []" using ne by (simp add: ns_def)
  have "clean_name (last ns)" using cl nne by simp
  then have "clean_name (''AND '' @ last ns)" by (rule clean_name_AND)
  then have cl': "\<forall>n \<in> set (butlast ns @ [''AND '' @ last ns]). clean_name n"
    using cl by (auto dest: in_set_butlastD simp del: append.simps)
  have preme: "py_replace (py_replace (py_replace (py_replace (py_str_list (butlast ns @ [''AND '' @ last ns]))
                 ''['' []) '']'' []) [CHR 0x22] []) [CHR 0x27] [] = py_join '', '' (butlast ns @ [''AND '' @ last ns])"
    using cl' by (simp add: strip_four strip_py_str_list)
  consider (one) a where "ns = [a]" | (two) a b where "ns = [a, b]" | (more) a b c rest where "ns = a # b # c # rest"
    using nne by (metis list.exhaust)
  then have "zonelist_full zone_list zs = enum_phrase ns"
  proof cases
    case one
    then show ?thesis using pre nx by (simp add: zonelist_full_def)
  next
    case two
    then have "CHR '','' \<notin> set a" "CHR '','' \<notin> set b"
      using cl by (auto simp: clean_name_def clean_char_def)
    then have r: "py_replace (a @ '', '' @ ''AND '' @ b) '', AND'' '' AND'' = a @ '' AND '' @ b"
      by (rule comma_AND_replace)
    from two pre nx preme show ?thesis by (simp add: zonelist_full_def r [simplified])
  next
    case more
    with pre nx preme show ?thesis by (simp add: zonelist_full_def)
  qed
  then show ?thesis by (simp add: ns_def)
qed

theorem zonelist_full_enumerates_witness:
  "zonelist_full names_lox [''CAZ039'', ''CAZ040''] =
     ''Santa Barbara County South Coast AND Ventura County Coast''"
proof -
  have "\<forall>z \<in> set [''CAZ039'', ''CAZ040'']. \<exists>n. names_lox z = Some n \<and> clean_name n"
    by (simp add: names_lox_def clean_name_def clean_char_def)
  from zonelist_full_enumerates [OF this]
  have "zonelist_full names_lox [''CAZ039'', ''CAZ040''] =
        enum_phrase (map (the \<circ> names_lox) [''CAZ039'', ''CAZ040''])" by simp
  also have "\<dots> = ''Santa Barbara County South Coast AND Ventura County Coast''"
    by (simp add: names_lox_def)
  finally show ?thesis .
qed

text \<open>
  C10. A zone without a configured name, or an empty list, makes the whole
  phrase the placeholder \<open>XXXXXX\<close>, never a partial list.
\<close>

theorem zonelist_full_missing_name:
  assumes "zs = [] \<or> (\<exists>z \<in> set zs. zone_list z = None)"
  shows "zonelist_full zone_list zs = ''XXXXXX''"
proof -
  let ?pre = "map (\<lambda>z. case zone_list z of Some n \<Rightarrow> n | None \<Rightarrow> ''XXXXXX'') zs"
  from assms have "''XXXXXX'' \<in> set ?pre \<or> ?pre = []" by (force simp: image_iff)
  then show ?thesis unfolding zonelist_full_def Let_def by (rule if_P)
qed

theorem zonelist_full_missing_name_witness:
  "zonelist_full names_lox [''CAZ039'', ''CAZ087''] = ''XXXXXX''"
proof -
  have "[''CAZ039'', ''CAZ087''] = [] \<or> (\<exists>z \<in> set [''CAZ039'', ''CAZ087'']. names_lox z = None)"
    by (simp add: names_lox_def)
  then show ?thesis by (rule zonelist_full_missing_name)
qed

lemma bp_phrase_not_Nil [simp]: "bp_phrase d b \<noteq> []"
  by (simp add: bp_phrase_def)

lemma bp_single_found:
  "bp_single zs bps cur \<noteq> [] \<longleftrightarrow>
     cur \<noteq> [] \<or> (\<exists>(b, cs, gs) \<in> set bps. (0 < length gs \<and> gs ! 0 = zs) \<or> (1 < length gs \<and> gs ! 1 = zs))"
proof (induction zs bps cur rule: bp_single.induct)
  case (2 zs b cs gs rest cur)
  then show ?case by (auto simp: Let_def)
qed simp

lemmas area_eval = breakpoint_me_def names_lox_def ids_lox_def zonelist_full_def py_str_list_def
  py_repr_def repr_char_def Let_def

subsection \<open>Properties of \<open>breakpointMe\<close>\<close>

text \<open>
  The breakpoint search for a single hazard finds a phrase exactly when
  the hazard's zone list equals the first or the second group of some
  breakpoint; a list that is a proper superset or subset of every group
  finds none.
\<close>

theorem bp_single_exact:
  "bp_single zs bps [] \<noteq> [] \<longleftrightarrow> (\<exists>(b, cs, gs) \<in> set bps. \<exists>k < min 2 (length gs). gs ! k = zs)"
proof -
  have "(\<exists>k < min 2 (length gs). gs ! k = zs) \<longleftrightarrow>
        (0 < length gs \<and> gs ! 0 = zs) \<or> (1 < length gs \<and> gs ! 1 = zs)" for gs :: "zone list list"
    by (auto simp: less_2_cases_iff)
  then show ?thesis by (simp add: bp_single_found)
qed

theorem bp_single_exact_witness:
  "bp_single [''CAZ041''] [(''POINT MUGU'', [''north'', ''south''], [[''CAZ039'', ''CAZ040''], [''CAZ041'']])] [] \<noteq> [] \<and>
   bp_single [''CAZ040'', ''CAZ041''] [(''POINT MUGU'', [''north'', ''south''], [[''CAZ039'', ''CAZ040''], [''CAZ041'']])] [] = []"
proof -
  have a: "\<exists>(b, cs, gs) \<in> set [(''POINT MUGU'', [''north'', ''south''], [[''CAZ039'', ''CAZ040''], [''CAZ041'']])].
             \<exists>k < min 2 (length gs). gs ! k = [''CAZ041'']"
    by (auto intro: exI [of _ 1])
  have b: "\<not> (\<exists>(b, cs, gs) \<in> set [(''POINT MUGU'', [''north'', ''south''], [[''CAZ039'', ''CAZ040''], [''CAZ041'']])].
             \<exists>k < min 2 (length gs). gs ! k = [''CAZ040'', ''CAZ041''])"
  proof
    assume "\<exists>(b, cs, gs) \<in> set [(''POINT MUGU'', [''north'', ''south''], [[''CAZ039'', ''CAZ040''], [''CAZ041'']])].
             \<exists>k < min 2 (length gs). gs ! k = [''CAZ040'', ''CAZ041'']"
    then obtain k :: nat where "k < 2" "[[''CAZ039'', ''CAZ040''], [''CAZ041'']] ! k = [''CAZ040'', ''CAZ041'']"
      by auto
    moreover from \<open>k < 2\<close> have "k = 0 \<or> k = 1" by arith
    ultimately show False by auto
  qed
  from a b show ?thesis by (simp only: bp_single_exact) simp
qed

text \<open>
  The match is list equality, not set equality: with the group of a
  breakpoint configured in another order than the sorted zone list of the
  parser, a warning for exactly the zones north of Point Mugu is described
  by the list of zone names, not by the breakpoint phrase.
\<close>

theorem breakpoint_unsorted_group_ignored:
  "set [''CAZ040'', ''CAZ041''] = set [''CAZ041'', ''CAZ040''] \<and>
   breakpoint_me names_lox ids_lox [] bl_mugu DNone
     (info_init\<lparr>zones := (\<lambda>_. [])(Warning := [''CAZ040'', ''CAZ041''])\<rparr>) (DSingle Warning) =
   Inr (AreaOut ((\<lambda>_. [])(Warning := ''Ventura County Coast AND Los Angeles County Coast'')))"
  by (simp add: area_eval bl_mugu_def fun_eq_iff pystr_eval insert_commute)




end
