(* ===== verification/Daylight.thy ===== *)
theory Daylight
  imports Tsu_Prelude
begin

text \<open>
  The daylight-saving calendar of \<open>nwr_tsu.py\<close>: \<open>daylightMe(dt)\<close> (lines
  259-282) decides from a local date whether daylight time applies. April to
  October is daylight time, December to February standard time; in March and
  November the function looks for the second (March) or first (November)
  Sunday among the first sixteen days of the month, encodes it and the date as
  the integers \<open>int(str(y)+str(m).zfill(2)+str(d).zfill(2))\<close> and compares
  them. The \<open>datetime\<close> arithmetic it calls is modelled after CPython's
  \<open>_ymd2ord\<close>: \<open>weekday()\<close> is \<open>(toordinal() + 6) % 7\<close> with Monday 0 and
  Sunday 6, and adding \<open>timedelta(hours=24*d)\<close> moves the date \<open>d\<close> days on.
\<close>

record datetime =
  year :: nat
  month :: nat
  day :: nat
  hour :: nat
  minute :: nat

subsection \<open>The proleptic Gregorian calendar of \<open>datetime\<close>\<close>

definition is_leap :: "nat \<Rightarrow> bool" where
  "is_leap y \<longleftrightarrow> y mod 4 = 0 \<and> (y mod 100 \<noteq> 0 \<or> y mod 400 = 0)"

definition days_in_month :: "nat \<Rightarrow> nat \<Rightarrow> nat" where
  "days_in_month y m =
     (if m = 2 \<and> is_leap y then 29 else [0, 31, 28, 31, 30, 31, 30, 31, 31, 30, 31, 30, 31] ! m)"

definition days_before_year :: "nat \<Rightarrow> nat" where
  "days_before_year y = (let p = y - 1 in p * 365 + p div 4 - p div 100 + p div 400)"

definition days_before_month :: "nat \<Rightarrow> nat \<Rightarrow> nat" where
  "days_before_month y m =
     [0, 0, 31, 59, 90, 120, 151, 181, 212, 243, 273, 304, 334] ! m + (if m > 2 \<and> is_leap y then 1 else 0)"

definition ymd2ord :: "nat \<Rightarrow> nat \<Rightarrow> nat \<Rightarrow> nat" where
  "ymd2ord y m d = days_before_year y + days_before_month y m + d"

definition weekday :: "datetime \<Rightarrow> nat" where
  "weekday dt = (ymd2ord (year dt) (month dt) (day dt) + 6) mod 7"

definition valid_dt :: "datetime \<Rightarrow> bool" where
  "valid_dt dt \<longleftrightarrow> 1 \<le> year dt \<and> year dt \<le> 9999 \<and> 1 \<le> month dt \<and> month dt \<le> 12 \<and>
                   1 \<le> day dt \<and> day dt \<le> days_in_month (year dt) (month dt) \<and> hour dt < 24 \<and> minute dt < 60"

text \<open>\<open>dt + timedelta(days=1)\<close> on a valid date, and \<open>n\<close> days by iteration.\<close>

definition next_day :: "datetime \<Rightarrow> datetime" where
  "next_day dt =
     (if day dt < days_in_month (year dt) (month dt) then dt\<lparr>day := day dt + 1\<rparr>
      else if month dt < 12 then dt\<lparr>month := month dt + 1, day := 1\<rparr>
      else dt\<lparr>year := year dt + 1, month := 1, day := 1\<rparr>)"

definition add_days :: "datetime \<Rightarrow> nat \<Rightarrow> datetime" where
  "add_days dt n = (next_day ^^ n) dt"

text \<open>\<open>dt - timedelta(days=1)\<close> and \<open>dt + timedelta(minutes=m)\<close> on a valid date.\<close>

definition prev_day :: "datetime \<Rightarrow> datetime" where
  "prev_day dt =
     (if 1 < day dt then dt\<lparr>day := day dt - 1\<rparr>
      else if 1 < month dt then dt\<lparr>month := month dt - 1, day := days_in_month (year dt) (month dt - 1)\<rparr>
      else dt\<lparr>year := year dt - 1, month := 12, day := 31\<rparr>)"

definition shift_minutes :: "datetime \<Rightarrow> int \<Rightarrow> datetime" where
  "shift_minutes dt m =
     (let total = int (hour dt * 60 + minute dt) + m;
          q = total div 1440; r = nat (total mod 1440);
          dt' = dt\<lparr>hour := r div 60, minute := r mod 60\<rparr>
      in if 0 \<le> q then add_days dt' (nat q) else (prev_day ^^ nat (- q)) dt')"

subsection \<open>\<open>daylightMe\<close>\<close>

text \<open>\<open>int(str(y)+str(m).zfill(2)+str(d).zfill(2))\<close>: the date as a number.\<close>

definition date_code :: "datetime \<Rightarrow> nat" where
  "date_code dt = digits_val (nat_str (year dt) @ py_zfill 2 (nat_str (month dt)) @ py_zfill 2 (nat_str (day dt)))"

text \<open>The loop \<open>for d in range(0,16)\<close> from the first of the month \<open>aa\<close>: the
  \<open>target_sunday\<close>-th Sunday's code, or the initial \<open>target=16\<close> when the loop
  runs out.\<close>

fun sunday_scan :: "datetime \<Rightarrow> nat \<Rightarrow> nat \<Rightarrow> nat list \<Rightarrow> nat" where
  "sunday_scan aa target_sunday count [] = 16"
| "sunday_scan aa target_sunday count (d # ds) =
     (let b = add_days aa d
      in if weekday b = 6
         then (if count + 1 \<ge> target_sunday then date_code b
               else sunday_scan aa target_sunday (count + 1) ds)
         else sunday_scan aa target_sunday count ds)"

definition daylight_me :: "datetime \<Rightarrow> nat" where
  "daylight_me dt =
     (let y = year dt; m = month dt
      in if 4 \<le> m \<and> m \<le> 10 then 1
         else if m = 12 \<or> m \<le> 2 then 0
         else
           (let target_sunday = (if m = 3 then 2 else 1);
                compare = date_code dt;
                aa = \<lparr>year = y, month = m, day = 1, hour = hour dt, minute = 0\<rparr>;
                target = sunday_scan aa target_sunday 0 [0..<16]
            in if m = 3 \<and> compare \<ge> target then 1
               else if m = 11 \<and> compare < target then 1
               else 0))"

subsection \<open>The rule the spec states\<close>

text \<open>The day of the month of the first Sunday of \<open>dt\<close>'s month, and daylight
  time from the second Sunday of March to the first Sunday of November.\<close>

definition first_sunday :: "datetime \<Rightarrow> nat" where
  "first_sunday dt = 1 + (6 - weekday (dt\<lparr>day := 1\<rparr>))"

definition dst_rule :: "datetime \<Rightarrow> bool" where
  "dst_rule dt \<longleftrightarrow> (4 \<le> month dt \<and> month dt \<le> 10) \<or>
                   (month dt = 3 \<and> first_sunday dt + 7 \<le> day dt) \<or>
                   (month dt = 11 \<and> day dt < first_sunday dt)"

text \<open>The Sunday search with the weekday of the first of the month given: the
  offset of the \<open>ts\<close>-th Sunday among the days \<open>ds\<close>.\<close>

fun scan_days :: "nat \<Rightarrow> nat \<Rightarrow> nat \<Rightarrow> nat list \<Rightarrow> nat option" where
  "scan_days w ts c [] = None"
| "scan_days w ts c (d # ds) =
     (if (w + d) mod 7 = 6 then (if ts \<le> c + 1 then Some d else scan_days w ts (c + 1) ds)
      else scan_days w ts c ds)"

subsection \<open>Lemmas\<close>

lemma date_code_eq:
  "month dt < 100 \<Longrightarrow> day dt < 100 \<Longrightarrow> date_code dt = year dt * 10000 + month dt * 100 + day dt"
  by (simp add: date_code_def digits_val_append_pow length_zfill2)

lemma add_days_in_month:
  "day dt + n \<le> days_in_month (year dt) (month dt) \<Longrightarrow> add_days dt n = dt\<lparr>day := day dt + n\<rparr>"
proof (induction n)
  case (Suc n)
  then have "add_days dt n = dt\<lparr>day := day dt + n\<rparr>" by simp
  with Suc.prems show ?case by (simp add: add_days_def next_day_def)
qed (simp add: add_days_def)

lemma weekday_shift: "weekday (dt\<lparr>day := day dt + n\<rparr>) = (weekday dt + n) mod 7"
proof -
  have "weekday (dt\<lparr>day := day dt + n\<rparr>) = ((ymd2ord (year dt) (month dt) (day dt) + 6) + n) mod 7"
    by (simp add: weekday_def ymd2ord_def algebra_simps)
  also have "\<dots> = (weekday dt + n) mod 7"
    by (simp add: weekday_def mod_add_left_eq)
  finally show ?thesis .
qed

lemma days_in_march_nov: "days_in_month y 3 = 31" "days_in_month y 11 = 30"
  by (simp_all add: days_in_month_def)

lemma sunday_scan_days:
  assumes "\<forall>d \<in> set ds. add_days aa d = aa\<lparr>day := 1 + d\<rparr>" "day aa = 1"
  shows "sunday_scan aa ts c ds =
         (case scan_days (weekday aa) ts c ds of None \<Rightarrow> 16 | Some d \<Rightarrow> date_code (aa\<lparr>day := 1 + d\<rparr>))"
  using assms(1)
proof (induction ds arbitrary: c)
  case (Cons d ds)
  have "weekday (aa\<lparr>day := 1 + d\<rparr>) = (weekday aa + d) mod 7"
    using weekday_shift [of aa d] assms(2) by simp
  with Cons show ?case by (simp add: Let_def)
qed simp

lemma upt_16: "[0..<16] = [0, 1, 2, 3, 4, 5, 6, 7, 8, 9, 10, 11, 12, 13, 14, 15::nat]"
  by (simp add: upt_rec)

lemma scan_days_16:
  assumes "w < 7" "ts = 1 \<or> ts = 2"
  shows "scan_days w ts 0 [0..<16] = Some (6 - w + 7 * (ts - 1))"
proof -
  from assms(1) consider "w = 0" | "w = 1" | "w = 2" | "w = 3" | "w = 4" | "w = 5" | "w = 6" by linarith
  then show ?thesis using assms(2) unfolding upt_16 by cases (elim disjE; simp)+
qed

lemma scan_closed:
  assumes "month aa = 3 \<or> month aa = 11" "day aa = 1" "ts = 1 \<or> ts = 2"
  shows "sunday_scan aa ts 0 [0..<16] = date_code (aa\<lparr>day := first_sunday aa + 7 * (ts - 1)\<rparr>)"
proof -
  have "days_in_month (year aa) (month aa) \<ge> 30"
    using assms(1) by (auto simp: days_in_march_nov)
  then have "\<forall>d \<in> set [0..<16]. add_days aa d = aa\<lparr>day := 1 + d\<rparr>"
    using assms(2) add_days_in_month [of aa] by simp
  then have "sunday_scan aa ts 0 [0..<16] =
             (case scan_days (weekday aa) ts 0 [0..<16] of None \<Rightarrow> 16 | Some d \<Rightarrow> date_code (aa\<lparr>day := 1 + d\<rparr>))"
    using assms(2) by (rule sunday_scan_days)
  moreover have "weekday aa < 7" by (simp add: weekday_def)
  moreover have "aa\<lparr>day := 1\<rparr> = aa" using assms(2) by simp
  ultimately show ?thesis
    using assms(3) scan_days_16 [of "weekday aa" ts] by (simp add: first_sunday_def)
qed


lemma first_sunday_le: "first_sunday dt \<le> 7"
  by (simp add: first_sunday_def)

lemma days_in_month_le: "m \<le> 12 \<Longrightarrow> days_in_month y m \<le> 31"
proof -
  have "\<forall>m \<in> set [0..<13]. days_in_month y m \<le> 31"
    by (simp add: days_in_month_def upt_rec)
  moreover assume "m \<le> 12"
  ultimately show ?thesis by auto
qed

lemma valid_day_lt: "valid_dt dt \<Longrightarrow> day dt < 100"
  using days_in_month_le [of "month dt" "year dt"] by (simp add: valid_dt_def)

lemma daylight_me_transition:
  assumes "valid_dt dt" "month dt = 3 \<or> month dt = 11"
  shows "daylight_me dt =
         (if month dt = 3 \<and> first_sunday dt + 7 \<le> day dt then 1
          else if month dt = 11 \<and> day dt < first_sunday dt then 1 else 0)"
proof -
  define aa where "aa = \<lparr>year = year dt, month = month dt, day = 1, hour = hour dt, minute = 0\<rparr>"
  define ts where "ts = (if month dt = 3 then 2 else 1::nat)"
  have fs: "first_sunday aa = first_sunday dt"
    by (simp add: aa_def first_sunday_def weekday_def)
  have scan: "sunday_scan aa ts 0 [0..<16] = date_code (aa\<lparr>day := first_sunday dt + 7 * (ts - 1)\<rparr>)"
    using scan_closed [of aa ts] assms(2) fs by (auto simp: aa_def ts_def)
  have "date_code (aa\<lparr>day := first_sunday dt + 7 * (ts - 1)\<rparr>) =
        year dt * 10000 + month dt * 100 + (first_sunday dt + 7 * (ts - 1))"
    using assms(2) first_sunday_le [of dt] by (subst date_code_eq) (auto simp: aa_def ts_def)
  moreover have "date_code dt = year dt * 10000 + month dt * 100 + day dt"
    using assms valid_day_lt [of dt] by (subst date_code_eq) auto
  ultimately show ?thesis
    using assms(2) scan by (auto simp: daylight_me_def Let_def aa_def ts_def)
qed

subsection \<open>Properties of \<open>daylightMe\<close>\<close>

text \<open>
  C15. On every valid date \<open>daylightMe\<close> implements the daylight-saving rule:
  it returns 1 from April to October, from the second Sunday of March on and
  before the first Sunday of November, and 0 otherwise.
\<close>

theorem daylight_me_refines_rule:
  assumes "valid_dt dt"
  shows "daylight_me dt = (if dst_rule dt then 1 else 0)"
proof -
  have "1 \<le> month dt" "month dt \<le> 12" using assms by (simp_all add: valid_dt_def)
  then consider "month dt = 3 \<or> month dt = 11" | "month dt \<noteq> 3" "month dt \<noteq> 11" by blast
  then show ?thesis
  proof cases
    case 1
    with assms show ?thesis by (auto simp: daylight_me_transition dst_rule_def)
  next
    case 2
    with \<open>1 \<le> month dt\<close> \<open>month dt \<le> 12\<close> show ?thesis
      by (auto simp: daylight_me_def dst_rule_def Let_def)
  qed
qed

theorem daylight_me_refines_rule_witness:
  "daylight_me \<lparr>year = 2026, month = 3, day = 9, hour = 12, minute = 0\<rparr> =
   (if dst_rule \<lparr>year = 2026, month = 3, day = 9, hour = 12, minute = 0\<rparr> then 1 else 0)"
  by (rule daylight_me_refines_rule) (simp add: valid_dt_def days_in_month_def)

text \<open>
  C16. The loop over the first sixteen days of March or November always finds
  the Sunday it looks for, within the first fourteen days: the result is the
  code of a Sunday, the first (November) or second (March) of the month, and
  never the fallback value 16.
\<close>

theorem sunday_scan_found:
  assumes "month aa = 3 \<or> month aa = 11" "day aa = 1" "ts = 1 \<or> ts = 2"
  shows "\<exists>k < 14. sunday_scan aa ts 0 [0..<16] = date_code (aa\<lparr>day := 1 + k\<rparr>) \<and>
                 weekday (aa\<lparr>day := 1 + k\<rparr>) = 6 \<and> k div 7 = ts - 1"
proof -
  define k where "k = 6 - weekday aa + 7 * (ts - 1)"
  have w: "weekday aa < 7" by (simp add: weekday_def)
  have "aa\<lparr>day := 1\<rparr> = aa" using assms(2) by simp
  then have "sunday_scan aa ts 0 [0..<16] = date_code (aa\<lparr>day := 1 + k\<rparr>)"
    using scan_closed [OF assms] by (simp add: first_sunday_def k_def)
  moreover have "weekday (aa\<lparr>day := 1 + k\<rparr>) = 6"
    using weekday_shift [of aa k] assms(2) w by (simp add: k_def)
  moreover have "k < 14" "k div 7 = ts - 1" using w assms(3) by (auto simp: k_def)
  ultimately show ?thesis by blast
qed

theorem sunday_scan_found_witness:
  "\<exists>k < 14. sunday_scan \<lparr>year = 2026, month = 3, day = 1, hour = 0, minute = 0\<rparr> 2 0 [0..<16] =
             date_code (\<lparr>year = 2026, month = 3, day = 1, hour = 0, minute = 0\<rparr>\<lparr>day := 1 + k\<rparr>) \<and>
           weekday (\<lparr>year = 2026, month = 3, day = 1, hour = 0, minute = 0\<rparr>\<lparr>day := 1 + k\<rparr>) = 6 \<and> k div 7 = 2 - 1"
  by (rule sunday_scan_found) simp_all

text \<open>
  C17. The date codes \<open>int(str(y)+str(m).zfill(2)+str(d).zfill(2))\<close> that
  \<open>daylightMe\<close> compares order valid dates as the calendar does: by year,
  then month, then day.
\<close>

theorem date_code_order:
  assumes "valid_dt a" "valid_dt b"
  shows "date_code a \<le> date_code b \<longleftrightarrow>
         year a < year b \<or> (year a = year b \<and> (month a < month b \<or> (month a = month b \<and> day a \<le> day b)))"
proof -
  have "month a \<le> 12" "month b \<le> 12" "day a < 100" "day b < 100"
    using assms valid_day_lt by (auto simp: valid_dt_def)
  moreover have "day a \<le> 31" "day b \<le> 31"
    using assms days_in_month_le [of "month a" "year a"] days_in_month_le [of "month b" "year b"]
    by (auto simp: valid_dt_def)
  ultimately show ?thesis by (simp add: date_code_eq) linarith
qed

theorem date_code_order_witness:
  "date_code \<lparr>year = 2025, month = 12, day = 31, hour = 0, minute = 0\<rparr> \<le> date_code \<lparr>year = 2026, month = 1, day = 1, hour = 0, minute = 0\<rparr> \<longleftrightarrow>
   (2025::nat) < 2026 \<or> (2025 = (2026::nat) \<and> (12 < (1::nat) \<or> (12 = (1::nat) \<and> 31 \<le> (1::nat))))"
  using date_code_order [of "\<lparr>year = 2025, month = 12, day = 31, hour = 0, minute = 0\<rparr>"
                            "\<lparr>year = 2026, month = 1, day = 1, hour = 0, minute = 0\<rparr>"]
  by (simp add: valid_dt_def days_in_month_def)

text \<open>
  The switch happens at midnight, not at 2 a.m., and the first Sunday of
  November is standard time all day: in 2026, 00:30 on 8 March (before the
  clocks go forward) is already daylight time, and 01:30 on 1 November (before
  the clocks go back) is already standard time.
\<close>

theorem daylight_me_midnight_switch:
  "daylight_me \<lparr>year = 2026, month = 3, day = 8, hour = 0, minute = 30\<rparr> = 1 \<and>
   daylight_me \<lparr>year = 2026, month = 11, day = 1, hour = 1, minute = 30\<rparr> = 0"
proof -
  have v: "valid_dt \<lparr>year = 2026, month = 3, day = 8, hour = 0, minute = 30\<rparr>"
          "valid_dt \<lparr>year = 2026, month = 11, day = 1, hour = 1, minute = 30\<rparr>"
    by (simp_all add: valid_dt_def days_in_month_def)
  have "first_sunday \<lparr>year = 2026, month = 3, day = 8, hour = 0, minute = 30\<rparr> = 1"
       "first_sunday \<lparr>year = 2026, month = 11, day = 1, hour = 1, minute = 30\<rparr> = 1"
    by (simp_all add: first_sunday_def weekday_def ymd2ord_def days_before_year_def days_before_month_def is_leap_def)
  with v show ?thesis by (simp add: daylight_me_transition)
qed

end
