(* ===== verification/Config.thy ===== *)
theory Config
  imports Hazard Daylight
begin

text \<open>
  The site configuration and the start-up code that reads it. A configuration
  file (\<open>config/config_tsu.template.py\<close>, or one of the samples
  \<open>config_tsuPQR.py\<close>, \<open>config_tsuMTR.py\<close> of \<open>config/SampleConfigs\<close>) is a
  Python module of assignments that \<open>nwr_tsu.py\<close> imports into its globals
  (lines 194-201); \<open>tsu_config\<close> holds one field per variable, with an option
  type where the program supplies a default for a missing variable (lines
  209, 291, 341-357). The start-up code then derives the globals the
  pipeline reads: the send script (209-213), the arrival points of
  \<open>readArrivalList\<close> (223-256) with the configured additions and removals
  (291-306), the product identifier \<open>wcapil\<close> (333-337), the defaults of
  lines 341-357, the time zone name \<open>tzset\<close> (397-405) and the local phrase
  (413-417).
\<close>

record tsu_config =
  local_dir :: string
  db :: string
  nwrsend :: "string option"
  node :: string
  localphrase :: string
  local_actions :: "string option"
  advisoryPIL :: "string option"
  watchPIL :: "string option"
  warningPIL :: "string option"
  zone_list :: "(zone \<times> string) list"
  zone_order :: "zone list"
  include_zone_names :: "bool option"
  county_list :: "(string \<times> string) list"
  arrival_list :: "string list option"
  arrival_localname :: "(string \<times> string) list option"
  advisory_handle :: string
  openPractice :: "string option"
  pending :: "string option"
  wcapil :: string
  tz :: int
  tzid :: string
  fontsize :: int
  textsize :: "int option"
  expiresin :: int

subsection \<open>The shipped configurations\<close>

text \<open>\<open>config_tsu.template.py\<close>, configured for WFO Los Angeles (LOX).\<close>

definition config_template :: tsu_config where
  "config_template =
     \<lparr>local_dir = ''/awips2/apps/TsunamiEasGui'', db = ''/awips2/fxa/bin/textdb'', nwrsend = None,
      node = ''LAX'',
      localphrase = ''coastal areas of los angeles, ventura, santa barbara, and san luis obispo counties'',
      local_actions = Some ''Stay tuned to your local news source and NOAA weather radio for further information and updates.'',
      advisoryPIL = Some ''TSYWCA'', watchPIL = Some ''TSAWCA'', warningPIL = Some ''TSWWCA'',
      zone_list = [(''CAZ034'', ''San Luis Obispo County Central Coast''),
                   (''CAZ035'', ''Santa Barbara County Central Coast''),
                   (''CAZ039'', ''Santa Barbara County South Coast''),
                   (''CAZ041'', ''Los Angeles County Coast''),
                   (''CAZ040'', ''Ventura County Coast''),
                   (''CAZ087'', ''Catalina and Santa Barbara Islands''),
                   (''CAZ549'', ''San Miguel and Santa Rosa Islands''),
                   (''CAZ550'', ''Santa Cruz and Anacapa Islands'')],
      zone_order = [''CAZ034'', ''CAZ035'', ''CAZ039'', ''CAZ040'', ''CAZ041'', ''CAZ087'', ''CAZ550'', ''CAZ549''],
      include_zone_names = Some True,
      county_list = [(''CAC079'', ''CAZ034''), (''CAC083'', ''CAZ035,CAZ039,CAZ549,CAZ550''),
                     (''CAC111'', ''CAZ040''), (''CAC037'', ''CAZ041,CAZ087'')],
      arrival_list = Some [], arrival_localname = Some [],
      advisory_handle = ''yes'', openPractice = Some ''no'', pending = Some ''no'',
      wcapil = ''TSUWCA'', tz = 8, tzid = ''pst'', fontsize = 12, textsize = Some 15, expiresin = 60\<rparr>"

text \<open>\<open>config_tsuPQR.py\<close> (WFO Portland): its county list.\<close>

definition pqr_county_list :: "(string \<times> string) list" where
  "pqr_county_list =
     [(''WAC027'', ''WAZ021''), (''WAC049'', ''WAZ021''), (''ORC007'', ''ORZ001''),
      (''ORC009'', ''WAZ021,ORZ001''), (''ORC051'', ''WAZ021,ORZ001''), (''ORC005'', ''WAZ021,ORZ001''),
      (''ORC067'', ''WAZ021,ORZ001''), (''ORC057'', ''ORZ001''), (''ORC041'', ''ORZ001,ORZ002''),
      (''ORC071'', ''ORZ001''), (''ORC039'', ''ORZ002''), (''ORC003'', ''ORZ001''),
      (''ORC043'', ''ORZ001''), (''ORC047'', ''ORZ001''), (''ORC053'', ''ORZ001''), (''ORC019'', ''ORZ002'')]"

definition config_PQR :: tsu_config where
  "config_PQR =
     \<lparr>local_dir = ''/awips2/apps/TsunamiEasGui'', db = ''/awips2/fxa/bin/textdb'', nwrsend = None,
      node = ''PDX'',
      localphrase = ''SOUTH WASHINGTON COAST AND OREGONs NORTH AND CENTRAL COAST'',
      local_actions = Some ''Stay tuned to your local news source and NOAA weather radio for further information and updates.'',
      advisoryPIL = Some ''TSYWCA'', watchPIL = Some ''TSAWCA'', warningPIL = Some ''TSWWCA'',
      zone_list = [(''WAZ021'', ''SOUTH WASHINGTON COAST''), (''ORZ001'', ''NORTH OREGON COAST''),
                   (''ORZ002'', ''CENTRAL COAST OF OREGON'')],
      zone_order = [''WAZ021'', ''ORZ001'', ''ORZ002''],
      include_zone_names = Some True,
      county_list = pqr_county_list,
      arrival_list = Some [], arrival_localname = None,
      advisory_handle = ''yes'', openPractice = Some ''no'', pending = Some ''no'',
      wcapil = ''TSUWCA'', tz = 8, tzid = ''pst'', fontsize = 12, textsize = Some 15, expiresin = 60\<rparr>"

text \<open>\<open>config_tsuMTR.py\<close> (WFO San Francisco Bay Area).\<close>

definition config_MTR :: tsu_config where
  "config_MTR =
     \<lparr>local_dir = ''/awips2/apps/TsunamiEasGui'', db = ''/awips2/fxa/bin/textdb'', nwrsend = None,
      node = ''SFO'',
      localphrase = ''shoreline areas of sonoma...napa...marin...san francisco...contra costa...solano...alameda...san mateo...san francisco...santa clara...santa cruz...and monterey counties'',
      local_actions = Some ''Stay tuned to your local news source and NOAA weather radio for further information and updates.'',
      advisoryPIL = Some ''TSYWCA'', watchPIL = Some ''TSAWCA'', warningPIL = Some ''TSWWCA'',
      zone_list = [(''CAZ505'', ''Coastal North Bay''), (''CAZ006'', ''San Francisco''),
                   (''CAZ508'', ''San Francisco Bay Shoreline''), (''CAZ509'', ''San Francisco Peninsula Coast''),
                   (''CAZ530'', ''Southern Monterey Bay and Big Sur Coast''), (''CAZ529'', ''Northern Monterey Bay'')],
      zone_order = [''CAZ505'', ''CAZ006'', ''CAZ508'', ''CAZ509'', ''CAZ530'', ''CAZ529''],
      include_zone_names = Some True,
      county_list = [(''CAC097'', ''CAZ505''), (''CAC013'', ''CAZ508''), (''CAC001'', ''CAZ508''),
                     (''CAC041'', ''CAZ505''), (''CAC075'', ''CAZ006,CAZ508,CAZ509''), (''CAC081'', ''CAZ509''),
                     (''CAC087'', ''CAZ529''), (''CAC053'', ''CAZ530'')],
      arrival_list = Some [], arrival_localname = None,
      advisory_handle = ''yes'', openPractice = Some ''no'', pending = Some ''yes'',
      wcapil = ''TSUWCA'', tz = 8, tzid = ''pst'', fontsize = 12, textsize = Some 15, expiresin = 60\<rparr>"

subsection \<open>Start-up processing\<close>

text \<open>Lines 209-213: the send script, or \<open>""\<close> when sending is disabled.\<close>

definition nwrsend_cmd :: "tsu_config \<Rightarrow> string" where
  "nwrsend_cmd cfg =
     (case nwrsend cfg of None \<Rightarrow> [] | Some s \<Rightarrow> if s = [] then [] else local_dir cfg @ ''/bin/nwrsend.sh'')"

text \<open>\<open>f.readlines()\<close> in text mode: universal newlines, each line keeping its
  \<open>"\n"\<close>.\<close>

fun readlines_aux :: "string \<Rightarrow> string \<Rightarrow> string list" where
  "readlines_aux acc [] = (if acc = [] then [] else [acc])"
| "readlines_aux acc (c # cs) = (if c = NL then (acc @ [NL]) # readlines_aux [] cs else readlines_aux (acc @ [c]) cs)"

definition py_readlines :: "string \<Rightarrow> string list" where
  "py_readlines s = readlines_aux [] (py_replace (py_replace s [CHR 0x0D, NL] [NL]) [CHR 0x0D] [NL])"

text \<open>\<open>readArrivalList\<close> (lines 223-256): the points of the forecast-points
  file whose zone is one of \<open>zoneOut\<close>; \<open>None\<close> is a missing or unreadable file.\<close>

definition arrival_point :: "zone list \<Rightarrow> string \<Rightarrow> string list" where
  "arrival_point zoneOut line =
     (let fields = py_split (py_rstrip line) '',''
      in if length fields > 2 \<and> fields ! 0 \<noteq> [] \<and> fields ! 1 \<noteq> [] \<and> fields ! 2 \<noteq> [] \<and> fields ! 2 \<in> set zoneOut
         then [fields ! 0 @ '' '' @ fields ! 1] else [])"

definition read_arrival_list :: "string option \<Rightarrow> zone list \<Rightarrow> string list" where
  "read_arrival_list file zoneOut =
     (case file of None \<Rightarrow> [] | Some content \<Rightarrow> concat (map (arrival_point zoneOut) (py_readlines content)))"

text \<open>Lines 300-306: the configured \<open>"Point,State,ADD"\<close> and
  \<open>"Point,State,IGNORE"\<close> entries; an entry without a comma is a legacy entry
  and skipped, and an entry with one comma fails at \<open>tmp[2]\<close>.\<close>

fun augment_arrivals :: "string list \<Rightarrow> string list \<Rightarrow> py_error + string list" where
  "augment_arrivals arr [] = Inr arr"
| "augment_arrivals arr (a # rest) =
     (if py_find a '','' = -1 then augment_arrivals arr rest
      else
        (let tmp = py_split a '','' in
         if length tmp < 2 then augment_arrivals arr rest
         else if length tmp < 3 then Inl IndexError
         else
           (let into = tmp ! 0 @ '' '' @ tmp ! 1;
                arr1 = (if py_upper (tmp ! 2) = ''ADD'' \<and> into \<notin> set arr then arr @ [into] else arr);
                arr2 = (if py_upper (tmp ! 2) = ''IGNORE'' \<and> into \<in> set arr1 then remove1 into arr1 else arr1)
            in augment_arrivals arr2 rest)))"

text \<open>Lines 291-306: the arrival points of the site at start-up.\<close>

definition load_arrivals :: "tsu_config \<Rightarrow> string option \<Rightarrow> py_error + string list" where
  "load_arrivals cfg points_file =
     augment_arrivals (read_arrival_list points_file (zone_order cfg))
       (case arrival_list cfg of None \<Rightarrow> [] | Some l \<Rightarrow> l)"

text \<open>Lines 333-337: the product identifier of the warning center bulletin.\<close>

definition norm_wcapil :: "tsu_config \<Rightarrow> string" where
  "norm_wcapil cfg =
     (let w1 = (if length (wcapil cfg) < 9 then node cfg @ wcapil cfg else wcapil cfg);
          tmp = py_split w1 '':'';
          w2 = (if length tmp > 1 then tmp ! 0 @ '':'' @ node cfg @ tmp ! 1 else w1)
      in py_upper w2)"

text \<open>Lines 341-357: the defaults of variables a configuration may omit.\<close>

definition cfg_local_actions :: "tsu_config \<Rightarrow> string" where
  "cfg_local_actions cfg = (case local_actions cfg of None \<Rightarrow> [] | Some s \<Rightarrow> s)"

definition cfg_pending :: "tsu_config \<Rightarrow> string" where
  "cfg_pending cfg = (case pending cfg of None \<Rightarrow> ''no'' | Some s \<Rightarrow> s)"

definition cfg_pil :: "tsu_config \<Rightarrow> hazard \<Rightarrow> string" where
  "cfg_pil cfg h =
     (case h of
        Advisory \<Rightarrow> (case advisoryPIL cfg of None \<Rightarrow> ''TSYWCA'' | Some s \<Rightarrow> s)
      | Watch \<Rightarrow> (case watchPIL cfg of None \<Rightarrow> ''TSAWCA'' | Some s \<Rightarrow> s)
      | Warning \<Rightarrow> (case warningPIL cfg of None \<Rightarrow> ''TSWWCA'' | Some s \<Rightarrow> s))"

definition cfg_open_practice :: "tsu_config \<Rightarrow> string" where
  "cfg_open_practice cfg = (case openPractice cfg of None \<Rightarrow> ''no'' | Some s \<Rightarrow> s)"

text \<open>Lines 397-405: the time zone abbreviation of the local clock,
  \<open>tz_list[daylightMe(todaylocal)]\<close>.\<close>

definition tzset :: "tsu_config \<Rightarrow> datetime \<Rightarrow> string" where
  "tzset cfg todaylocal = [tzid cfg, py_replace (tzid cfg) ''st'' ''dt''] ! daylight_me todaylocal"

text \<open>Line 410: the long names of the standard time zones.\<close>

definition tz_long :: "string \<Rightarrow> string option" where
  "tz_long = map_of [(''pst'', ''PACIFIC''), (''akst'', ''ALASKA''), (''mst'', ''MOUNTAIN''), (''cst'', ''CENTRAL''),
                     (''est'', ''EASTERN''), (''ast'', ''ATLANTIC''), (''hst'', ''HAWAII''), (''chst'', ''CHAMORRO'')]"

text \<open>Lines 413-417: the headline phrase and the local phrase; a blank phrase
  becomes \<open>the local coastal area\<close> with no headline, and \<open>...\<close> becomes
  \<open>, \<close>.\<close>

definition localheadline :: "string \<Rightarrow> string" where
  "localheadline lp = (if py_replace lp '' '' [] = [] then [] else ''for '' @ lp)"

definition effective_localphrase :: "string \<Rightarrow> string" where
  "effective_localphrase lp =
     (if py_replace lp '' '' [] = [] then ''the local coastal area'' else py_replace lp ''...'' '', '')"

subsection \<open>Well-formed configurations\<close>

text \<open>
  What the program assumes of a configuration: the zone codes of
  \<open>zone_order\<close> (the \<open>zone_ids\<close> of the parser, line 311) are the keys of
  \<open>zone_list\<close>, each once and each of the shape the parser's zone pattern
  accepts (two letters, \<open>Z\<close>, three digits); every zone a county lists is
  configured; and the time zone has a long name.
\<close>

definition zone_code_ok :: "string \<Rightarrow> bool" where
  "zone_code_ok z \<longleftrightarrow> length z = 6 \<and> is_upper (z ! 0) \<and> is_upper (z ! 1) \<and> z ! 2 = CHR ''Z'' \<and>
                      list_all is_digit (drop 3 z)"

definition config_wf :: "tsu_config \<Rightarrow> bool" where
  "config_wf cfg \<longleftrightarrow>
     distinct (zone_order cfg) \<and> distinct (map fst (zone_list cfg)) \<and>
     set (zone_order cfg) = set (map fst (zone_list cfg)) \<and>
     list_all zone_code_ok (zone_order cfg) \<and>
     list_all (\<lambda>(c, zs). list_all (\<lambda>z. z \<in> set (zone_order cfg)) (py_split zs '','')) (county_list cfg) \<and>
     tz_long (tzid cfg) \<noteq> None"

subsection \<open>Lemmas\<close>

lemma split_three_fields:
  assumes "CHR '','' \<notin> set p" "CHR '','' \<notin> set q" "CHR '','' \<notin> set r"
  shows "py_split (p @ CHR '','' # q @ CHR '','' # r) '','' = [p, q, r]"
  using assms by (simp add: py_split_def split_single_sep split_aux_no_sep)

lemma split_two_fields:
  assumes "CHR '','' \<notin> set p" "CHR '','' \<notin> set q"
  shows "py_split (p @ CHR '','' # q) '','' = [p, q]"
  using assms by (simp add: py_split_def split_single_sep split_aux_no_sep)

lemma comma_found: "py_find (p @ CHR '','' # q) '','' \<noteq> -1"
  using py_find_neg_iff [of "p @ CHR '','' # q" "'',''"] str_in_iff [of "'',''" "p @ CHR '','' # q"] by auto

subsection \<open>Properties of the configuration\<close>


text \<open>
  C20. An \<open>arrival_list\<close> entry with exactly one comma (a point and a state
  but no \<open>ADD\<close> or \<open>IGNORE\<close>) passes the length check \<open>len(tmp)<2\<close> and
  fails at \<open>tmp[2]\<close>: the start-up code raises \<open>IndexError\<close>.
\<close>

theorem augment_one_comma_error:
  assumes "CHR '','' \<notin> set p" "CHR '','' \<notin> set q"
  shows "augment_arrivals arr ((p @ '','' @ q) # rest) = Inl IndexError"
  using comma_found [of p q] split_two_fields [OF assms] by simp

theorem augment_one_comma_error_witness:
  "augment_arrivals [] [''Craig,Alaska''] = Inl IndexError"
proof -
  have "CHR '','' \<notin> set ''Craig''" "CHR '','' \<notin> set ''Alaska''" by simp_all
  from augment_one_comma_error [OF this, of "[]" "[]"] show ?thesis by simp
qed

text \<open>
  A well-formed entry \<open>"Point,State,ADD"\<close> adds \<open>"Point State"\<close> to the
  arrival points unless it is there, and \<open>"Point,State,IGNORE"\<close> removes its
  first occurrence.
\<close>

theorem augment_add_ignore:
  assumes "CHR '','' \<notin> set p" "CHR '','' \<notin> set q"
  shows "augment_arrivals arr [p @ '','' @ q @ '',ADD''] =
           Inr (if p @ '' '' @ q \<in> set arr then arr else arr @ [p @ '' '' @ q]) \<and>
         augment_arrivals arr [p @ '','' @ q @ '',IGNORE''] = Inr (remove1 (p @ '' '' @ q) arr)"
proof -
  have "py_split (p @ CHR '','' # q @ CHR '','' # ''ADD'') '','' = [p, q, ''ADD'']"
       "py_split (p @ CHR '','' # q @ CHR '','' # ''IGNORE'') '','' = [p, q, ''IGNORE'']"
    using assms by (simp_all add: split_three_fields)
  moreover have "py_find (p @ CHR '','' # q @ CHR '','' # ''ADD'') '','' \<noteq> -1"
                "py_find (p @ CHR '','' # q @ CHR '','' # ''IGNORE'') '','' \<noteq> -1"
    using comma_found [of p "q @ CHR '','' # ''ADD''"] comma_found [of p "q @ CHR '','' # ''IGNORE''"] by simp_all
  moreover have "py_upper ''ADD'' = ''ADD''" "py_upper ''IGNORE'' = ''IGNORE''"
    by (simp_all add: pystr_eval)
  ultimately show ?thesis by (simp add: remove1_idem)
qed

theorem augment_add_ignore_witness:
  "augment_arrivals [''Craig Alaska''] [''Sitka'' @ '','' @ ''Alaska'' @ '',ADD''] =
     Inr (if ''Sitka'' @ '' '' @ ''Alaska'' \<in> set [''Craig Alaska''] then [''Craig Alaska'']
          else [''Craig Alaska''] @ [''Sitka'' @ '' '' @ ''Alaska'']) \<and>
   augment_arrivals [''Craig Alaska''] [''Sitka'' @ '','' @ ''Alaska'' @ '',IGNORE''] =
     Inr (remove1 (''Sitka'' @ '' '' @ ''Alaska'') [''Craig Alaska''])"
  by (rule augment_add_ignore) simp_all

text \<open>
  From April to October the local time zone is the configured standard
  zone with \<open>st\<close> replaced by \<open>dt\<close>, whatever the zone: a Hawaii or Guam
  office, whose zones keep standard time all year, gets the non-existent
  zones \<open>hdt\<close> and \<open>chdt\<close>.
\<close>

theorem tzset_summer_no_dst_zones:
  assumes "4 \<le> month dt" "month dt \<le> 10" "tzid cfg = ''hst'' \<or> tzid cfg = ''chst''"
  shows "tzset cfg dt = (if tzid cfg = ''hst'' then ''hdt'' else ''chdt'')"
  using assms by (auto simp: tzset_def daylight_me_def pystr_eval)

theorem tzset_summer_no_dst_zones_witness:
  "tzset (config_template\<lparr>tzid := ''hst''\<rparr>) \<lparr>year = 2026, month = 7, day = 1, hour = 12, minute = 0\<rparr> =
   (if tzid (config_template\<lparr>tzid := ''hst''\<rparr>) = ''hst'' then ''hdt'' else ''chdt'')"
  by (rule tzset_summer_no_dst_zones) simp_all

text \<open>
  The local phrase is normalised for speech: the San Francisco Bay Area
  phrase written with \<open>...\<close> separators is read with commas, and a blank
  phrase becomes \<open>the local coastal area\<close> with no headline.
\<close>

theorem localphrase_normalised:
  "effective_localphrase (localphrase config_MTR) =
     ''shoreline areas of sonoma, napa, marin, san francisco, contra costa, solano, alameda, san mateo, san francisco, santa clara, santa cruz, and monterey counties'' \<and>
   (py_replace lp '' '' [] = [] \<longrightarrow> effective_localphrase lp = ''the local coastal area'' \<and> localheadline lp = [])"
  by (simp add: effective_localphrase_def localheadline_def config_MTR_def pystr_eval)

theorem localphrase_normalised_witness:
  "effective_localphrase (localphrase config_MTR) =
     ''shoreline areas of sonoma, napa, marin, san francisco, contra costa, solano, alameda, san mateo, san francisco, santa clara, santa cruz, and monterey counties'' \<and>
   effective_localphrase ''   '' = ''the local coastal area'' \<and> localheadline ''   '' = []"
  using localphrase_normalised [of "''   ''"] by (simp add: pystr_eval)

text \<open>
  \<open>readArrivalList\<close> returns no point when the forecast-points file is
  missing, and otherwise only points of lines with at least three fields whose
  zone is one of the configured zones, named \<open>"Point State"\<close>.
\<close>

theorem read_arrival_list_configured:
  "read_arrival_list None zs = [] \<and>
   (p \<in> set (read_arrival_list (Some c) zs) \<longrightarrow>
      (\<exists>l \<in> set (py_readlines c). \<exists>f. f = py_split (py_rstrip l) '','' \<and>
          2 < length f \<and> f ! 2 \<in> set zs \<and> p = f ! 0 @ '' '' @ f ! 1))"
  by (auto simp: read_arrival_list_def arrival_point_def Let_def split: if_splits)

theorem read_arrival_list_configured_witness:
  "read_arrival_list None [''CAZ040''] = [] \<and>
   (\<exists>l \<in> set (py_readlines ''Ventura,California,CAZ040\<newline>Avalon,California,CAZ087\<newline>'').
      \<exists>f. f = py_split (py_rstrip l) '','' \<and> 2 < length f \<and> f ! 2 \<in> set [''CAZ040''] \<and>
          ''Ventura California'' = f ! 0 @ '' '' @ f ! 1)"
proof -
  have "''Ventura California'' \<in> set (read_arrival_list (Some ''Ventura,California,CAZ040\<newline>Avalon,California,CAZ087\<newline>'') [''CAZ040''])"
    by (simp add: read_arrival_list_def arrival_point_def py_readlines_def pystr_eval)
  with read_arrival_list_configured [of "[''CAZ040'']" "''Ventura California''"
         "''Ventura,California,CAZ040\<newline>Avalon,California,CAZ087\<newline>''"]
  show ?thesis by blast
qed

end
