(* ===== verification/Composer.thy ===== *)
theory Composer
  imports AreaDescription Config
begin

text \<open>
  The statement composer: the call-to-action sentences of \<open>hazDefMe\<close>
  (\<open>nwr_tsu.py\<close> lines 574-588), the template skeleton of
  \<open>statementMake\<close> (lines 766-794: a local template file with its comment
  lines dropped, or the built-in template), the clean-up \<open>cleanStatement\<close>
  (lines 843-853) and the single-hazard branch of \<open>autoFill\<close> (lines
  678-709) that fills the placeholders \<open>AAAAAA\<close> (area), \<open>NNNNNN\<close>
  (call to action), \<open>EEEEEE\<close> (earthquake), \<open>LLLLLL\<close> (arrival times) and
  \<open>SSSSSS\<close> (local actions).
\<close>

subsection \<open>\<open>dowhat\<close> as the string the source passes around\<close>

fun dowhat_str :: "dowhat \<Rightarrow> string" where
  "dowhat_str DNone = []"
| "dowhat_str (DSingle h) = hazard_name h"
| "dowhat_str (DPair a b) = hazard_name a @ ''_'' @ hazard_name b"
| "dowhat_str DTriple = ''warning_watch_advisory''"

subsection \<open>\<open>hazDefMe\<close>\<close>

fun call_to_action :: "hazard \<Rightarrow> string" where
  "call_to_action Warning = '' IF YOU ARE LOCATED IN THIS COASTAL AREA, MOVE INLAND TO HIGHER GROUND.''"
| "call_to_action Watch = '' IF YOU ARE LOCATED IN THIS COASTAL AREA, STAY ALERT FOR FURTHER UPDATES.''"
| "call_to_action Advisory = '' IF YOU ARE LOCATED IN THIS COASTAL AREA, MOVE OFF THE BEACH AND OUT OF HARBORS.''"

definition haz_def :: "string \<Rightarrow> string" where
  "haz_def a =
     (if str_in ''warning'' a then call_to_action Warning else []) @
     (if str_in ''watch'' a then call_to_action Watch else []) @
     (if str_in ''advisory'' a then call_to_action Advisory else [])"

subsection \<open>\<open>statementMake\<close>: the skeleton\<close>

text \<open>A template file: its non-comment lines, each followed by a newline, stripped.\<close>

definition template_from_file :: "string \<Rightarrow> string" where
  "template_from_file content =
     py_strip (concat (map (\<lambda>a. a @ [NL]) (filter (\<lambda>a. a = [] \<or> hd a \<noteq> CHR ''#'') (py_splitlines content))))"

definition builtin_template :: "hazard \<Rightarrow> string" where
  "builtin_template w =
     (let W = py_upper (hazard_name w)
      in ''TSUNAMI '' @ W @ ''. REPEAT, TSUNAMI '' @ W @ ''.'' @ [NL, NL] @
         ''THE NATIONAL WEATHER SERVICE HAS ISSUED A TSUNAMI '' @ W @ '' AAAAAA. NNNNNN.'' @ [NL, NL] @
         ''EEEEEE.'' @ [NL, NL] @
         ''LLLLLL.'' @ [NL, NL] @
         ''ONCE AGAIN, THE NATIONAL WEATHER SERVICE HAS ISSUED A TSUNAMI '' @ W @ '' AAAAAA. NNNNNN. '' @
         ''SSSSSS. IN HOUSE.'')"

text \<open>\<open>statementMake(wwa)\<close> with no placeholder to fill: the file's content if the
  template file exists, the built-in template otherwise.\<close>

definition statement_skeleton :: "string option \<Rightarrow> hazard \<Rightarrow> string" where
  "statement_skeleton file w =
     (case file of Some content \<Rightarrow> template_from_file content | None \<Rightarrow> builtin_template w)"

subsection \<open>\<open>cleanStatement\<close>\<close>

definition clean_statement :: "string \<Rightarrow> string" where
  "clean_statement out =
     (let o1 = py_replace out '' .'' ''.'';
          o2 = py_replace o1 ''...'' '', '';
          o3 = py_replace o2 ''..'' ''.'';
          o4 = py_replace o3 [NL, CHR ''.'', NL] [NL, NL];
          o5 = py_replace o4 ''  '' '' '';
          o6 = py_replace o5 [NL, NL, NL] [NL, NL];
          o7 = py_replace o6 [NL, NL, NL] [NL, NL]
      in py_replace o7 [NL, NL, NL] [NL, NL])"

subsection \<open>The single-hazard statement of \<open>autoFill\<close>\<close>

text \<open>\<open>breakpoints[wwa]\<close> when \<open>breakpointMe\<close> returned its dictionary, nothing
  when it returned \<open>[]\<close>.\<close>

definition area_of :: "area \<Rightarrow> hazard \<Rightarrow> string" where
  "area_of a w = (case a of AreaNone \<Rightarrow> [] | AreaOut out \<Rightarrow> out w)"

definition arrival_tz :: "tsu_config \<Rightarrow> hazard_info \<Rightarrow> string" where
  "arrival_tz cfg info =
     (let tz2 = (case tz_long (tzid cfg) of Some l \<Rightarrow> l @ '' STANDARD TIME'' | None \<Rightarrow> ''PACIFIC STANDARD TIME'')
      in if \<not> str_in ''STANDARD'' (daytime info) then py_replace tz2 ''STANDARD'' ''DAYLIGHT'' else tz2)"

definition arrival_section :: "tsu_config \<Rightarrow> hazard_info \<Rightarrow> hazard \<Rightarrow> string" where
  "arrival_section cfg info w =
     (if arrivals info w \<noteq> []
      then [NL, NL] @ ''Estimated arrival times for the first in the series of tsunami waves are as follows in '' @
           arrival_tz cfg info @ concat (map (\<lambda>a. ''.'' @ [NL] @ a) (arrivals info w)) @ ''.''
      else [])"

definition compose_single :: "tsu_config \<Rightarrow> string option \<Rightarrow> hazard_info \<Rightarrow> area \<Rightarrow> hazard \<Rightarrow> string" where
  "compose_single cfg file info bps w =
     (let out0 = statement_skeleton file w;
          out1 = (if eseg info \<noteq> [] then py_replace out0 ''EEEEEE'' (eseg info)
                  else py_replace (py_replace out0 ''EEEEEE.'' []) ''EEEEEE'' []);
          local = (if area_of bps w \<noteq> [] then ''following locations, '' @ area_of bps w else effective_localphrase (localphrase cfg));
          out2 = py_replace out1 ''AAAAAA'' (''for the '' @ local);
          hazdef = haz_def (hazard_name w);
          out3 = (if hazdef \<noteq> [] then py_replace out2 ''NNNNNN'' hazdef
                  else py_replace (py_replace out2 ''NNNNNN.'' ''XXXXXX'') ''NNNNNN'' ''XXXXXX'');
          arrive = arrival_section cfg info w;
          out4 = (if arrive \<noteq> [] then py_replace out3 ''LLLLLL'' arrive
                  else py_replace (py_replace out3 ''LLLLLL.'' []) ''LLLLLL'' []);
          out5 = py_replace out4 ''SSSSSS'' (cfg_local_actions cfg)
      in py_strip (py_upper (clean_statement out5)))"

text \<open>The statement the spec's example expects for a warning at the Los Angeles office.\<close>

definition lox_warning_statement :: string where
  "lox_warning_statement = ''TSUNAMI WARNING. REPEAT, TSUNAMI WARNING.\<newline>\<newline>THE NATIONAL WEATHER SERVICE HAS ISSUED A TSUNAMI WARNING FOR THE COASTAL AREAS OF LOS ANGELES, VENTURA, SANTA BARBARA, AND SAN LUIS OBISPO COUNTIES. IF YOU ARE LOCATED IN THIS COASTAL AREA, MOVE INLAND TO HIGHER GROUND.\<newline>\<newline>ONCE AGAIN, THE NATIONAL WEATHER SERVICE HAS ISSUED A TSUNAMI WARNING FOR THE COASTAL AREAS OF LOS ANGELES, VENTURA, SANTA BARBARA, AND SAN LUIS OBISPO COUNTIES. IF YOU ARE LOCATED IN THIS COASTAL AREA, MOVE INLAND TO HIGHER GROUND. STAY TUNED TO YOUR LOCAL NEWS SOURCE AND NOAA WEATHER RADIO FOR FURTHER INFORMATION AND UPDATES. IN HOUSE.''"

lemmas compose_eval = compose_single_def statement_skeleton_def builtin_template_def clean_statement_def
  haz_def_def arrival_section_def arrival_tz_def area_of_def config_template_def effective_localphrase_def
  cfg_local_actions_def tz_long_def Let_def

subsection \<open>Properties of the composer\<close>

text \<open>
  The call-to-action text of a scenario is the sentence of each of its
  hazards, in the order warning, watch, advisory, and nothing for no hazard.
\<close>

theorem haz_def_scenario:
  "haz_def (dowhat_str d) = concat (map call_to_action (combo_choices d))"
proof (cases d)
  case (DSingle h)
  then show ?thesis by (cases h) (simp_all add: haz_def_def combo_choices_def)
next
  case (DPair a b)
  then show ?thesis by (cases a; cases b) (simp_all add: haz_def_def combo_choices_def)
qed (simp_all add: haz_def_def combo_choices_def)

text \<open>
  The spec's end-to-end example: a tsunami warning for the Los Angeles
  configuration, with no earthquake text, no arrival times and no breakpoint
  area, composed from the built-in template. The earthquake and arrival
  placeholders vanish with their periods, the area is the configured local
  phrase, the call to action and local actions are filled in, no doubled
  period or blank line is left, and the text, read on the radio, ends with
  the template's \<open>IN HOUSE.\<close>.
\<close>

theorem compose_spec_example:
  assumes "eseg info = []" "arrivals info Warning = []"
  shows "compose_single config_template None info AreaNone Warning = lox_warning_statement"
proof -
  have "compose_single config_template None info AreaNone Warning = compose_single config_template None info_init AreaNone Warning"
    using assms by (simp add: compose_single_def arrival_section_def)
  also have "\<dots> = lox_warning_statement"
    by code_simp
  finally show ?thesis .
qed

theorem compose_spec_example_witness:
  "compose_single config_template None info_init AreaNone Warning = lox_warning_statement"
  by (rule compose_spec_example) simp_all

text \<open>
  The clean-up does not reach the normal form the spec requires. It is
  not idempotent: a space before a period survives one pass when more
  spaces precede it, and a second pass removes it. And runs of newlines are
  not collapsed to two: three passes of replacing three newlines by two
  leave three of a run of eight.
\<close>

theorem clean_statement_not_normal_form:
  "clean_statement ''   .'' = '' .'' \<and> clean_statement (clean_statement ''   .'') = ''.'' \<and>
   clean_statement (replicate 8 NL) = replicate 3 NL"
  by (simp add: clean_statement_def pystr_eval)

text \<open>
  The time zone of the arrival times is named daylight time whenever the
  earthquake time was not converted: \<open>info["daytime"]\<close> keeps its initial
  \<open>XXXXXX\<close>, which has no \<open>STANDARD\<close>, whatever the date.
\<close>

theorem arrival_tz_unconverted_daylight:
  assumes "daytime info = ''XXXXXX''"
  shows "arrival_tz config_template info = ''PACIFIC DAYLIGHT TIME''"
  using assms by (simp add: arrival_tz_def config_template_def tz_long_def pystr_eval)

theorem arrival_tz_unconverted_daylight_witness:
  "arrival_tz config_template info_init = ''PACIFIC DAYLIGHT TIME''"
  by (rule arrival_tz_unconverted_daylight) (simp add: info_init_def)

end
