(* ===== verification/AutoFill.thy ===== *)
theory AutoFill
  imports Composer BulletinParser
begin

text \<open>
  \<open>autoFill(combowhat)\<close> (\<open>nwr_tsu.py\<close> lines 598-765), the function that
  composes the statement from a parsed bulletin: it resets the combination
  state on a fresh load, stops at a test notice until the operator asks for
  test wording, resolves the scenario (\<open>Scenario\<close>), asks
  \<open>breakpointMe\<close> for the area phrases (\<open>AreaDescription\<close>; the start-up
  code empties \<open>breakpoint_list\<close> at line 353, so the list passed here is
  empty), and then reports that no hazard is active, composes a
  single-hazard statement (\<open>Composer\<close>) or a two-hazard statement (lines
  710-747), checks the zone buttons of the hazards and applies the test
  wording of \<open>testMe\<close>/\<open>untestMe\<close> (lines 1606-1645). The result is the
  outcome the operator sees: a prompt, a statement with its selected zones,
  or the exception that ends the call.
\<close>

datatype fill_request = RFresh | RAll | RHaz hazard | RTest

datatype fill_outcome =
    TestPrompt string
  | ComboPrompt dowhat
  | NoHazardPrompt string
  | Statement string "zone list"

subsection \<open>Test wording\<close>

text \<open>The text of the window as \<open>radiotext.get(0.0,END)\<close> returns it: with a
  final newline.\<close>

definition test_me :: "bool \<Rightarrow> string \<Rightarrow> string" where
  "test_me passit w =
     (let text = w @ [NL]
      in if length text < 25 then w
         else if str_in ''TEST..'' text \<and> \<not> passit then w
         else py_strip (''TEST...TEST...TEST...THIS IS ONLY A TEST.'' @ [NL, NL] @
                        py_replace text ''TSUNAMI'' ''TEST TSUNAMI'' @
                        [NL] @ ''REPEAT...THIS WAS A TEST...THIS WAS ONLY A TEST. THERE IS NO TSUNAMI DANGER AT THIS TIME.''))"

definition untest_me :: "bool \<Rightarrow> string \<Rightarrow> string" where
  "untest_me passit w =
     (let text = w @ [NL]
      in if length text < 25 then w
         else if \<not> str_in ''TEST'' text \<and> \<not> passit then w
         else
           (let t1 = py_replace text (''TEST...TEST...TEST...THIS IS ONLY A TEST.'' @ [NL, NL]) [];
                t2 = py_replace t1 (''TEST...TEST...TEST...THIS IS ONLY A TEST.'' @ [NL]) [];
                t3 = py_replace t2 ''TEST TSUNAMI'' ''TSUNAMI'';
                t4 = py_replace t3 ([NL] @ ''REPEAT...THIS WAS A TEST...THIS WAS ONLY A TEST. THERE IS NO TSUNAMI DANGER AT THIS TIME.'') []
            in py_strip t4))"

text \<open>Lines 762-764: the test wording applied after a statement is loaded.\<close>

definition test_wording :: "tsu_config \<Rightarrow> bool \<Rightarrow> string \<Rightarrow> string \<Rightarrow> string" where
  "test_wording cfg testmode modeme w =
     (let w1 = untest_me True w
      in if str_in ''/'' (norm_wcapil cfg) then test_me True w1
         else if testmode \<or> modeme = ''test'' then test_me False w1
         else w1)"

subsection \<open>The two-hazard statement (lines 710-747)\<close>

text \<open>The arrival lines of both hazards, each once, in order of first
  appearance (the list \<open>track\<close>).\<close>

fun dedup_arrivals :: "string list \<Rightarrow> string list \<Rightarrow> string list" where
  "dedup_arrivals track [] = []"
| "dedup_arrivals track (a # as) =
     (if a \<in> set track then dedup_arrivals track as else a # dedup_arrivals (track @ [a]) as)"

text \<open>\<open>breakpoints[wwa1]\<close> on the list \<open>[]\<close> that \<open>breakpointMe\<close> may return
  is a \<open>TypeError\<close>. The two string literals continued with a backslash
  carry the indentation of the next line into the text.\<close>

definition compose_combo :: "tsu_config \<Rightarrow> hazard_info \<Rightarrow> area \<Rightarrow> hazard \<Rightarrow> hazard \<Rightarrow> string \<Rightarrow> py_error + string" where
  "compose_combo cfg info bps w1 w2 hazdef =
     (case bps of
        AreaNone \<Rightarrow> Inl TypeError
      | AreaOut b \<Rightarrow>
          (let n1 = hazard_name w1; n2 = hazard_name w2;
               brk = (if b w1 \<noteq> [] \<and> b w2 \<noteq> [] then (b w1, b w2) else (''XXXXXX'', ''XXXXXX''));
               out1 = ''Tsunami '' @ n1 @ '' and '' @ n2 @ ''. Repeat, Tsunami '' @ n1 @ '' and '' @ n2 @ ''.'' @ [NL, NL];
               out2 = out1 @ ''The National Weather Service has issued a tsunami '' @ n1 @ '' for the '' @ fst brk @
                      '' and a tsunami   '' @ n2 @ '' for the following locations, '' @ snd brk @ ''.'';
               out3 = out2 @ hazdef @ [NL, NL] @ eseg info;
               arrive = concat (map (\<lambda>a. ''.'' @ [NL] @ a) (dedup_arrivals [] (arrivals info w1 @ arrivals info w2)));
               out4 = (if arrive \<noteq> []
                       then out3 @ [NL, NL] @ ''Estimated arrival times for the first in the series of tsunami waves are as follows in '' @
                            arrival_tz cfg info @ arrive @ ''.''
                       else out3);
               out5 = out4 @ [NL, NL] @ ''Once again, The National Weather Service has issued a tsunami '' @ n1 @ '' for the '' @
                      fst brk @ '' and a   tsunami '' @ n2 @ '' for the following locations, '' @ snd brk @ ''.'' @
                      hazdef @ '' '' @ cfg_local_actions cfg
           in Inr (py_strip (py_upper (py_replace out5 '' .'' ''.'')))))"

subsection \<open>\<open>autoFill\<close>\<close>

text \<open>Lines 662-676: the prompt when no hazard is to be composed.\<close>

definition no_hazard_message :: "bool \<Rightarrow> hazard_info \<Rightarrow> string" where
  "no_hazard_message cancelflg info =
     (if zones info Advisory \<noteq> [] then ''While an advisory was found, no warnings or watches were detected in your area.''
      else if issues info = [Final] then ''It appears that there was a cancellation in the most recent bulletin. ''
      else ''No tsunami hazards were detected in your area. '') @
     (if cancelflg then ''If you want to issue a cancellation message, please use one of the options from the Cancelations menu. Remember to manually delete the previous BMH Tsunami statement if still active.'' else []) @
     [NL, NL] @ ''View TSU statement from the black button at the top right and load another version, or use one of the options from the Templates menu.''"

text \<open>Lines 749-760: the zone buttons checked for the composed hazards, read
  back in the order of \<open>zone_ids\<close> as \<open>zoneMe\<close> lists them.\<close>

definition checked_zones :: "tsu_config \<Rightarrow> hazard_info \<Rightarrow> hazard list \<Rightarrow> zone list" where
  "checked_zones cfg info hs = filter (\<lambda>z. \<exists>h \<in> set hs. z \<in> set (zones info h)) (zone_order cfg)"

definition is_test_notice :: "hazard_info \<Rightarrow> bool" where
  "is_test_notice info \<longleftrightarrow> extra info \<noteq> [] \<and> str_in ''appears to be a test'' (extra info)"

definition auto_fill ::
  "tsu_config \<Rightarrow> (hazard \<Rightarrow> string option) \<Rightarrow> dowhat \<Rightarrow> bool \<Rightarrow> string \<Rightarrow> fill_request \<Rightarrow> hazard_info \<Rightarrow>
   py_error + fill_outcome"
where
  "auto_fill cfg templates active cancelflg modeme req info =
     (let active1 = (if req = RFresh then DNone else active)
      in if is_test_notice info \<and> req \<noteq> RTest then Inr (TestPrompt (extra info))
         else if req = RTest \<and> \<not> is_test_notice info then Inl KeyError
         else
           (let testmode = (req = RTest);
                cw = (case req of RAll \<Rightarrow> CAll | RHaz h \<Rightarrow> CHaz h | _ \<Rightarrow> CNone)
            in case resolve_scenario cw (advisory_handle cfg \<noteq> ''no'') info of
                 AskCombo d \<Rightarrow> Inr (ComboPrompt d)
               | Resolved d \<Rightarrow>
                   (case breakpoint_me (map_of (rev (zone_list cfg))) (zone_order cfg)
                           (effective_localphrase (localphrase cfg)) [] active1 info d of
                      Inl e \<Rightarrow> Inl e
                    | Inr bps \<Rightarrow>
                        (case d of
                           DNone \<Rightarrow> Inr (NoHazardPrompt (no_hazard_message cancelflg info))
                         | DSingle w \<Rightarrow>
                             Inr (Statement (test_wording cfg testmode modeme (compose_single cfg (templates w) info bps w))
                                            (checked_zones cfg info [w]))
                         | DPair a b \<Rightarrow>
                             (case compose_combo cfg info bps a b (haz_def (dowhat_str d)) of
                                Inl e \<Rightarrow> Inl e
                              | Inr t \<Rightarrow> Inr (Statement (test_wording cfg testmode modeme t) (checked_zones cfg info [a, b])))
                         | DTriple \<Rightarrow>
                             (case compose_combo cfg info bps Warning Watch (haz_def (dowhat_str d)) of
                                Inl e \<Rightarrow> Inl e
                              | Inr t \<Rightarrow> Inr (Statement (test_wording cfg testmode modeme t)
                                                        (checked_zones cfg info [Warning, Watch, Advisory])))))))"

text \<open>A parse result with warning zones only.\<close>

definition info_warn :: hazard_info where
  "info_warn = info_init\<lparr>zones := (\<lambda>h. if h = Warning then [''CAZ039'', ''CAZ040''] else [])\<rparr>"

subsection \<open>Lemmas\<close>

lemma breakpoint_me_combo_empty_list:
  "d = DPair a b \<or> d = DTriple \<Longrightarrow> breakpoint_me zl ids lp [] active info d = Inl KeyError"
  by (auto simp: breakpoint_me_def)

lemma breakpoint_me_single_empty_list:
  "\<exists>out. breakpoint_me zl ids lp [] active info (DSingle w) = Inr (AreaOut out)"
  by (simp add: breakpoint_me_def Let_def)

lemma checked_zones_set:
  "set (zones info w) \<subseteq> set (zone_order cfg) \<Longrightarrow> set (checked_zones cfg info [w]) = set (zones info w)"
  by (auto simp: checked_zones_def)

lemma remdups_snoc: "remdups (xs @ [a]) = filter (\<lambda>x. x \<noteq> a) (remdups xs) @ [a]"
  by (induction xs) auto

lemma dedup_arrivals_filter:
  "dedup_arrivals t xs = filter (\<lambda>a. a \<notin> set t) (rev (remdups (rev xs)))"
proof (induction t xs rule: dedup_arrivals.induct)
  case (2 track a as)
  have r: "rev (remdups (rev as @ [a])) = a # filter (\<lambda>x. x \<noteq> a) (rev (remdups (rev as)))"
    by (simp add: remdups_snoc rev_filter)
  show ?case
  proof (cases "a \<in> set track")
    case True
    then have "filter (\<lambda>x. x \<notin> set track) (filter (\<lambda>x. x \<noteq> a) (rev (remdups (rev as)))) =
               filter (\<lambda>x. x \<notin> set track) (rev (remdups (rev as)))"
      by (auto simp: filter_filter intro: filter_cong)
    with True 2 show ?thesis by (simp add: r)
  next
    case False
    with 2 show ?thesis by (simp add: r filter_filter conj_commute)
  qed
qed simp

subsection \<open>Properties of \<open>autoFill\<close>\<close>



text \<open>
  On a fresh load whose scenario is a single hazard, \<open>autoFill\<close> puts
  the composer's statement for that hazard in the window (with the test
  wording rule applied) and checks exactly the zone buttons of that hazard,
  each once: parser, scenario resolver, area description and composer agree.
\<close>

theorem auto_fill_single_composes:
  assumes "\<not> is_test_notice info"
    and "resolve_scenario CNone (advisory_handle cfg \<noteq> ''no'') info = Resolved (DSingle w)"
    and "zones_ok (zone_order cfg) info" "distinct (zone_order cfg)"
  shows "\<exists>bps zs. auto_fill cfg templates active cancelflg modeme RFresh info =
            Inr (Statement (test_wording cfg False modeme (compose_single cfg (templates w) info bps w)) zs) \<and>
          set zs = set (zones info w) \<and> distinct zs"
proof -
  obtain out where bp: "breakpoint_me (map_of (rev (zone_list cfg))) (zone_order cfg)
                          (effective_localphrase (localphrase cfg)) [] DNone info (DSingle w) = Inr (AreaOut out)"
    using breakpoint_me_single_empty_list by blast
  have "set (checked_zones cfg info [w]) = set (zones info w)"
    using assms(3) by (intro checked_zones_set) (simp add: zones_ok_def)
  moreover have "distinct (checked_zones cfg info [w])"
    using assms(4) by (simp add: checked_zones_def)
  ultimately show ?thesis
    using assms(1,2) bp by (auto simp: auto_fill_def)
qed

theorem auto_fill_single_composes_witness:
  "\<exists>bps zs. auto_fill config_template (\<lambda>_. None) DNone False ''live'' RFresh info_warn =
     Inr (Statement (test_wording config_template False ''live''
                       (compose_single config_template ((\<lambda>_. None) Warning) info_warn bps Warning)) zs) \<and>
     set zs = set (zones info_warn Warning) \<and> distinct zs"
proof (rule auto_fill_single_composes)
  show "\<not> is_test_notice info_warn" by (simp add: is_test_notice_def info_warn_def info_init_def)
  show "resolve_scenario CNone (advisory_handle config_template \<noteq> ''no'') info_warn = Resolved (DSingle Warning)"
    by (simp add: resolve_scenario_def info_warn_def config_template_def)
  show "zones_ok (zone_order config_template) info_warn"
    by (auto simp: zones_ok_def info_warn_def info_init_def config_template_def)
  show "distinct (zone_order config_template)"
    by (simp add: config_template_def)
qed

end
