(* ===== verification/Tracker.thy ===== *)
theory Tracker
  imports Config AreaDescription "HOL-Library.AList"
begin

text \<open>
  The issuance tracker: the bookkeeping \<open>sendtoRadio\<close> does after a
  statement is sent (\<open>nwr_tsu.py\<close> lines 2424-2468) and the reset
  \<open>clearTrack\<close> (lines 2221-2229). The persistent state is the file
  \<open>data/last_issued.txt\<close>, one line \<open>hazard|expiry|zones\<close> per hazard, and
  the global list \<open>combo_issued\<close> of hazards sent during a combination.
  A send reads the file into the dictionary \<open>track\<close>, flags every hazard
  whose stored expiry lies in the future and whose stored zones occur in the
  zones of this send, stores the new expiry and zones for the hazards sent,
  and (in live mode) writes the dictionary back. \<open>zoneMe\<close> (lines 2259-2268)
  formats the checked zone buttons.
\<close>

type_synonym track = "(string \<times> string \<times> string) list"

record tracker_state =
  issued_file :: "string option"
  combo_issued :: "string list"

text \<open>\<open>track={"warning":[0,""],"watch":[0,""],"advisory":[0,""]}\<close>.\<close>

definition track_init :: track where
  "track_init = [(''warning'', ''0'', []), (''watch'', ''0'', []), (''advisory'', ''0'', [])]"

text \<open>\<open>zoneMe\<close>: \<open>str(zones)\<close> with brackets, quotes, spaces and newlines
  removed and commas turned into dashes.\<close>

definition zone_me :: "zone list \<Rightarrow> string" where
  "zone_me zs =
     py_replace (py_replace (py_replace (py_replace (py_replace (py_replace (py_replace (py_str_list zs)
       ''['' []) '']'' []) [CHR 0x22] []) [CHR 0x27] []) '','' ''-'') '' '' []) [NL] []"

text \<open>Reading the file (lines 2435-2442): every line with at least three
  \<open>|\<close>-separated fields sets an entry of \<open>track\<close>; a missing file leaves the
  initial dictionary.\<close>

definition parse_track_line :: "track \<Rightarrow> string \<Rightarrow> track" where
  "parse_track_line t a =
     (let tmp = py_split (py_strip a) ''|''
      in if length tmp > 2 then AList.update (tmp ! 0) (tmp ! 1, tmp ! 2) t else t)"

definition read_track :: "string option \<Rightarrow> track" where
  "read_track file = (case file of None \<Rightarrow> track_init | Some c \<Rightarrow> foldl parse_track_line track_init (py_readlines c))"

text \<open>Lines 2451-2457: the hazards whose stored issuance has not expired and
  shares a zone with this send, as the string \<open>recentflg\<close>.\<close>

definition flag_zones :: "string \<Rightarrow> string \<Rightarrow> string \<Rightarrow> string \<Rightarrow> string" where
  "flag_zones zstr w z flg =
     foldl (\<lambda>f a. if py_find zstr a \<noteq> -1 \<and> py_find f w = -1 then f @ '' '' @ w else f) flg (py_split z ''-'')"

fun recent_check :: "track \<Rightarrow> int \<Rightarrow> string \<Rightarrow> string \<Rightarrow> string list \<Rightarrow> py_error + string" where
  "recent_check t now zstr flg [] = Inr flg"
| "recent_check t now zstr flg (w # ws) =
     (case map_of t w of
        None \<Rightarrow> recent_check t now zstr flg ws
      | Some (e, z) \<Rightarrow>
          (case py_int e of
             None \<Rightarrow> Inl ValueError
           | Some n \<Rightarrow> recent_check t now zstr (if n > now then flag_zones zstr w z flg else flg) ws))"

text \<open>Lines 2459-2461: the new expiry and zones of the hazards sent.\<close>

fun record_issue :: "track \<Rightarrow> string list \<Rightarrow> nat \<Rightarrow> string \<Rightarrow> py_error + track" where
  "record_issue t [] fwd zstr = Inr t"
| "record_issue t (w # ws) fwd zstr =
     (case map_of t w of
        None \<Rightarrow> Inl KeyError
      | Some _ \<Rightarrow> record_issue (AList.update w (nat_str fwd, zstr) t) ws fwd zstr)"

text \<open>Lines 2463-2468: one line per entry, in the dictionary's order.\<close>

definition write_track :: "track \<Rightarrow> string" where
  "write_track t = concat (map (\<lambda>(k, e, z). k @ ''|'' @ e @ ''|'' @ z @ [NL]) t)"

text \<open>The bookkeeping of \<open>sendtoRadio\<close> (lines 2424-2468): \<open>combo_issued\<close> is
  updated first, so it keeps its update when a later step raises; the file
  is rewritten only in live mode and only when nothing raised. The result
  is the new state and either the exception or the hazards still to issue
  and the overlap flags.\<close>

definition send_bookkeeping ::
  "tracker_state \<Rightarrow> string list \<Rightarrow> string \<Rightarrow> nat \<Rightarrow> int \<Rightarrow> string \<Rightarrow> string \<Rightarrow>
   tracker_state \<times> (py_error + string list \<times> string)"
where
  "send_bookkeeping st combo_need active fwd now zstr modeme =
     (let wwarr = py_split active ''_'';
          issued = foldl (\<lambda>is a. if a \<in> set is then is else is @ [a]) (combo_issued st) wwarr;
          still = filter (\<lambda>a. a \<notin> set issued) combo_need;
          st1 = st\<lparr>combo_issued := issued\<rparr>;
          track = read_track (issued_file st)
      in case recent_check track now zstr [] [''warning'', ''watch'', ''advisory''] of
           Inl e \<Rightarrow> (st1, Inl e)
         | Inr flg \<Rightarrow>
             (case record_issue track wwarr fwd zstr of
                Inl e \<Rightarrow> (st1, Inl e)
              | Inr t' \<Rightarrow> (if modeme = ''live'' then st1\<lparr>issued_file := Some (write_track t')\<rparr> else st1, Inr (still, flg))))"

text \<open>\<open>clearTrack\<close>: the file emptied and \<open>combo_issued\<close> reset.\<close>

definition clear_track :: "tracker_state \<Rightarrow> tracker_state" where
  "clear_track st = st\<lparr>issued_file := Some [], combo_issued := []\<rparr>"

subsection \<open>Runs of the tracker\<close>

text \<open>
  The states the program reaches from a fresh installation (no file) by
  sends, whose zones are the checked zone buttons formatted by \<open>zoneMe\<close>,
  and resets.
\<close>

inductive tracker_reach :: "tracker_state \<Rightarrow> bool" where
  fresh: "tracker_reach \<lparr>issued_file = None, combo_issued = []\<rparr>"
| send: "tracker_reach st \<Longrightarrow> list_all zone_code_ok zl \<Longrightarrow>
         tracker_reach (fst (send_bookkeeping st cn act fwd now (zone_me zl) md))"
| clear: "tracker_reach st \<Longrightarrow> tracker_reach (clear_track st)"

subsection \<open>Well-formed dictionaries\<close>

text \<open>A field the file format carries unchanged: no whitespace, no \<open>|\<close>.\<close>

definition clean_field :: "string \<Rightarrow> bool" where
  "clean_field s \<longleftrightarrow> list_all (\<lambda>c. \<not> is_space c \<and> c \<noteq> CHR ''|'') s"

definition track_wf :: "track \<Rightarrow> bool" where
  "track_wf t \<longleftrightarrow> take 3 (map fst t) = [''warning'', ''watch'', ''advisory''] \<and> distinct (map fst t) \<and>
                  list_all (\<lambda>(k, e, z). clean_field k \<and> clean_field e \<and> clean_field z) t"

text \<open>The dictionaries the program itself writes: the three hazards, clean
  fields and numeric expiries.\<close>

definition track_good :: "track \<Rightarrow> bool" where
  "track_good t \<longleftrightarrow> map fst t = [''warning'', ''watch'', ''advisory''] \<and>
                    list_all (\<lambda>(k, e, z). clean_field e \<and> clean_field z \<and> py_int e \<noteq> None) t"

definition file_good :: "string option \<Rightarrow> bool" where
  "file_good f \<longleftrightarrow> (case f of None \<Rightarrow> True | Some c \<Rightarrow> c = [] \<or> (\<exists>t. c = write_track t \<and> track_good t))"

text \<open>A file whose warning entry carries a corrupt expiry.\<close>

definition corrupt_track :: track where
  "corrupt_track = [(''warning'', ''soon'', ''PKZ041''), (''watch'', ''0'', []), (''advisory'', ''0'', [])]"

subsection \<open>Lemmas\<close>

lemma clean_field_chars: "clean_field s \<Longrightarrow> x \<in> set s \<Longrightarrow> \<not> is_space x \<and> x \<noteq> CHR ''|''"
  by (auto simp: clean_field_def list_all_iff)

lemma readlines_aux_line:
  "NL \<notin> set l \<Longrightarrow> readlines_aux acc (l @ NL # rest) = (acc @ l @ [NL]) # readlines_aux [] rest"
  by (induction l arbitrary: acc) auto

lemma readlines_aux_lines:
  "\<forall>l \<in> set ls. NL \<notin> set l \<Longrightarrow> readlines_aux [] (concat (map (\<lambda>l. l @ [NL]) ls)) = map (\<lambda>l. l @ [NL]) ls"
  by (induction ls) (simp_all add: readlines_aux_line)

lemma py_readlines_lines:
  assumes "\<forall>l \<in> set ls. NL \<notin> set l \<and> CHR 0x0D \<notin> set l"
  shows "py_readlines (concat (map (\<lambda>l. l @ [NL]) ls)) = map (\<lambda>l. l @ [NL]) ls"
proof -
  have "CHR 0x0D \<notin> set (concat (map (\<lambda>l. l @ [NL]) ls))" using assms by auto
  then have "\<not> str_in [CHR 0x0D, NL] (concat (map (\<lambda>l. l @ [NL]) ls))"
            "\<not> str_in [CHR 0x0D] (concat (map (\<lambda>l. l @ [NL]) ls))"
    using str_in_Cons_mem by blast+
  then show ?thesis using assms by (simp add: py_readlines_def readlines_aux_lines)
qed

lemma strip_line:
  assumes "list_all (\<lambda>c. \<not> is_space c) l"
  shows "py_strip (l @ [NL]) = l"
proof -
  have nl: "is_space NL" by (simp add: is_space_def)
  have l: "py_lstrip (l @ [NL]) = (if l = [] then [] else l @ [NL])"
    using assms nl by (cases l) (simp_all add: py_lstrip_def)
  have "dropWhile is_space (rev l) = rev l"
  proof (cases "rev l")
    case (Cons x xs)
    then have "x \<in> set l" by (metis list.set_intros(1) set_rev)
    with assms Cons show ?thesis by (simp add: list_all_iff)
  qed simp
  then have "py_rstrip (l @ [NL]) = l" using nl by (simp add: py_rstrip_def)
  with l show ?thesis by (simp add: py_strip_def py_rstrip_def)
qed

lemma parse_track_line_written:
  assumes "clean_field k" "clean_field e" "clean_field z"
  shows "parse_track_line t (k @ CHR ''|'' # e @ CHR ''|'' # z @ [NL]) = AList.update k (e, z) t"
proof -
  have nb: "CHR ''|'' \<notin> set k" "CHR ''|'' \<notin> set e" "CHR ''|'' \<notin> set z"
    using assms clean_field_chars by blast+
  have sp: "\<not> is_space (CHR ''|'')" by (simp add: is_space_def)
  have "\<forall>c \<in> set k \<union> set e \<union> set z. \<not> is_space c"
    using assms by (auto simp: clean_field_def list_all_iff)
  then have "list_all (\<lambda>c. \<not> is_space c) (k @ ''|'' @ e @ ''|'' @ z)"
    using sp by (auto simp: list_all_iff)
  then have "py_strip ((k @ ''|'' @ e @ ''|'' @ z) @ [NL]) = k @ ''|'' @ e @ ''|'' @ z"
    by (rule strip_line)
  moreover have "py_split (k @ CHR ''|'' # e @ CHR ''|'' # z) ''|'' = [k, e, z]"
    using nb by (simp add: py_split_def split_single_sep split_aux_no_sep)
  ultimately show ?thesis by (simp add: parse_track_line_def)
qed

lemma update_append_notin:
  "k \<notin> set (map fst us) \<Longrightarrow> AList.update k v (us @ rest) = us @ AList.update k v rest"
  by (induction us) auto

lemma foldl_update_prefix:
  assumes "distinct (map fst (us @ vs))" "map fst ws = take (length ws) (map fst vs)" "length ws \<le> length vs"
  shows "foldl (\<lambda>t (k, v). AList.update k v t) (us @ ws) vs = us @ vs"
  using assms
proof (induction vs arbitrary: us ws)
  case (Cons kv vs)
  obtain k v where kv: "kv = (k, v)" by fastforce
  have k: "k \<notin> set (map fst us)" using Cons.prems(1) kv by auto
  show ?case
  proof (cases ws)
    case Nil
    then have "AList.update k v (us @ ws) = (us @ [(k, v)]) @ []"
      using k update_append_notin [of k us v "[]"] by simp
    moreover have "foldl (\<lambda>t (k, v). AList.update k v t) ((us @ [(k, v)]) @ []) vs = (us @ [(k, v)]) @ vs"
      using Cons.prems(1) kv by (intro Cons.IH) auto
    ultimately show ?thesis using kv by simp
  next
    case (Cons w ws')
    then have "fst w = k" "map fst ws' = take (length ws') (map fst vs)" "length ws' \<le> length vs"
      using Cons.prems(2,3) kv by auto
    then have "AList.update k v (us @ ws) = (us @ [(k, v)]) @ ws'"
      using k Cons by (cases w) (simp add: update_append_notin)
    moreover have "foldl (\<lambda>t (k, v). AList.update k v t) ((us @ [(k, v)]) @ ws') vs = (us @ [(k, v)]) @ vs"
      using Cons.prems(1) kv \<open>map fst ws' = _\<close> \<open>length ws' \<le> _\<close> by (intro Cons.IH) auto
    ultimately show ?thesis using kv by simp
  qed
qed simp

lemma read_written_track:
  assumes "track_wf t"
  shows "read_track (Some (write_track t)) = t"
proof -
  let ?line = "\<lambda>(k, e, z). k @ ''|'' @ e @ ''|'' @ z"
  have clean: "\<forall>x \<in> set t. clean_field (fst x) \<and> clean_field (fst (snd x)) \<and> clean_field (snd (snd x))"
    using assms by (auto simp: track_wf_def list_all_iff)
  have w: "write_track t = concat (map (\<lambda>l. l @ [NL]) (map ?line t))"
    by (induction t) (auto simp: write_track_def)
  have sp: "is_space NL" "is_space (CHR 0x0D)" by (simp_all add: is_space_def)
  have "\<forall>l \<in> set (map ?line t). NL \<notin> set l \<and> CHR 0x0D \<notin> set l"
  proof
    fix l assume "l \<in> set (map ?line t)"
    then obtain k e z where "(k, e, z) \<in> set t" "l = k @ ''|'' @ e @ ''|'' @ z" by auto
    moreover have "NL \<noteq> CHR ''|''" "CHR 0x0D \<noteq> CHR ''|''" by simp_all
    ultimately show "NL \<notin> set l \<and> CHR 0x0D \<notin> set l"
      using clean sp clean_field_chars by fastforce
  qed
  then have "py_readlines (concat (map (\<lambda>l. l @ [NL]) (map ?line t))) = map (\<lambda>l. l @ [NL]) (map ?line t)"
    by (rule py_readlines_lines)
  then have "py_readlines (write_track t) = map (\<lambda>x. ?line x @ [NL]) t"
    by (simp add: w)
  moreover have "foldl parse_track_line s (map (\<lambda>x. ?line x @ [NL]) t) =
                 foldl (\<lambda>t (k, v). AList.update k v t) s t" for s
    using clean by (induction t arbitrary: s) (auto simp: parse_track_line_written)
  moreover have "foldl (\<lambda>t (k, v). AList.update k v t) ([] @ track_init) t = [] @ t"
  proof (rule foldl_update_prefix)
    have tk: "take 3 (map fst t) = [''warning'', ''watch'', ''advisory'']" using assms by (simp add: track_wf_def)
    then have "length (take 3 (map fst t)) = 3" by simp
    then show "length track_init \<le> length t" by (simp add: track_init_def)
    show "map fst track_init = take (length track_init) (map fst t)"
      using tk by (simp add: track_init_def eval_nat_numeral)
    show "distinct (map fst ([] @ t))" using assms by (simp add: track_wf_def)
  qed
  ultimately show ?thesis by (simp add: read_track_def)
qed

lemma no_space_strip: "list_all (\<lambda>c. \<not> is_space c) s \<Longrightarrow> py_strip s = s"
proof -
  assume a: "list_all (\<lambda>c. \<not> is_space c) s"
  then have "dropWhile is_space s = s" by (cases s) auto
  moreover have "dropWhile is_space (rev s) = rev s"
  proof (cases "rev s")
    case (Cons x xs)
    then have "x \<in> set s" by (metis list.set_intros(1) set_rev)
    with a Cons show ?thesis by (simp add: list_all_iff)
  qed simp
  ultimately show ?thesis by (simp add: py_strip_def py_lstrip_def py_rstrip_def)
qed

lemma digit_char_facts:
  "is_digit c \<Longrightarrow> \<not> is_space c \<and> c \<noteq> CHR ''|'' \<and> c \<noteq> CHR ''-'' \<and> c \<noteq> CHR ''+'' \<and> c \<noteq> CHR ''_''"
  unfolding is_digit_def is_space_def by auto

lemma clean_field_nat_str: "clean_field (nat_str n)"
  using nat_str_digits [of n] digit_char_facts by (auto simp: clean_field_def list_all_iff)

lemma py_int_nat_str: "py_int (nat_str n) = Some (int n)"
proof -
  have d: "\<forall>c \<in> set (nat_str n). is_digit c" by (rule nat_str_digits)
  then have st: "py_strip (nat_str n) = nat_str n"
    using digit_char_facts by (intro no_space_strip) (auto simp: list_all_iff)
  obtain c r where cr: "nat_str n = c # r" using nat_str_nonempty by (cases "nat_str n") auto
  then have "c \<noteq> CHR ''-''" "c \<noteq> CHR ''+''" using d digit_char_facts by auto
  moreover have "CHR ''_'' \<notin> set (nat_str n)" using d digit_char_facts by blast
  then have "\<not> str_in ''__'' (nat_str n)" "filter (\<lambda>c. c \<noteq> CHR ''_'') (nat_str n) = nat_str n"
    using str_in_Cons_mem by (auto simp: filter_id_conv)
  moreover have "int_body_ok (nat_str n) \<longleftrightarrow> \<not> str_in ''__'' (nat_str n)"
    using d nat_str_nonempty [of n] by (auto simp: int_body_ok_def list_all_iff)
  ultimately show ?thesis using st cr digits_val_nat_str [of n] by (simp add: py_int_def)
qed

lemma zone_code_chars: "zone_code_ok z \<Longrightarrow> c \<in> set z \<Longrightarrow> is_upper c \<or> is_digit c"
proof -
  assume z: "zone_code_ok z" and c: "c \<in> set z"
  then obtain i where i: "i < length z" "z ! i = c" by (auto simp: in_set_conv_nth)
  have "is_upper (CHR ''Z'')" by (simp add: is_upper_def)
  moreover have "i = 0 \<or> i = 1 \<or> i = 2" if "i < 3" using that by arith
  ultimately have "i < 3 \<Longrightarrow> is_upper c" using z i by (auto simp: zone_code_ok_def)
  moreover have "3 \<le> i \<Longrightarrow> c \<in> set (drop 3 z)"
  proof -
    assume "3 \<le> i"
    then have "drop 3 z ! (i - 3) = c" "i - 3 < length (drop 3 z)" using i by auto
    then show ?thesis by (metis nth_mem)
  qed
  ultimately show ?thesis using z by (cases "i < 3") (auto simp: zone_code_ok_def list_all_iff)
qed

lemma upper_digit_facts:
  "is_upper c \<or> is_digit c \<Longrightarrow>
   clean_char c \<and> \<not> is_space c \<and> c \<noteq> CHR ''|'' \<and> c \<noteq> CHR '','' \<and> c \<noteq> CHR '' '' \<and> c \<noteq> NL"
proof -
  have "\<forall>c \<in> set ''ABCDEFGHIJKLMNOPQRSTUVWXYZ0123456789''.
          clean_char c \<and> \<not> is_space c \<and> c \<noteq> CHR ''|'' \<and> c \<noteq> CHR '','' \<and> c \<noteq> CHR '' '' \<and> c \<noteq> NL"
    by (simp add: clean_char_def is_space_def)
  moreover assume "is_upper c \<or> is_digit c"
  then have "c \<in> set ''ABCDEFGHIJKLMNOPQRSTUVWXYZ0123456789''"
    unfolding is_upper_def is_digit_def by auto
  ultimately show ?thesis by blast
qed

lemma zone_me_join:
  assumes "list_all zone_code_ok zl"
  shows "zone_me zl = py_join ''-'' zl"
proof -
  have ch: "\<And>z c. z \<in> set zl \<Longrightarrow> c \<in> set z \<Longrightarrow>
              clean_char c \<and> c \<noteq> CHR '','' \<and> c \<noteq> CHR '' '' \<and> c \<noteq> NL"
    using assms zone_code_chars upper_digit_facts by (metis list_all_iff)
  have "\<forall>n \<in> set zl. clean_name n"
  proof
    fix n assume n: "n \<in> set zl"
    then have "zone_code_ok n" using assms by (simp add: list_all_iff)
    then have "n \<noteq> ''XXXXXX''" by (auto simp: zone_code_ok_def)
    with ch n show "clean_name n" by (auto simp: clean_name_def)
  qed
  then have j: "filter strip_chars (py_str_list zl) = py_join '', '' zl" by (rule strip_py_str_list)
  have "filter (\<lambda>x. x \<noteq> CHR 0x27) (filter (\<lambda>x. x \<noteq> CHR 0x22) (filter (\<lambda>x. x \<noteq> CHR '']'')
          (filter (\<lambda>x. x \<noteq> CHR ''['') (py_str_list zl)))) = filter strip_chars (py_str_list zl)"
    by (auto simp: filter_filter strip_chars_def intro!: filter_cong)
  moreover have "map (\<lambda>x. if x = CHR '','' then CHR ''-'' else x) z = z" if "z \<in> set zl" for z
    using ch [OF that] by (simp add: map_idI)
  moreover have "filter (\<lambda>x. x \<noteq> CHR '' '') z = z" "filter (\<lambda>x. x \<noteq> NL) z = z" if "z \<in> set zl" for z
    using ch [OF that] by (auto simp: filter_id_conv)
  ultimately show ?thesis
    using j by (simp add: zone_me_def py_replace_remove_char py_replace_single_char map_py_join filter_py_join
                          map_idI filter_id_conv cong: map_cong)
qed

lemma set_update_subset: "set (AList.update k v al) \<subseteq> insert (k, v) (set al)"
  by (induction al) auto

lemma track_good_init: "track_good track_init"
proof -
  have "nat_str 0 = ''0''" by (simp add: nat_str.simps digit_char_def)
  then have "clean_field ''0''" "py_int ''0'' \<noteq> None"
    using clean_field_nat_str [of 0] py_int_nat_str [of 0] by simp_all
  then show ?thesis by (simp add: track_good_def track_init_def clean_field_def)
qed

lemma track_good_wf: "track_good t \<Longrightarrow> track_wf t"
proof -
  assume g: "track_good t"
  then have keys: "map fst t = [''warning'', ''watch'', ''advisory'']" by (simp add: track_good_def)
  have kc: "\<forall>k \<in> set [''warning'', ''watch'', ''advisory'']. clean_field k"
    by (simp add: clean_field_def is_space_def)
  have "clean_field k" if "(k, e, z) \<in> set t" for k e z
  proof -
    have "k \<in> set (map fst t)" using that by force
    then show ?thesis using keys kc by auto
  qed
  with g keys show ?thesis by (auto simp: track_wf_def track_good_def list_all_iff)
qed

lemma read_good: "file_good f \<Longrightarrow> track_good (read_track f)"
proof (cases f)
  case None
  then show ?thesis using track_good_init by (simp add: read_track_def)
next
  case (Some c)
  assume fg: "file_good f"
  show ?thesis
  proof (cases "c = []")
    case True
    then have "py_readlines c = []" by (simp add: py_readlines_def)
    then show ?thesis using Some track_good_init by (simp add: read_track_def)
  next
    case False
    then obtain t where "c = write_track t" "track_good t" using fg Some by (auto simp: file_good_def)
    then show ?thesis using Some read_written_track track_good_wf by simp
  qed
qed

lemma update_good:
  assumes "track_good t" "map_of t w = Some x" "clean_field zstr"
  shows "track_good (AList.update w (nat_str fwd, zstr) t)"
proof -
  have "w \<in> set (map fst t)" using assms(2) by (force dest: map_of_SomeD)
  then have "map fst (AList.update w (nat_str fwd, zstr) t) = map fst t" by (simp add: update_keys)
  moreover have "list_all (\<lambda>(k, e, z). clean_field e \<and> clean_field z \<and> py_int e \<noteq> None) (AList.update w (nat_str fwd, zstr) t)"
    using assms(1,3) set_update_subset [of w "(nat_str fwd, zstr)" t]
          clean_field_nat_str [of fwd] py_int_nat_str [of fwd]
    by (fastforce simp: track_good_def list_all_iff)
  ultimately show ?thesis using assms(1) by (simp add: track_good_def)
qed

lemma record_issue_good:
  "track_good t \<Longrightarrow> clean_field zstr \<Longrightarrow> record_issue t ws fwd zstr = Inr t' \<Longrightarrow> track_good t'"
proof (induction t ws fwd zstr rule: record_issue.induct)
  case (2 t w ws fwd zstr)
  then obtain x where "map_of t w = Some x" by (cases "map_of t w") auto
  with 2 show ?case using update_good by simp
qed simp

lemma recent_check_good:
  "track_good t \<Longrightarrow> \<exists>f. recent_check t now zstr flg ws = Inr f"
proof (induction t now zstr flg ws rule: recent_check.induct)
  case (2 t now zstr flg w ws)
  show ?case
  proof (cases "map_of t w")
    case (Some ez)
    obtain e z where ez: "ez = (e, z)" by fastforce
    have "(w, e, z) \<in> set t" using Some ez by (simp add: map_of_SomeD)
    then obtain n where "py_int e = Some n" using "2.prems" by (fastforce simp: track_good_def list_all_iff)
    then show ?thesis using 2 Some ez by simp
  qed (use 2 in simp)
qed simp

lemma zone_me_clean: "list_all zone_code_ok zl \<Longrightarrow> clean_field (zone_me zl)"
proof -
  assume a: "list_all zone_code_ok zl"
  have zc: "\<not> is_space c \<and> c \<noteq> CHR ''|''" if "z \<in> set zl" "c \<in> set z" for z c
  proof -
    have "zone_code_ok z" using a that(1) by (simp add: list_all_iff)
    then have "is_upper c \<or> is_digit c" using that(2) by (rule zone_code_chars)
    then show ?thesis using upper_digit_facts by blast
  qed
  have dash: "\<not> is_space (CHR ''-'')" by (simp add: is_space_def)
  have "\<not> is_space c \<and> c \<noteq> CHR ''|''" if "c \<in> set (py_join ''-'' zl)" for c
  proof -
    have "c = CHR ''-'' \<or> (\<exists>z \<in> set zl. c \<in> set z)" using that set_py_join [of "''-''" zl] by auto
    then show ?thesis using zc dash by auto
  qed
  then show ?thesis using zone_me_join [OF a] by (simp add: clean_field_def list_all_iff)
qed

lemma send_file_good:
  assumes "file_good (issued_file st)" "clean_field zstr"
  shows "file_good (issued_file (fst (send_bookkeeping st cn act fwd now zstr md)))"
proof -
  have g: "track_good (read_track (issued_file st))" using assms(1) by (rule read_good)
  show ?thesis
  proof (cases "record_issue (read_track (issued_file st)) (py_split act ''_'') fwd zstr")
    case (Inr t')
    then have "track_good t'" using g assms(2) record_issue_good by blast
    then show ?thesis using assms(1) Inr
      by (auto simp: send_bookkeeping_def Let_def file_good_def split: sum.split)
  qed (use assms(1) in \<open>auto simp: send_bookkeeping_def Let_def split: sum.split\<close>)
qed

lemma reach_file_good: "tracker_reach st \<Longrightarrow> file_good (issued_file st)"
proof (induction rule: tracker_reach.induct)
  case fresh
  then show ?case by (simp add: file_good_def)
next
  case (send st zl cn act fwd now md)
  then show ?case using send_file_good zone_me_clean by blast
next
  case (clear st)
  then show ?case by (simp add: clear_track_def file_good_def)
qed

lemma record_issue_not_value_error: "record_issue t ws fwd zstr \<noteq> Inl ValueError"
  by (induction t ws fwd zstr rule: record_issue.induct) (auto split: option.split)


text \<open>
  C22. For the zone buttons the program offers (zone codes), \<open>zoneMe\<close>'s
  chain of replacements on \<open>str(zones)\<close> equals joining the codes with
  dashes, and splitting its result at the dashes, as the overlap check of
  \<open>sendtoRadio\<close> does with a stored zone string, gives the zones back.
\<close>

theorem zone_me_dash_join:
  assumes "list_all zone_code_ok zl" "zl \<noteq> []"
  shows "zone_me zl = py_join ''-'' zl \<and> py_split (zone_me zl) ''-'' = zl"
proof -
  have "CHR ''-'' \<notin> set z" if "z \<in> set zl" for z
  proof
    assume m: "CHR ''-'' \<in> set z"
    have "zone_code_ok z" using assms(1) that by (simp add: list_all_iff)
    then have "is_upper (CHR ''-'') \<or> is_digit (CHR ''-'')" using m by (rule zone_code_chars)
    then show False by (simp add: is_upper_def is_digit_def)
  qed
  then show ?thesis using assms zone_me_join split_join_single [of zl "CHR ''-''"] by simp
qed

theorem zone_me_dash_join_witness:
  "list_all zone_code_ok [''CAZ039'', ''CAZ040''] \<and> [''CAZ039'', ''CAZ040''] \<noteq> [] \<and>
   zone_me [''CAZ039'', ''CAZ040''] = ''CAZ039-CAZ040'' \<and> py_split (zone_me [''CAZ039'', ''CAZ040'']) ''-'' = [''CAZ039'', ''CAZ040'']"
proof -
  have ok: "list_all zone_code_ok [''CAZ039'', ''CAZ040'']" by (simp add: zone_code_ok_def is_upper_def is_digit_def)
  have j: "py_join ''-'' [''CAZ039'', ''CAZ040''] = ''CAZ039-CAZ040''" by simp
  have "zone_me [''CAZ039'', ''CAZ040''] = py_join ''-'' [''CAZ039'', ''CAZ040''] \<and>
        py_split (zone_me [''CAZ039'', ''CAZ040'']) ''-'' = [''CAZ039'', ''CAZ040'']"
    by (rule zone_me_dash_join [OF ok]) simp
  then have e0: "zone_me [''CAZ039'', ''CAZ040''] = py_join ''-'' [''CAZ039'', ''CAZ040'']"
    and s: "py_split (zone_me [''CAZ039'', ''CAZ040'']) ''-'' = [''CAZ039'', ''CAZ040'']"
    by blast+
  have e: "zone_me [''CAZ039'', ''CAZ040''] = ''CAZ039-CAZ040''" using e0 j by (rule trans)
  show ?thesis
  proof (intro conjI)
    show "list_all zone_code_ok [''CAZ039'', ''CAZ040'']" by (rule ok)
    show "[''CAZ039'', ''CAZ040''] \<noteq> []" by simp
    show "zone_me [''CAZ039'', ''CAZ040''] = ''CAZ039-CAZ040''" by (rule e)
    show "py_split (zone_me [''CAZ039'', ''CAZ040'']) ''-'' = [''CAZ039'', ''CAZ040'']" by (rule s)
  qed
qed

text \<open>
  C24. The issuance file round-trips: the dictionary the program writes to
  \<open>last_issued.txt\<close> is read back unchanged by the next send.
\<close>

theorem track_file_roundtrip: "track_good t \<Longrightarrow> read_track (Some (write_track t)) = t"
  by (rule read_written_track) (rule track_good_wf)

theorem track_file_roundtrip_witness:
  "track_good track_init \<and> read_track (Some (write_track track_init)) = track_init"
  using track_file_roundtrip [OF track_good_init] track_good_init by simp

text \<open>
  C25. In every state the tracker reaches (fresh installation, sends of
  checked zone buttons, resets) the bookkeeping of a send never aborts with
  the \<open>ValueError\<close> of a corrupt expiry: every file the program wrote holds
  numeric expiries.
\<close>

theorem tracker_no_value_error:
  "tracker_reach st \<Longrightarrow> snd (send_bookkeeping st cn act fwd now zstr md) \<noteq> Inl ValueError"
proof -
  assume "tracker_reach st"
  then have "track_good (read_track (issued_file st))" by (intro read_good reach_file_good)
  then obtain f where "recent_check (read_track (issued_file st)) now zstr [] [''warning'', ''watch'', ''advisory''] = Inr f"
    using recent_check_good by blast
  then show ?thesis using record_issue_not_value_error
    by (auto simp: send_bookkeeping_def Let_def split: sum.split)
qed

theorem tracker_no_value_error_witness:
  "tracker_reach \<lparr>issued_file = None, combo_issued = []\<rparr> \<and>
   snd (send_bookkeeping \<lparr>issued_file = None, combo_issued = []\<rparr> [] ''warning'' 1700 1600 ''PKZ041'' ''live'') \<noteq> Inl ValueError"
  using tracker_no_value_error [OF tracker_reach.fresh] tracker_reach.fresh by simp

text \<open>
  C26. A stored expiry that is not an integer aborts the bookkeeping of a
  send with \<open>ValueError\<close> (\<open>int(track[wwa][0])\<close>, line 2453): the file is
  left as it was, while \<open>combo_issued\<close> has already taken its update.
\<close>

theorem corrupt_expiry_aborts:
  assumes "issued_file st = Some (write_track t)" "track_wf t"
      and "map_of t ''warning'' = Some (e, z)" "py_int e = None"
  shows "send_bookkeeping st cn act fwd now zstr md =
           (st\<lparr>combo_issued := foldl (\<lambda>is a. if a \<in> set is then is else is @ [a]) (combo_issued st) (py_split act ''_'')\<rparr>,
            Inl ValueError)"
proof -
  have "read_track (issued_file st) = t" using assms(1,2) read_written_track by simp
  then show ?thesis using assms(3,4) by (simp add: send_bookkeeping_def Let_def)
qed

theorem corrupt_expiry_aborts_witness:
  "issued_file \<lparr>issued_file = Some (write_track corrupt_track), combo_issued = []\<rparr> = Some (write_track corrupt_track) \<and>
   track_wf corrupt_track \<and> map_of corrupt_track ''warning'' = Some (''soon'', ''PKZ041'') \<and> py_int ''soon'' = None \<and>
   send_bookkeeping \<lparr>issued_file = Some (write_track corrupt_track), combo_issued = []\<rparr> [] ''warning'' 1700 1600 ''PKZ041'' ''live'' =
     (\<lparr>issued_file = Some (write_track corrupt_track), combo_issued = [''warning'']\<rparr>, Inl ValueError)"
proof -
  have wf: "track_wf corrupt_track" by (simp add: track_wf_def corrupt_track_def clean_field_def is_space_def)
  have m: "map_of corrupt_track ''warning'' = Some (''soon'', ''PKZ041'')" by (simp add: corrupt_track_def)
  have p: "py_int ''soon'' = None" by (code_simp)
  have "py_split ''warning'' ''_'' = [''warning'']" by code_simp
  then show ?thesis
    using corrupt_expiry_aborts [of "\<lparr>issued_file = Some (write_track corrupt_track), combo_issued = []\<rparr>" corrupt_track
                                     "''soon''" "''PKZ041''"] wf m p by simp
qed

end
