(* ===== verification/Bmh.thy ===== *)
theory Bmh
  imports Tracker
begin

text \<open>
  The script sent to the radio transmitter (BMH): \<open>crsCodeme\<close>
  (\<open>nwr_tsu.py\<close> lines 2301-2363) builds a header from the highest-priority
  hazard (\<open>highestPri\<close>, lines 2282-2295), its PIL, the creation and expiry
  times (\<open>crsDatestring\<close>, lines 2297-2298), the tone flag and the county
  codes of the checked zones (\<open>countyMe\<close>, lines 2270-2280), and formats the
  statement for speech: newlines and \<open>...\<close> become spaces and commas, times
  such as \<open>939 AM\<close> get a colon, and days after a month name are spoken as
  ordinals (\<open>niceFirst\<close>, lines 554-558).
\<close>

subsection \<open>Ordinals\<close>

definition nice_first_list :: "string list" where
  "nice_first_list =
     [''Zeroth'', ''First'', ''Second'', ''Third'', ''Fourth'', ''Fifth'', ''Sixth'', ''Seventh'', ''Eighth'', ''Nine'',
      ''Ten'', ''Eleventh'', ''Twelfth'', ''Thirteenth'', ''Fourteenth'', ''Fifteenth'', ''Sixteenth'', ''Seventeenth'',
      ''Eighteenth'', ''Nineteenth'', ''Twentieth'', ''Twenty First'', ''Twenty Second'', ''Twenty Third'',
      ''Twenty Fourth'', ''Twenty Fifth'', ''Twenty Sixth'', ''Twenty Seventh'', ''Twenty Eighth'', ''Twenty Nine'',
      ''Thirtieth'', ''Thirty First'']"

text \<open>\<open>nicefirst[int(a)]\<close>: a negative index counts from the end; a string that
  is not an integer (\<open>ValueError\<close>) or an index out of range (\<open>IndexError\<close>)
  returns \<open>str(a)\<close>.\<close>

definition nice_first :: "string \<Rightarrow> string" where
  "nice_first a =
     (case py_int a of
        None \<Rightarrow> a
      | Some n \<Rightarrow> (case py_index nice_first_list n of None \<Rightarrow> a | Some w \<Rightarrow> w))"

subsection \<open>Header\<close>

definition highest_pri :: "string \<Rightarrow> string \<Rightarrow> string" where
  "highest_pri active text =
     (if str_in ''warning'' active then ''warning''
      else if str_in ''watch'' active then ''watch''
      else if str_in ''advisory'' active then ''advisory''
      else if str_in ''REPEAT, TSUNAMI WARNING'' text then ''warning''
      else if str_in ''REPEAT, TSUNAMI WATCH'' text then ''watch''
      else if str_in ''REPEAT, TSUNAMI ADVISORY'' text then ''advisory''
      else if str_in ''TSUNAMI WARNING'' text then ''warning''
      else if str_in ''TSUNAMI WATCH'' text then ''watch''
      else if str_in ''TSUNAMI ADVISORY'' text then ''advisory''
      else ''warning'')"

definition zfill2 :: "nat \<Rightarrow> string" where
  "zfill2 n = py_zfill 2 (nat_str n)"

definition crs_datestring :: "datetime \<Rightarrow> string" where
  "crs_datestring dt =
     drop 2 (nat_str (year dt)) @ zfill2 (month dt) @ zfill2 (day dt) @ zfill2 (hour dt) @ zfill2 (minute dt)"

text \<open>\<open>countyMe\<close>: the counties of \<open>county_list\<close>, in its order and each once,
  whose zone string contains a checked zone (\<open>z in zlist\<close> on a string is a
  substring test), formatted by the same chain of replacements as
  \<open>zoneMe\<close>.\<close>

definition county_hits :: "(string \<times> string) list \<Rightarrow> zone list \<Rightarrow> string list" where
  "county_hits cl checked =
     foldl (\<lambda>cs (c, zlist). if (\<exists>z \<in> set checked. str_in z zlist) \<and> c \<notin> set cs then cs @ [c] else cs) [] cl"

definition county_me :: "tsu_config \<Rightarrow> zone list \<Rightarrow> string" where
  "county_me cfg checked = zone_me (county_hits (county_list cfg) checked)"

text \<open>The expiry in minutes: \<open>crsexpire\<close> with \<open>mins\<close> and spaces removed,
  read by \<open>int\<close>, or 15 when the option is not set.\<close>

definition expiry_minutes :: "string option \<Rightarrow> int option" where
  "expiry_minutes crsexpire =
     (case crsexpire of None \<Rightarrow> Some 15 | Some e \<Rightarrow> py_int (py_replace (py_replace e ''mins'' []) '' '' []))"

definition ESC :: char where
  "ESC = CHR 0x1B"

definition crs_header :: "tsu_config \<Rightarrow> string \<Rightarrow> nat \<Rightarrow> zone list \<Rightarrow> datetime \<Rightarrow> int \<Rightarrow> string" where
  "crs_header cfg wwa masterTone checked todayutc exp =
     (let pil = cfg_pil cfg (if wwa = ''advisory'' then Advisory else if wwa = ''watch'' then Watch else Warning);
          ctime = crs_datestring todayutc
      in [ESC] @ ''aT_ENG'' @ (if length pil < 7 then node cfg @ pil else pil) @ ctime @ ctime @
         (if wwa = ''advisory'' \<or> masterTone = 0 then ''        CD IN'' else ''        CD IA'') @
         county_me cfg checked @ ''c'' @ crs_datestring (shift_minutes todayutc exp))"

subsection \<open>Text for speech\<close>

text \<open>\<open>re.findall("(\\d+) (AM|PM)", text)\<close>: a match starts at a maximal run
  of digits; when the run is not followed by \<open>" AM"\<close> or \<open>" PM"\<close> no position
  inside it starts a match either.\<close>

function time_matches :: "string \<Rightarrow> (string \<times> string) list" where
  "time_matches [] = []"
| "time_matches (c # cs) =
     (if is_digit c then
        (let d = c # takeWhile is_digit cs; r = dropWhile is_digit cs
         in if starts_with '' AM'' r then (d, ''AM'') # time_matches (drop 3 r)
            else if starts_with '' PM'' r then (d, ''PM'') # time_matches (drop 3 r)
            else time_matches r)
      else time_matches cs)"
  by pat_completeness auto
termination
  by (relation "measure length") (auto simp: less_Suc_eq_le length_dropWhile_le intro: le_trans [OF diff_le_self])

definition month_names :: "string list" where
  "month_names = [''JANUARY'', ''FEBRUARY'', ''MARCH'', ''APRIL'', ''MAY'', ''JUNE'', ''JULY'', ''AUGUST'',
                  ''SEPTEMBER'', ''OCTOBER'', ''NOVEMBER'', ''DECEMBER'']"

text \<open>\<open>re.findall("(MONTH) ([0-9][0-9])", text)\<close> and its one-digit variant:
  at each position the month name that starts there (no name is a prefix of
  another), a space and \<open>k\<close> digits.\<close>

definition month_at :: "nat \<Rightarrow> string \<Rightarrow> (string \<times> string) option" where
  "month_at k s =
     (case filter (\<lambda>m. starts_with (m @ '' '') s \<and> length s \<ge> length m + 1 + k \<and>
                        list_all is_digit (take k (drop (length m + 1) s))) month_names of
        [] \<Rightarrow> None
      | m # _ \<Rightarrow> Some (m, take k (drop (length m + 1) s)))"

function date_matches :: "nat \<Rightarrow> string \<Rightarrow> (string \<times> string) list" where
  "date_matches k [] = []"
| "date_matches k (c # cs) =
     (case month_at k (c # cs) of
        None \<Rightarrow> date_matches k cs
      | Some (m, d) \<Rightarrow> (m, d) # date_matches k (drop (length m + k) cs))"
  by pat_completeness auto
termination
  by (relation "measure (\<lambda>(k, s). length s)") auto

definition colon_time :: "string \<Rightarrow> string \<Rightarrow> string" where
  "colon_time a0 a1 =
     (if length a0 > 3 then take 2 a0 @ '':'' @ drop 2 a0 @ '' '' @ a1 else take 1 a0 @ '':'' @ drop 1 a0 @ '' '' @ a1)"

definition crs_text :: "string \<Rightarrow> string" where
  "crs_text text =
     (let t0 = py_upper (py_replace (py_replace (py_replace (py_replace text [NL] '' '') ''...'' '', '') ''  '' '' '') ''  '' '' '');
          t1 = foldl (\<lambda>t (a0, a1). if length a0 > 2 then py_replace t (a0 @ '' '' @ a1) (colon_time a0 a1) else t) t0 (time_matches t0);
          t2 = foldl (\<lambda>t (m, d). py_replace t (m @ '' '' @ d) (m @ '' '' @ py_upper (nice_first d))) t1 (date_matches 2 t1);
          t3 = foldl (\<lambda>t (m, d). py_replace t (m @ '' '' @ d) (m @ '' '' @ py_upper (nice_first d))) t2 (date_matches 1 t2)
      in t3)"

text \<open>\<open>crsCodeme\<close>: the whole script, or \<open>""\<close> when the expiry is not an
  integer (the \<open>except\<close> at line 2362).\<close>

definition crs_codeme ::
  "tsu_config \<Rightarrow> nat \<Rightarrow> zone list \<Rightarrow> string option \<Rightarrow> datetime \<Rightarrow> string \<Rightarrow> string \<Rightarrow> string"
where
  "crs_codeme cfg masterTone checked crsexpire todayutc active text =
     (case expiry_minutes crsexpire of
        None \<Rightarrow> []
      | Some exp \<Rightarrow>
          crs_header cfg (highest_pri active text) masterTone checked todayutc exp @ [NL] @
          py_replace (crs_text text) [NL] [] @ [ESC, CHR ''b''])"

subsection \<open>Properties\<close>

text \<open>
  Days after a month name are not all spoken as ordinals: \<open>niceFirst\<close>
  gives the cardinals \<open>NINE\<close>, \<open>TEN\<close> (and \<open>TWENTY NINE\<close>), and a month
  followed by a year has the year's first two digits read as a day
  (\<open>MARCH 2011\<close> becomes \<open>MARCH TWENTIETH11\<close>), while times get their colon.
\<close>

theorem crs_text_ordinals:
  "crs_text ''AT 939 AM ON APRIL 9 OR APRIL 10 2012, MARCH 2011'' =
     ''AT 9:39 AM ON APRIL NINE OR APRIL TEN 2012, MARCH TWENTIETH11''"
  by code_simp

end
