(* ===== verification/Arrivals.thy ===== *)
theory Arrivals
  imports BulletinParser
begin

text \<open>
  The arrival paragraphs of \<open>grabTWC\<close> (\<open>nwr_tsu.py\<close> lines 1190-1312) and
  \<open>formatGuamArrival\<close> (lines 1409-1433). Every segment that names a hazard
  and is not final is cut into paragraphs at blank lines. In a Hawaii
  bulletin the paragraph after the phrase that announces the estimated
  arrival holds one time; in a Caribbean bulletin a two-line paragraph
  holds it. Otherwise the paragraph after the header that contains
  \<open>START\<close> and \<open>SELECTED\<close> (or, for Guam and American Samoa, \<open>-ETA- OF THE
  INITIAL TSUNAMI WAVE\<close>) is the table of stations; each station whose name
  contains an entry of \<open>arrival_list\<close> gives one arrival line. An
  exception raised here (\<open>str.index\<close>, \<open>list.pop\<close>) leaves the loop for the
  \<open>except\<close> of line 1387, which replaces the whole result by the failure
  notice.
\<close>

subsection \<open>Shared pieces\<close>

text \<open>\<open>mon_long\<close> and \<open>mon_longer\<close> (lines 406-407).\<close>

definition mon_long :: "string list" where
  "mon_long = ['''', ''JAN'', ''FEB'', ''MAR'', ''APR'', ''MAY'', ''JUN'', ''JUL'', ''AUG'', ''SEP'', ''OCT'', ''NOV'', ''DEC'']"

definition mon_longer :: "string list" where
  "mon_longer = ['''', ''JANUARY'', ''FEBRUARY'', ''MARCH'', ''APRIL'', ''MAY'', ''JUNE'', ''JULY'', ''AUGUST'',
                 ''SEPTEMBER'', ''OCTOBER'', ''NOVEMBER'', ''DECEMBER'']"

text \<open>\<open>xs.index(x)\<close>; \<open>None\<close> is the \<open>ValueError\<close> of an absent element.\<close>

fun list_index :: "'a list \<Rightarrow> 'a \<Rightarrow> nat option" where
  "list_index [] x = None"
| "list_index (y # ys) x = (if y = x then Some 0 else map_option Suc (list_index ys x))"

text \<open>\<open>s[a:b]\<close> for non-negative bounds.\<close>

definition py_slice :: "string \<Rightarrow> int \<Rightarrow> int \<Rightarrow> string" where
  "py_slice s a b = take (nat b - nat a) (drop (nat a) s)"

text \<open>Line 1192: the paragraphs of a segment.\<close>

definition arr_sections :: "string \<Rightarrow> string list" where
  "arr_sections s = py_split (py_replace (py_replace s [CHR 0x0D] []) [NL, CHR '' ''] [NL]) [NL, NL]"

text \<open>Lines 1273 and 1412: a table line with its runs of spaces shortened
  by four fixed replacements, split at single spaces.\<close>

definition squeeze_fields :: "string \<Rightarrow> string list" where
  "squeeze_fields line =
     py_split (py_replace (py_replace (py_replace (py_replace (py_lstrip line) ''   '' '' '') ''   '' '' '')
                ''  '' '' '') ''  '' '' '') '' ''"

subsection \<open>Hawaii and the Caribbean (lines 1198-1251)\<close>

text \<open>Lines 1214-1227. \<open>arrZone\<close> is set to \<open>"HAWAII STANDARD TIME"\<close> and then
  compared with \<open>"HST"\<close>, so it is always replaced by the zone field.\<close>

definition hawaii_line :: "string \<Rightarrow> string" where
  "hawaii_line nxt =
     (let fields = py_split (py_lstrip nxt) '' ''
      in if 6 \<le> length fields \<and> length (fields ! 0) = 4 then
           (let arrTime = (if hd (fields ! 0) = CHR ''0'' then tl (fields ! 0) else fields ! 0);
                z0 = ''HAWAII STANDARD TIME'';
                arrZone = (if z0 \<noteq> ''HST'' then fields ! 2 else z0);
                arrMonth = (case list_index mon_long (fields ! 5) of None \<Rightarrow> fields ! 5 | Some i \<Rightarrow> mon_longer ! i)
            in ''HAWAIIAN ISLANDS ON '' @ arrMonth @ '' '' @ fields ! 4 @ '' AT '' @ arrTime @ '' '' @ fields ! 1 @ '' '' @ arrZone)
         else [])"

text \<open>Lines 1235-1244: \<open>None\<close> when \<open>arriveLine\<close> is not assigned; the three
  \<open>str.index\<close> calls raise \<open>ValueError\<close> when their phrase is missing.\<close>

definition carib_line :: "string \<Rightarrow> py_error + string option" where
  "carib_line sec =
     (if str_in ''HAZARD IS FORECAST TO BEGIN'' sec then
        (let airLine = py_splitlines sec
         in if 1 < length airLine then
              (let al = airLine ! 0 @ '' '' @ airLine ! 1;
                   beg = py_find al ''AROUND''; mid = py_find al ''AST ON ''; en = py_find al ''AND IT CAN''
               in if beg = -1 \<or> mid = -1 \<or> en = -1 then Inl ValueError
                  else Inr (Some (if 0 < beg \<and> beg < mid \<and> beg < en
                                  then ''PUERTO RICO/VIRGIN ISLANDS '' @ py_slice al beg mid @ py_slice al (mid + 4) en
                                  else al)))
            else Inr None)
      else Inr None)"

definition hawaii_flag :: "string \<Rightarrow> bool" where
  "hawaii_flag sec \<longleftrightarrow> str_in ''ESTIMATED TIME OF ARRIVAL OF THE INITIAL WAVE'' sec \<or>
                       str_in ''IF TSUNAMI WAVES IMPACT HAWAII THE ESTIMATED EARLIEST ARRIVAL'' sec"

text \<open>The loop over the paragraphs; the first arrival found ends it.\<close>

fun hc_loop :: "variant_flags \<Rightarrow> string list \<Rightarrow> py_error + string list" where
  "hc_loop fl [] = Inr []"
| "hc_loop fl (sec # rest) =
     (let a1 = (if isHawaii fl \<and> hawaii_flag sec \<and> rest \<noteq> [] then hawaii_line (hd rest) else [])
      in case (if isCarib fl then carib_line sec else Inr None) of
           Inl e \<Rightarrow> Inl e
         | Inr c \<Rightarrow>
             (let arriveLine = (case c of None \<Rightarrow> a1 | Some l \<Rightarrow> l)
              in if arriveLine \<noteq> [] then Inr [arriveLine] else hc_loop fl rest))"

subsection \<open>Station tables (lines 1256-1312)\<close>

definition is_lower :: "char \<Rightarrow> bool" where
  "is_lower c \<longleftrightarrow> c \<in> set ''abcdefghijklmnopqrstuvwxyz''"

text \<open>\<open>re.sub("[\W]", " ", line)\<close> on ASCII text.\<close>

definition word_sub :: "string \<Rightarrow> string" where
  "word_sub line = map (\<lambda>c. if is_upper c \<or> is_lower c \<or> is_digit c \<or> c = CHR ''_'' then c else CHR '' '') line"

text \<open>
  The pattern \<open>"  ([0-9]+)\s+([A,P,M]+)\s+([A-Z][A-Z]?[S,D]T)\s+([A-Z]+)\s+([0-9]+)"\<close>
  at one position. Each group but the last is followed by whitespace, which
  none of its characters is, so the greedy match takes the whole run up to
  the next whitespace and fails when that run is not of the group's shape.
\<close>

definition tz_ok :: "string \<Rightarrow> bool" where
  "tz_ok t \<longleftrightarrow> (length t = 4 \<and> is_upper (t ! 0) \<and> is_upper (t ! 1) \<and> t ! 2 \<in> set ''S,D'' \<and> t ! 3 = CHR ''T'') \<or>
               (length t = 3 \<and> is_upper (t ! 0) \<and> t ! 1 \<in> set ''S,D'' \<and> t ! 2 = CHR ''T'')"

definition tok :: "string \<Rightarrow> string \<times> string" where
  "tok s = (let t = takeWhile (\<lambda>c. \<not> is_space c) s; r = dropWhile (\<lambda>c. \<not> is_space c) s
            in (t, dropWhile is_space r))"

definition sp_next :: "string \<Rightarrow> bool" where
  "sp_next s \<longleftrightarrow> s \<noteq> [] \<and> \<not> is_space (hd s) \<and> (\<exists>c \<in> set s. is_space c)"

definition arr_match_at :: "string \<Rightarrow> (string \<times> string \<times> string \<times> string \<times> string) option" where
  "arr_match_at s =
     (if starts_with ''  '' s then
        (let (g0, s1) = tok (drop 2 s); (g1, s2) = tok s1; (g2, s3) = tok s2; (g3, s4) = tok s3;
             g4 = takeWhile is_digit s4
         in if sp_next (drop 2 s) \<and> g0 \<noteq> [] \<and> list_all is_digit g0 \<and>
               sp_next s1 \<and> list_all (\<lambda>c. c \<in> set ''A,PM'') g1 \<and>
               sp_next s2 \<and> tz_ok g2 \<and> sp_next s3 \<and> list_all is_upper g3 \<and> g4 \<noteq> []
            then Some (g0, g1, g2, g3, g4) else None)
      else None)"

text \<open>\<open>re.compile(pat2).findall(line)[0]\<close>: the leftmost match.\<close>

fun arr_match :: "string \<Rightarrow> (string \<times> string \<times> string \<times> string \<times> string) option" where
  "arr_match [] = None"
| "arr_match (c # cs) = (case arr_match_at (c # cs) of Some g \<Rightarrow> Some g | None \<Rightarrow> arr_match cs)"

text \<open>\<open>formatGuamArrival\<close>: the last field is \<open>month/day\<close>; the time is the two
  fields before the coordinates. Errors inside its \<open>try\<close> give \<open>""\<close>.\<close>

definition guam_arrival :: "string \<Rightarrow> string \<Rightarrow> string" where
  "guam_arrival stnid line =
     (let fields = squeeze_fields line;
          start = int (length fields) - 5;
          dy = py_split (last fields) ''/''
      in if length dy \<noteq> 2 then []
         else case py_int (dy ! 0) of
                None \<Rightarrow> []
              | Some month \<Rightarrow>
                  if month < 1 \<or> 12 < month then []
                  else if dy ! 1 = [] then []
                  else
                    (let dom = (if hd (dy ! 1) = CHR ''0'' then tl (dy ! 1) else dy ! 1)
                     in case (py_index fields (start + 2), py_index fields (start + 3)) of
                          (Some f2, Some f3) \<Rightarrow> stnid @ '' ON '' @ mon_longer ! nat month @ '' '' @ dom @ '' AT '' @ f2 @ '' '' @ f3
                        | _ \<Rightarrow> []))"

definition guam_skip :: "string \<Rightarrow> bool" where
  "guam_skip line \<longleftrightarrow> (str_in ''LOCATION'' line \<and> str_in ''REGION'' line) \<or> str_in ''------------'' line"

text \<open>One line of the table: five \<open>pop()\<close> calls (an \<open>IndexError\<close> on a line
  of fewer than five fields), the station name, the search of
  \<open>arrival_list\<close>, the local alias, and the arrival line.\<close>

definition station_line ::
  "variant_flags \<Rightarrow> string list \<Rightarrow> (string \<times> string) list option \<Rightarrow> string \<Rightarrow> py_error + string list"
where
  "station_line fl al ln line =
     (let tmp = squeeze_fields line
      in if length tmp < 5 then Inl IndexError
         else
           (let stnid0 = py_upper (py_join '' '' (take (length tmp - 5) tmp))
            in if \<exists>a \<in> set al. str_in (py_upper a) stnid0 then
                 (let stnid = (case ln of None \<Rightarrow> stnid0
                                | Some m \<Rightarrow> (case map_of (rev m) stnid0 of None \<Rightarrow> stnid0 | Some v \<Rightarrow> v));
                      arriveLine = (if isGuam fl then guam_arrival stnid line
                                    else case arr_match (word_sub line) of
                                           None \<Rightarrow> []
                                         | Some (g0, g1, g2, g3, g4) \<Rightarrow> stnid @ '' ON '' @ g3 @ '' '' @ g4 @ '' AT '' @ g0 @ '' '' @ g1)
                  in Inr (if arriveLine \<noteq> [] then [arriveLine] else []))
               else Inr []))"

fun station_lines ::
  "variant_flags \<Rightarrow> string list \<Rightarrow> (string \<times> string) list option \<Rightarrow> string list \<Rightarrow> py_error + string list"
where
  "station_lines fl al ln [] = Inr []"
| "station_lines fl al ln (line # ls) =
     (if isGuam fl \<and> guam_skip line then station_lines fl al ln ls
      else case station_line fl al ln line of
             Inl e \<Rightarrow> Inl e
           | Inr a \<Rightarrow> (case station_lines fl al ln ls of Inl e \<Rightarrow> Inl e | Inr b \<Rightarrow> Inr (a @ b)))"

definition blank_section :: "string \<Rightarrow> bool" where
  "blank_section x \<longleftrightarrow> py_replace (py_replace x '' '' []) [NL] [] = []"

definition is_arr_header :: "variant_flags \<Rightarrow> string \<Rightarrow> bool" where
  "is_arr_header fl sec \<longleftrightarrow> (str_in ''START'' sec \<and> str_in ''SELECTED'' sec) \<or>
                            (isGuam fl \<and> str_in ''-ETA- OF THE INITIAL TSUNAMI WAVE'' sec)"

text \<open>The first header ends the loop; the table is the first non-blank of
  the two paragraphs after it.\<close>

fun std_loop ::
  "variant_flags \<Rightarrow> string list \<Rightarrow> (string \<times> string) list option \<Rightarrow> string list \<Rightarrow> py_error + string list"
where
  "std_loop fl al ln [] = Inr []"
| "std_loop fl al ln (sec # rest) =
     (if is_arr_header fl sec then
        (if 0 < length rest \<and> \<not> blank_section (rest ! 0) then station_lines fl al ln (py_splitlines (rest ! 0))
         else if 1 < length rest \<and> \<not> blank_section (rest ! 1) then station_lines fl al ln (py_splitlines (rest ! 1))
         else Inr [])
      else std_loop fl al ln rest)"

definition seg_arrivals ::
  "variant_flags \<Rightarrow> string list \<Rightarrow> (string \<times> string) list option \<Rightarrow> string \<Rightarrow> py_error + string list"
where
  "seg_arrivals fl al ln s =
     (let ss = arr_sections s in if isHawaii fl \<or> isCarib fl then hc_loop fl ss else std_loop fl al ln ss)"

subsection \<open>The segment loop with arrivals\<close>

text \<open>The hazard of a segment that passes the guards of lines 1142-1158.\<close>

definition seg_hazard :: "string \<Rightarrow> hazard option" where
  "seg_hazard s =
     (let v = select_vline (segment_lines s)
      in if v = [] then None
         else case hazard_of_vline v of
                None \<Rightarrow> None
              | Some w \<Rightarrow> if issue_of v s = Final then None else Some w)"

text \<open>The body of \<open>for s in segs\<close>: the zone path of \<open>BulletinParser\<close>, then
  the arrivals of the segment, read from the segment with its zone ranges
  expanded (\<open>s\<close> is reassigned at lines 1168-1169).\<close>

fun process_segment_full ::
  "zone list \<Rightarrow> variant_flags \<Rightarrow> string list \<Rightarrow> (string \<times> string) list option \<Rightarrow>
   py_error + hazard_info \<times> bool \<Rightarrow> string \<Rightarrow> py_error + hazard_info \<times> bool"
where
  "process_segment_full ids fl al ln (Inl e) s = Inl e"
| "process_segment_full ids fl al ln (Inr st) s =
     (let (info', tv') = process_segment ids st s
      in case seg_hazard s of
           None \<Rightarrow> Inr (info', tv')
         | Some w \<Rightarrow>
             (case seg_arrivals fl al ln (zone_expand s) of
                Inl e \<Rightarrow> Inl e
              | Inr xs \<Rightarrow> Inr (info'\<lparr>arrivals := (arrivals info')(w := arrivals info' w @ xs)\<rparr>, tv')))"

definition parse_segments_full ::
  "zone list \<Rightarrow> string list \<Rightarrow> (string \<times> string) list option \<Rightarrow> string \<Rightarrow> py_error + hazard_info \<times> bool"
where
  "parse_segments_full ids al ln tsuin =
     (let segs = bulletin_segments tsuin
      in foldl (process_segment_full ids (detect_variant (hd segs)) al ln) (Inr (info_init, False)) segs)"

subsection \<open>Lemmas\<close>

lemma station_line_error: "station_line fl al ln line = Inl e \<Longrightarrow> e = IndexError"
  by (auto simp: station_line_def Let_def split: if_splits)

lemma station_line_short: "length (squeeze_fields line) < 5 \<Longrightarrow> station_line fl al ln line = Inl IndexError"
  by (simp add: station_line_def)

lemma station_lines_short:
  assumes "l \<in> set ls" "\<not> (isGuam fl \<and> guam_skip l)" "length (squeeze_fields l) < 5"
  shows "station_lines fl al ln ls = Inl IndexError"
  using assms(1)
proof (induction ls)
  case (Cons x ls)
  show ?case
  proof (cases "x = l")
    case True
    then show ?thesis using assms(2,3) station_line_short [of l fl al ln] by (cases "isGuam fl") simp_all
  next
    case False
    then have ih: "station_lines fl al ln ls = Inl IndexError" using Cons by simp
    show ?thesis
    proof (cases "station_line fl al ln x")
      case (Inl e)
      then show ?thesis using station_line_error [OF Inl] ih by simp
    qed (simp_all add: ih)
  qed
qed simp

subsection \<open>Properties\<close>

text \<open>
  C21. A line of the station table with fewer than five fields (a note, a
  line of spaces) makes the five \<open>tmp.pop()\<close> calls raise \<open>IndexError\<close>,
  which the segment loop does not catch: the arrival parse of a standard or
  Guam bulletin fails, whatever the other lines hold.
\<close>

theorem short_station_line_aborts:
  assumes "is_arr_header fl sec" "\<not> blank_section tbl" "l \<in> set (py_splitlines tbl)"
      and "\<not> (isGuam fl \<and> guam_skip l)" "length (squeeze_fields l) < 5"
  shows "std_loop fl al ln (sec # tbl # rest) = Inl IndexError"
  using assms station_lines_short [of l "py_splitlines tbl" fl al ln] by simp

theorem short_station_line_aborts_witness:
  "is_arr_header \<lparr>isHawaii = False, isGuam = False, isCarib = False\<rparr> ''FORECAST START TIMES FOR SELECTED LOCATIONS'' \<and>
   \<not> blank_section (''MANHATTAN NEW YORK 700 PM EDT MARCH 28'' @ [NL] @ ''  NOTE 1'') \<and>
   ''  NOTE 1'' \<in> set (py_splitlines (''MANHATTAN NEW YORK 700 PM EDT MARCH 28'' @ [NL] @ ''  NOTE 1'')) \<and>
   \<not> (isGuam \<lparr>isHawaii = False, isGuam = False, isCarib = False\<rparr> \<and> guam_skip ''  NOTE 1'') \<and>
   length (squeeze_fields ''  NOTE 1'') < 5 \<and>
   std_loop \<lparr>isHawaii = False, isGuam = False, isCarib = False\<rparr> [''Manhattan''] None
     [''FORECAST START TIMES FOR SELECTED LOCATIONS'', ''MANHATTAN NEW YORK 700 PM EDT MARCH 28'' @ [NL] @ ''  NOTE 1''] =
     Inl IndexError"
proof -
  let ?fl = "\<lparr>isHawaii = False, isGuam = False, isCarib = False\<rparr>"
  let ?tbl = "''MANHATTAN NEW YORK 700 PM EDT MARCH 28'' @ [NL] @ ''  NOTE 1''"
  have h: "is_arr_header ?fl ''FORECAST START TIMES FOR SELECTED LOCATIONS''" by code_simp
  have b: "\<not> blank_section ?tbl" by code_simp
  have l: "''  NOTE 1'' \<in> set (py_splitlines ?tbl)" by code_simp
  have g: "\<not> (isGuam ?fl \<and> guam_skip ''  NOTE 1'')" by simp
  have n: "length (squeeze_fields ''  NOTE 1'') < 5" by code_simp
  show ?thesis using short_station_line_aborts [OF h b l g n, of "[''Manhattan'']" None "[]"] h b l g n by simp
qed

end
