(* ===== verification/Earthquake.thy ===== *)
theory Earthquake
  imports Arrivals Config
begin

text \<open>
  The rest of \<open>grabTWC\<close> (\<open>nwr_tsu.py\<close> lines 1314-1403): the product
  time of the bulletin (its year), the earthquake paragraph (for Hawaii
  rebuilt by \<open>parseHawaiiEQ\<close>, lines 1444-1470), the conversion of the
  earthquake time to the office's time zone, and the whole function: the
  segment loop with arrivals (\<open>Arrivals\<close>), this stage, the \<open>except\<close> that
  turns any exception into the failure notice (lines 1387-1392), and the
  empty-result and test checks (lines 1394-1403).

  The conversion goes through \<open>time.mktime(time.strptime(...))\<close> and
  \<open>datetime.fromtimestamp\<close>; on the AWIPS servers, whose clock is UTC (line
  399), the pair is the identity on the naive time, so the conversion is a
  shift by the difference of the two UTC offsets, \<open>shift_minutes\<close>.
\<close>

subsection \<open>Product time (lines 1314-1321)\<close>

text \<open>The pattern \<open>[0-9]+\s[A,P]M\s[P,M,C,E,A][D,S]T\s[A-Za-z]{3}\s[A-Z]{3}\s[0-9]+\s+[0-9]+\<close>
  after a maximal run of digits: sixteen fixed characters and two runs of
  digits around whitespace.\<close>

definition is_letter :: "char \<Rightarrow> bool" where
  "is_letter c \<longleftrightarrow> is_upper c \<or> is_lower c"

definition prod_tail :: "string \<Rightarrow> string option" where
  "prod_tail r =
     (let f = take 16 r; r1 = drop 16 r;
          d2 = takeWhile is_digit r1; r2 = dropWhile is_digit r1;
          w = takeWhile is_space r2; r3 = dropWhile is_space r2;
          d3 = takeWhile is_digit r3
      in if length f = 16 \<and> is_space (f ! 0) \<and> f ! 1 \<in> set ''A,P'' \<and> f ! 2 = CHR ''M'' \<and> is_space (f ! 3) \<and>
            f ! 4 \<in> set ''P,M,C,E,A'' \<and> f ! 5 \<in> set ''D,S'' \<and> f ! 6 = CHR ''T'' \<and> is_space (f ! 7) \<and>
            is_letter (f ! 8) \<and> is_letter (f ! 9) \<and> is_letter (f ! 10) \<and> is_space (f ! 11) \<and>
            is_upper (f ! 12) \<and> is_upper (f ! 13) \<and> is_upper (f ! 14) \<and> is_space (f ! 15) \<and>
            d2 \<noteq> [] \<and> w \<noteq> [] \<and> d3 \<noteq> []
         then Some (f @ d2 @ w @ d3) else None)"

function prod_time :: "string \<Rightarrow> string" where
  "prod_time [] = []"
| "prod_time (c # cs) =
     (if is_digit c then
        (let d = c # takeWhile is_digit cs; r = dropWhile is_digit cs
         in case prod_tail r of Some t \<Rightarrow> d @ t | None \<Rightarrow> prod_time r)
      else prod_time cs)"
  by pat_completeness auto
termination
  by (relation "measure length") (auto simp: less_Suc_eq_le length_dropWhile_le)

text \<open>\<open>yy\<close>: the seventh field of the product time, else the local year.\<close>

definition product_year :: "datetime \<Rightarrow> string \<Rightarrow> string" where
  "product_year todaylocal tsuin =
     (let tmp = py_split (prod_time tsuin) '' '' in if 6 < length tmp then tmp ! 6 else nat_str (year todaylocal))"

subsection \<open>The earthquake paragraph (lines 1322-1347)\<close>

text \<open>\<open>parseHawaiiEQ\<close>: every line is tested for the three labels; the
  fields it reads raise \<open>IndexError\<close> when the line is shorter.\<close>

fun hawaii_eq_lines :: "string \<times> string \<times> string \<Rightarrow> string list \<Rightarrow> py_error + string \<times> string \<times> string" where
  "hawaii_eq_lines acc [] = Inr acc"
| "hawaii_eq_lines (otime, location, magnitude) (line # ls) =
     (let f = py_split (py_rstrip line) '' '';
          r1 = (if str_in ''ORIGIN TIME'' line then
                  (if length f < 6 then Inl IndexError
                   else (let ozone = (if f ! 5 \<noteq> ''HST'' then f ! 3 else ''HAWAII STANDARD TIME'')
                         in if length f < 9 then Inl IndexError
                            else Inr (f ! 3 @ '' '' @ f ! 4 @ '' '' @ ozone @ '' ON '' @ f ! 6 @ '' '' @ f ! 7 @ '' '' @ f ! 8)))
                else Inr otime);
          idx = py_find line '' - '';
          loc = (if str_in ''LOCATION'' line \<and> 0 < idx then drop (nat idx + 3) line else location);
          g = py_split line '' ''
      in case r1 of
           Inl e \<Rightarrow> Inl e
         | Inr ot \<Rightarrow>
             if str_in ''MAGNITUDE'' line then
               (if length g < 3 then Inl IndexError else hawaii_eq_lines (ot, loc, g ! 2) ls)
             else hawaii_eq_lines (ot, loc, magnitude) ls)"

definition parse_hawaii_eq :: "string \<Rightarrow> py_error + string" where
  "parse_hawaii_eq seg =
     (case hawaii_eq_lines ([], [], []) (py_splitlines (py_upper seg)) of
        Inl e \<Rightarrow> Inl e
      | Inr (otime, location, magnitude) \<Rightarrow>
          Inr (''AN EARTHQUAKE WITH A PRELIMINARY MAGNITUDE OF '' @ magnitude @ '' OCCURRED '' @ location @ '' AT '' @ otime))"

definition eq_fix :: "string \<Rightarrow> string" where
  "eq_fix p =
     (let e = py_replace (py_replace (py_replace p ''WITH PRELIMINARY'' ''WITH A PRELIMINARY'') ''MAGNITUDE'' ''MAGNITUDE OF'')
                ''OF OF'' ''OF''
      in if take 2 e = ''* '' then drop 2 e else e)"

text \<open>The paragraphs of the first segment naming an earthquake and its
  magnitude. In a Hawaii bulletin only the paragraph after
  \<open>AN EARTHQUAKE HAS OCCURRED WITH THESE\<close> is read; the guard \<open>len(ss) > j\<close>
  always holds, so when that phrase ends the segment \<open>ss[j+1]\<close> raises
  \<open>IndexError\<close>.\<close>

fun eq_paras :: "bool \<Rightarrow> string list \<Rightarrow> py_error + string" where
  "eq_paras hw [] = Inr []"
| "eq_paras hw (p # ps) =
     (if hw then
        (if str_in ''AN EARTHQUAKE HAS OCCURRED WITH THESE'' p
         then (case ps of [] \<Rightarrow> Inl IndexError | q # _ \<Rightarrow> parse_hawaii_eq q)
         else eq_paras hw ps)
      else if str_in ''EARTHQUAKE'' p \<and> str_in ''MAGNITUDE'' p then Inr (eq_fix p)
      else eq_paras hw ps)"

definition eq_sections :: "string \<Rightarrow> string list" where
  "eq_sections seg =
     py_split (py_replace (py_replace (py_replace (py_replace seg [CHR 0x0D] []) ''  '' '' '') ''  '' '' '') [NL, CHR '' ''] [NL])
       [NL, NL]"

definition eq_segment :: "bool \<Rightarrow> string list \<Rightarrow> py_error + string" where
  "eq_segment hw segs =
     (case filter (\<lambda>s. str_in ''EARTHQUAKE'' s \<and> str_in ''MAGNITUDE'' s) segs of
        [] \<Rightarrow> Inr []
      | s # _ \<Rightarrow> eq_paras hw (eq_sections s))"

subsection \<open>Time zone conversion (lines 1348-1386)\<close>

definition tz_offlist :: "(string \<times> int) list" where
  "tz_offlist = [(''ALASKAN'', 9), (''ALASKA'', 9), (''PACIFIC'', 8), (''MOUNTAIN'', 7), (''CENTRAL'', 6),
                 (''EASTERN'', 5), (''ATLANTIC'', 4)]"

text \<open>\<open>AT ([0-9][0-9][0-9][0-9]? [A,P][M]) (ALASKAN|ALASKA|...) (DAYLIGHT|STANDARD|)\<close>
  at one position: the time of three or four digits (a fourth digit rules
  the three-digit form out), a zone name followed by a space, and the
  first of the three alternatives that matches.\<close>

definition time_group :: "string \<Rightarrow> (string \<times> string) option" where
  "time_group r =
     (let ok = (\<lambda>n. length r \<ge> n + 4 \<and> list_all is_digit (take n r) \<and> r ! n = CHR '' '' \<and>
                    r ! (n + 1) \<in> set ''A,P'' \<and> r ! (n + 2) = CHR ''M'' \<and> r ! (n + 3) = CHR '' '')
      in if ok 4 then Some (take 7 r, drop 8 r) else if ok 3 then Some (take 6 r, drop 7 r) else None)"

definition eq_time_at :: "string \<Rightarrow> (string \<times> string \<times> string) option" where
  "eq_time_at s =
     (if starts_with ''AT '' s then
        (case time_group (drop 3 s) of
           None \<Rightarrow> None
         | Some (t, r) \<Rightarrow>
             (case filter (\<lambda>z. starts_with (z @ '' '') r) (map fst tz_offlist) of
                [] \<Rightarrow> None
              | z # _ \<Rightarrow>
                  (let r' = drop (length z + 1) r
                   in Some (t, z, if starts_with ''DAYLIGHT'' r' then ''DAYLIGHT''
                                  else if starts_with ''STANDARD'' r' then ''STANDARD'' else []))))
      else None)"

fun eq_time :: "string \<Rightarrow> (string \<times> string \<times> string) option" where
  "eq_time [] = None"
| "eq_time (c # cs) = (case eq_time_at (c # cs) of Some m \<Rightarrow> Some m | None \<Rightarrow> eq_time cs)"

text \<open>Lines 1357-1362: the month and day, from the last month of the year
  whose name occurs in the paragraph (the loop does not stop).\<close>

definition eq_month_day :: "string \<Rightarrow> string" where
  "eq_month_day e =
     foldl (\<lambda>dd m. if m \<noteq> [] \<and> str_in m e
                    then (let t = py_split (drop (nat (py_find e m)) e) '' '' in if 1 < length t then m @ '' '' @ t ! 1 else dd)
                    else dd) [] mon_longer"

text \<open>\<open>time.strptime(dstring, "%B %d %Y %I%M %p")\<close>: the whitespace of the
  format matches runs of whitespace, names are matched without regard to
  case, the whole string must be consumed, and the date must exist.
  The directives are tried in the order of their alternatives in
  \<open>_strptime\<close>: \<open>%d\<close> is \<open>3[01]|[12]\d|0[1-9]|[1-9]\<close>, \<open>%I\<close> is
  \<open>1[0-2]|0[1-9]|[1-9]\<close> and \<open>%M\<close> is \<open>[0-5]\d|\d\<close>.\<close>

fun words_aux :: "string \<Rightarrow> string \<Rightarrow> string list" where
  "words_aux acc [] = (if acc = [] then [] else [acc])"
| "words_aux acc (c # cs) = (if is_space c then (if acc = [] then words_aux [] cs else acc # words_aux [] cs)
                             else words_aux (acc @ [c]) cs)"

definition day_tok :: "string \<Rightarrow> bool" where
  "day_tok d \<longleftrightarrow> (length d = 2 \<and> ((d ! 0 = CHR ''3'' \<and> d ! 1 \<in> set ''01'') \<or> (d ! 0 \<in> set ''12'' \<and> is_digit (d ! 1)) \<or>
                                     (d ! 0 = CHR ''0'' \<and> d ! 1 \<in> set ''123456789''))) \<or>
                 (length d = 1 \<and> d ! 0 \<in> set ''123456789'')"

definition hour_ok :: "string \<Rightarrow> bool" where
  "hour_ok h \<longleftrightarrow> (length h = 2 \<and> ((h ! 0 = CHR ''1'' \<and> h ! 1 \<in> set ''012'') \<or> (h ! 0 = CHR ''0'' \<and> h ! 1 \<in> set ''123456789''))) \<or>
                  (length h = 1 \<and> h ! 0 \<in> set ''123456789'')"

definition minute_ok :: "string \<Rightarrow> bool" where
  "minute_ok m \<longleftrightarrow> (length m = 2 \<and> m ! 0 \<in> set ''012345'' \<and> is_digit (m ! 1)) \<or> (length m = 1 \<and> is_digit (m ! 0))"

text \<open>The first split of \<open>%I%M\<close> in the order the regular expression tries.\<close>

definition split_hm :: "string \<Rightarrow> (nat \<times> nat) option" where
  "split_hm t =
     (case filter (\<lambda>(h, m). h @ m = t \<and> hour_ok h \<and> minute_ok m)
             [(take 2 t, drop 2 t), (take 2 t, drop 2 t), (take 1 t, drop 1 t), (take 1 t, drop 1 t)] of
        [] \<Rightarrow> None
      | (h, m) # _ \<Rightarrow> Some (digits_val h, digits_val m))"

definition py_strptime_eq :: "string \<Rightarrow> datetime option" where
  "py_strptime_eq s =
     (let ws = words_aux [] s
      in if s = [] \<or> is_space (hd s) \<or> is_space (last s) \<or> length ws \<noteq> 5 then None
         else
           (case (list_index (tl mon_longer) (py_upper (ws ! 0)), split_hm (ws ! 3)) of
              (Some mi, Some (h, mn)) \<Rightarrow>
                (let mo = mi + 1; dd = digits_val (ws ! 1); yr = digits_val (ws ! 2); p = py_upper (ws ! 4);
                     h24 = (if p = ''PM'' \<and> h \<noteq> 12 then h + 12 else if p = ''AM'' \<and> h = 12 then 0 else h)
                 in if day_tok (ws ! 1) \<and> length (ws ! 2) = 4 \<and> list_all is_digit (ws ! 2) \<and> (p = ''AM'' \<or> p = ''PM'') \<and>
                       1 \<le> yr \<and> dd \<le> days_in_month yr mo
                    then Some \<lparr>year = yr, month = mo, day = dd, hour = h24, minute = mn\<rparr> else None)
            | _ \<Rightarrow> None))"

text \<open>\<open>tzdt.strftime("%B DDD %Y AT TTT%M %p XXX")\<close> with the placeholders
  replaced: the month name as \<open>strftime\<close> writes it, the day and the hour
  without leading zero.\<close>

definition month_title :: "nat \<Rightarrow> string" where
  "month_title m = [''January'', ''February'', ''March'', ''April'', ''May'', ''June'', ''July'', ''August'',
                    ''September'', ''October'', ''November'', ''December''] ! (m - 1)"

definition daytime_str :: "datetime \<Rightarrow> string \<Rightarrow> string" where
  "daytime_str t tzname =
     (let h12 = (if hour t mod 12 = 0 then 12 else hour t mod 12);
          fmt = month_title (month t) @ '' DDD '' @ nat_str (year t) @ '' AT TTT'' @ py_zfill 2 (nat_str (minute t)) @
                (if hour t < 12 then '' AM'' else '' PM'') @ '' XXX''
      in py_replace (py_replace (py_replace fmt ''DDD'' (nat_str (day t))) ''TTT'' (nat_str h12)) ''XXX'' tzname)"

text \<open>The conversion: \<open>None\<close> for \<open>daytime\<close> when it is left as it was.\<close>

definition eq_convert ::
  "tsu_config \<Rightarrow> nat \<Rightarrow> string \<Rightarrow> string \<Rightarrow> string \<Rightarrow> py_error + string \<times> string option"
where
  "eq_convert cfg dst tzs yy e =
     (if tzs \<noteq> [] \<and> py_find e tzs = -1 then
        (case eq_time e of
           None \<Rightarrow> Inr (e, None)
         | Some (tm, zn, dw) \<Rightarrow>
             (let dd = eq_month_day e
              in case py_strptime_eq (dd @ '' '' @ yy @ '' '' @ tm) of
                   None \<Rightarrow> Inl ValueError
                 | Some t0 \<Rightarrow>
                     (let (t1, tzname) =
                            (case map_of tz_offlist zn of
                               None \<Rightarrow> (t0, zn @ '' '' @ dw @ '' TIME'')
                             | Some eoff \<Rightarrow>
                                 (shift_minutes t0 (60 * (eoff - tz cfg)),
                                  case tz_long (tzid cfg) of
                                    None \<Rightarrow> zn @ '' '' @ dw @ '' TIME''
                                  | Some l \<Rightarrow> (let n = l @ '' STANDARD TIME'' in if dst = 1 then py_replace n ''STANDARD'' ''DAYLIGHT'' else n)));
                          dtm = daytime_str t1 tzname;
                          da = py_split dtm '' ''
                      in if length da < 8 then Inl IndexError
                         else Inr (py_replace (py_replace (py_replace e tm (da ! 4 @ '' '' @ da ! 5)) (zn @ '' '' @ dw) (da ! 6 @ '' '' @ da ! 7))
                                     dd (da ! 0 @ '' '' @ da ! 1),
                                   Some dtm))))
      else Inr (e, None))"

definition eseg_clean :: "string \<Rightarrow> string" where
  "eseg_clean e =
     (let e1 = py_replace (py_replace (py_replace e [NL] '' '') ''  '' '' '') ''  '' '' ''
      in rev (dropWhile (\<lambda>c. c = CHR '' '') (rev (dropWhile (\<lambda>c. c = CHR '' '') e1))))"

text \<open>Lines 1314-1386 on the parse state.\<close>

definition eq_stage :: "tsu_config \<Rightarrow> datetime \<Rightarrow> string \<Rightarrow> hazard_info \<Rightarrow> py_error + hazard_info" where
  "eq_stage cfg todaylocal tsuin info =
     (let segs = bulletin_segments tsuin;
          fl = detect_variant (hd segs);
          yy = product_year todaylocal tsuin
      in case eq_segment (isHawaii fl) segs of
           Inl e \<Rightarrow> Inl e
         | Inr e0 \<Rightarrow>
             (case eq_convert cfg (daylight_me todaylocal) (tzset cfg todaylocal) yy e0 of
                Inl e \<Rightarrow> Inl e
              | Inr (e1, dt) \<Rightarrow>
                  Inr (info\<lparr>eseg := eseg_clean e1, daytime := (case dt of None \<Rightarrow> daytime info | Some d \<Rightarrow> d)\<rparr>)))"

subsection \<open>\<open>grabTWC\<close>\<close>

definition msg_failed :: string where
  "msg_failed = ''Autofill parsing failed!'' @ [NL] @
     ''View TSU statement from the black button at the top right and try another version, or use one of the options from the Templates menu.''"

text \<open>The whole function on the text of the bulletin: the configuration
  supplies \<open>zone_ids\<close>, \<open>arrival_localname\<close> and the time zone, start-up
  supplies \<open>arrival_list\<close> and the local time.\<close>

definition grab_twc_full :: "tsu_config \<Rightarrow> string list \<Rightarrow> datetime \<Rightarrow> string \<Rightarrow> hazard_info" where
  "grab_twc_full cfg al todaylocal tsuin =
     (case parse_segments_full (zone_order cfg) al (arrival_localname cfg) tsuin of
        Inl _ \<Rightarrow> info_reduced msg_failed
      | Inr (info, tv) \<Rightarrow>
          (case eq_stage cfg todaylocal tsuin info of
             Inl _ \<Rightarrow> info_reduced msg_failed
           | Inr info2 \<Rightarrow>
               if zones info2 Warning = [] \<and> zones info2 Watch = [] \<and> zones info2 Advisory = []
               then info_reduced msg_no_wwa
               else if tsuin \<noteq> [] \<and> ((tv \<and> str_in ''TEST'' tsuin) \<or> str_in ''TEST'' tsuin)
               then info2\<lparr>extra := msg_test\<rparr>
               else info2))"

subsection \<open>Sample bulletins\<close>

text \<open>A warning for \<open>CAZ041\<close>, and the same warning with an earthquake
  paragraph whose line is broken between the day and the year.\<close>

definition small_bulletin :: string where
  "small_bulletin =
     ''TSUWCA'' @ [NL, NL] @ ''/O.NEW.PAAQ.TS.W.0001.120416T1540Z-000000T0000Z/'' @ [NL] @ ''CAZ041-'' @ [NL] @ ''$$''"

definition wrapped_bulletin :: string where
  "wrapped_bulletin =
     ''TSUWCA'' @ [NL, NL] @ ''/O.NEW.PAAQ.TS.W.0001.120416T1540Z-000000T0000Z/'' @ [NL] @ ''CAZ041-'' @ [NL, NL] @
     ''AN EARTHQUAKE WITH A MAGNITUDE 7.5 OCCURRED AT 839 AM ALASKA DAYLIGHT TIME ON APRIL 16'' @ [NL] @
     ''2012.'' @ [NL] @ ''$$''"

definition info_small :: hazard_info where
  "info_small = info_init\<lparr>zones := (\<lambda>_. [])(Warning := [''CAZ041'']), issues := [New]\<rparr>"

text \<open>The parse state with the arrivals forgotten: what the zone path sees.\<close>

definition forget_arrivals :: "hazard_info \<times> bool \<Rightarrow> hazard_info \<times> bool" where
  "forget_arrivals st = ((fst st)\<lparr>arrivals := \<lambda>_. []\<rparr>, snd st)"

subsection \<open>The zone path inside the whole parse\<close>

lemma process_segment_forget:
  "forget_arrivals (process_segment ids st s) = process_segment ids (forget_arrivals st) s"
  by (cases st) (simp add: forget_arrivals_def process_segment_def Let_def split: option.split prod.split)

lemma process_segment_full_forget:
  "process_segment_full ids fl al ln (Inr st) s = Inr st' \<Longrightarrow>
   forget_arrivals st' = process_segment ids (forget_arrivals st) s"
proof -
  assume a: "process_segment_full ids fl al ln (Inr st) s = Inr st'"
  obtain i b where p: "process_segment ids st s = (i, b)" by fastforce
  have "forget_arrivals st' = forget_arrivals (i, b)"
    using a by (auto simp: p forget_arrivals_def split: option.splits sum.splits)
  then show ?thesis using p process_segment_forget [of ids st s] by simp
qed

lemma foldl_full_Inl: "foldl (process_segment_full ids fl al ln) (Inl e) segs = Inl e"
  by (induction segs) auto

lemma foldl_full_forget:
  "foldl (process_segment_full ids fl al ln) (Inr st) segs = Inr st' \<Longrightarrow>
   forget_arrivals st' = foldl (process_segment ids) (forget_arrivals st) segs"
proof (induction segs arbitrary: st)
  case (Cons s segs)
  show ?case
  proof (cases "process_segment_full ids fl al ln (Inr st) s")
    case (Inl e)
    then show ?thesis using Cons.prems by (simp add: foldl_full_Inl)
  next
    case (Inr st1)
    then have "forget_arrivals st' = foldl (process_segment ids) (forget_arrivals st1) segs"
      using Cons by simp
    with Inr show ?thesis by (simp add: process_segment_full_forget)
  qed
qed simp

lemma parse_full_forget:
  "parse_segments_full ids al ln tsuin = Inr st \<Longrightarrow> forget_arrivals st = parse_segments ids tsuin"
proof -
  assume "parse_segments_full ids al ln tsuin = Inr st"
  then have "forget_arrivals st = foldl (process_segment ids) (forget_arrivals (info_init, False)) (bulletin_segments tsuin)"
    unfolding parse_segments_full_def Let_def by (rule foldl_full_forget)
  moreover have "forget_arrivals (info_init, False) = (info_init, False)"
    by (simp add: forget_arrivals_def info_init_def)
  ultimately show ?thesis by (simp add: parse_segments_def)
qed

lemma eq_stage_frame:
  "eq_stage cfg t tsuin info = Inr info2 \<Longrightarrow>
   zones info2 = zones info \<and> arrivals info2 = arrivals info \<and> issues info2 = issues info \<and> extra info2 = extra info"
  by (auto simp: eq_stage_def Let_def split: sum.splits prod.splits)

subsection \<open>Properties\<close>

text \<open>
  C14. The whole of \<open>grabTWC\<close> refines its zone path: whenever the arrival
  and earthquake paragraphs raise no exception, the zones, the issuance
  statuses and the notice are those of the zone path alone (theory
  \<open>BulletinParser\<close>), so every property proved there holds of the whole
  function.
\<close>

theorem grab_twc_full_refines:
  assumes "parse_segments_full (zone_order cfg) al (arrival_localname cfg) tsuin = Inr (info, tv)"
      and "eq_stage cfg t tsuin info = Inr info2"
  shows "zones (grab_twc_full cfg al t tsuin) = zones (grab_twc (zone_order cfg) tsuin) \<and>
         issues (grab_twc_full cfg al t tsuin) = issues (grab_twc (zone_order cfg) tsuin) \<and>
         extra (grab_twc_full cfg al t tsuin) = extra (grab_twc (zone_order cfg) tsuin)"
proof -
  have p: "parse_segments (zone_order cfg) tsuin = (info\<lparr>arrivals := \<lambda>_. []\<rparr>, tv)"
    using parse_full_forget [OF assms(1)] by (simp add: forget_arrivals_def)
  have f: "zones info2 = zones info" "issues info2 = issues info" "extra info2 = extra info"
    using eq_stage_frame [OF assms(2)] by simp_all
  show ?thesis using assms p f
    by (auto simp: grab_twc_full_def grab_twc_def info_reduced_def)
qed

theorem grab_twc_full_refines_witness:
  "parse_segments_full (zone_order config_template) [] (arrival_localname config_template) small_bulletin =
     Inr (info_small, False) \<and>
   eq_stage config_template \<lparr>year = 2012, month = 4, day = 16, hour = 9, minute = 0\<rparr> small_bulletin info_small = Inr info_small \<and>
   zones (grab_twc_full config_template [] \<lparr>year = 2012, month = 4, day = 16, hour = 9, minute = 0\<rparr> small_bulletin) =
     zones (grab_twc (zone_order config_template) small_bulletin) \<and>
   issues (grab_twc_full config_template [] \<lparr>year = 2012, month = 4, day = 16, hour = 9, minute = 0\<rparr> small_bulletin) =
     issues (grab_twc (zone_order config_template) small_bulletin) \<and>
   extra (grab_twc_full config_template [] \<lparr>year = 2012, month = 4, day = 16, hour = 9, minute = 0\<rparr> small_bulletin) =
     extra (grab_twc (zone_order config_template) small_bulletin)"
proof -
  have a: "parse_segments_full (zone_order config_template) [] (arrival_localname config_template) small_bulletin =
             Inr (info_small, False)" by code_simp
  have b: "eq_stage config_template \<lparr>year = 2012, month = 4, day = 16, hour = 9, minute = 0\<rparr> small_bulletin info_small =
             Inr info_small" by code_simp
  show ?thesis using grab_twc_full_refines [OF a b] a b by simp
qed


end
