(* ===== verification/Atcf.thy ===== *)
theory Atcf
  imports Daylight "HOL-Library.AList"
begin

text \<open>
  The ATCF post-processing script \<open>ProcessAtcfFiles.py\<close> (EDEX plugin
  \<open>atcf\<close>, \<open>wcoss/scripts\<close>). For one storm and one date-time group
  \<open>processATCF\<close> (lines 79-268) unpacks a tar ball into a temporary
  directory, edits the model a-decks there (\<open>deleteLinesFromFile\<close>,
  \<open>concatFiles\<close>, \<open>extractLinesFromFile\<close>), merges decks into the
  database (\<open>mergeFileToDB\<close>), moves files to the storm and aid-message
  directories (\<open>moveFile\<close>), runs the interpolator, writes the deck files
  back out, hands them to LDM and removes the temporary directory.

  The file system is an explicit store: an association list from paths to
  file contents, a list of directories, and the log of the calls the script
  makes into Java and the shell (the database merge, the interpolator, the
  deck writer, \<open>pushToLdm.sh\<close>). Each operation is a function from the store
  to a result (\<open>Inl\<close> the Python exception) and the store it leaves, so a
  failure keeps the effects made before it, as the script does. Files are
  text read in lines that end in a newline, as Python's file iterator yields
  them (the decks are Unix text, with no carriage returns).
\<close>

subsection \<open>Exceptions, the store and its monad\<close>

datatype atcf_error = DtgValueError | IOError | NameError | ReadError

datatype atcf_event =
    MergeDeck string string
  | Interpolate string
  | SendToLdm string string string

record atcf_fs =
  files :: "(string \<times> string) list"
  dirs :: "string list"
  events :: "atcf_event list"

type_synonym 'a atcf = "atcf_fs \<Rightarrow> (atcf_error + 'a) \<times> atcf_fs"

definition areturn :: "'a \<Rightarrow> 'a atcf" where
  "areturn a s = (Inr a, s)"

definition araise :: "atcf_error \<Rightarrow> 'a atcf" where
  "araise e s = (Inl e, s)"

definition abind :: "'a atcf \<Rightarrow> ('a \<Rightarrow> 'b atcf) \<Rightarrow> 'b atcf" where
  "abind m f s = (case m s of (Inl e, s') \<Rightarrow> (Inl e, s') | (Inr a, s') \<Rightarrow> f a s')"

text \<open>\<open>try: m except: h\<close>, and a step that looks at the store first.\<close>

definition acatch :: "'a atcf \<Rightarrow> (atcf_error \<Rightarrow> 'a atcf) \<Rightarrow> 'a atcf" where
  "acatch m h s = (case m s of (Inl e, s') \<Rightarrow> h e s' | r \<Rightarrow> r)"

definition aget :: "(atcf_fs \<Rightarrow> 'a atcf) \<Rightarrow> 'a atcf" where
  "aget f s = f s s"

fun aseq :: "unit atcf list \<Rightarrow> unit atcf" where
  "aseq [] = areturn ()"
| "aseq (m # ms) = abind m (\<lambda>_. aseq ms)"

subsection \<open>Paths: \<open>posixpath.join\<close>, \<open>basename\<close>, \<open>dirname\<close>\<close>

definition posix_join :: "string \<Rightarrow> string \<Rightarrow> string" where
  "posix_join a b =
     (if starts_with ''/'' b then b else if a = [] \<or> last a = CHR ''/'' then a @ b else a @ ''/'' @ b)"

definition basename :: "string \<Rightarrow> string" where
  "basename p = rev (takeWhile (\<lambda>c. c \<noteq> CHR ''/'') (rev p))"

definition dirname :: "string \<Rightarrow> string" where
  "dirname p =
     (let h = rev (dropWhile (\<lambda>c. c \<noteq> CHR ''/'') (rev p))
      in if h \<noteq> [] \<and> (\<exists>c \<in> set h. c \<noteq> CHR ''/'') then rev (dropWhile (\<lambda>c. c = CHR ''/'') (rev h)) else h)"

text \<open>A path below directory \<open>d\<close>, the part of the store \<open>rmtree(d)\<close> removes.\<close>

definition under :: "string \<Rightarrow> string \<Rightarrow> bool" where
  "under d p \<longleftrightarrow> starts_with (d @ ''/'') p"

subsection \<open>The file operations of \<open>os\<close>, \<open>shutil\<close> and \<open>open\<close>\<close>

definition is_file :: "atcf_fs \<Rightarrow> string \<Rightarrow> bool" where
  "is_file s p \<longleftrightarrow> map_of (files s) p \<noteq> None"

definition is_dir :: "atcf_fs \<Rightarrow> string \<Rightarrow> bool" where
  "is_dir s p \<longleftrightarrow> p \<in> set (dirs s)"

definition parent_ok :: "atcf_fs \<Rightarrow> string \<Rightarrow> bool" where
  "parent_ok s p \<longleftrightarrow> dirname p = [] \<or> is_dir s (dirname p)"

text \<open>\<open>open(p).read()\<close>: a missing file raises \<open>FileNotFoundError\<close>, an \<open>IOError\<close>.\<close>

definition read_file :: "string \<Rightarrow> string atcf" where
  "read_file p s = (case map_of (files s) p of None \<Rightarrow> (Inl IOError, s) | Some c \<Rightarrow> (Inr c, s))"

text \<open>\<open>open(p, 'w').writelines(...)\<close>: the directory must exist and \<open>p\<close> must
  not be one.\<close>

definition write_file :: "string \<Rightarrow> string \<Rightarrow> unit atcf" where
  "write_file p c s =
     (if parent_ok s p \<and> \<not> is_dir s p then (Inr (), s\<lparr>files := AList.update p c (files s)\<rparr>)
      else (Inl IOError, s))"

text \<open>\<open>os.rename\<close> and \<open>shutil.move\<close>; \<open>None\<close> is the \<open>OSError\<close> they raise.
  \<open>shutil.move\<close> into an existing directory moves the file inside it and
  refuses to overwrite there.\<close>

definition os_rename :: "string \<Rightarrow> string \<Rightarrow> atcf_fs \<Rightarrow> atcf_fs option" where
  "os_rename src dst s =
     (case map_of (files s) src of
        None \<Rightarrow> None
      | Some c \<Rightarrow> if is_dir s dst \<or> \<not> parent_ok s dst then None
                  else Some (s\<lparr>files := AList.update dst c (AList.delete src (files s))\<rparr>))"

definition shutil_move :: "string \<Rightarrow> string \<Rightarrow> atcf_fs \<Rightarrow> atcf_fs option" where
  "shutil_move src dst s =
     (if is_dir s dst then
        (let real = posix_join dst (basename src)
         in if is_file s real \<or> is_dir s real then None else os_rename src real s)
      else os_rename src dst s)"

definition os_mkdir :: "string \<Rightarrow> unit atcf" where
  "os_mkdir p s =
     (if is_dir s p \<or> is_file s p \<or> \<not> parent_ok s p then (Inl IOError, s)
      else (Inr (), s\<lparr>dirs := dirs s @ [p]\<rparr>))"

text \<open>\<open>glob.glob(d + '/' + pre + '*')\<close>: the entries of \<open>d\<close> whose name starts
  with \<open>pre\<close>, in the order of the store (\<open>os.scandir\<close> order is unspecified).\<close>

definition glob_prefix :: "atcf_fs \<Rightarrow> string \<Rightarrow> string \<Rightarrow> string list" where
  "glob_prefix s d pre = [p \<leftarrow> map fst (files s) @ dirs s. dirname p = d \<and> starts_with pre (basename p)]"

definition rmtree :: "string \<Rightarrow> unit atcf" where
  "rmtree d s =
     (if is_dir s d then
        (Inr (), s\<lparr>files := filter (\<lambda>(p, _). \<not> under d p) (files s),
                  dirs := filter (\<lambda>q. q \<noteq> d \<and> \<not> under d q) (dirs s)\<rparr>)
      else (Inl IOError, s))"

subsection \<open>Lines and the two regular expressions\<close>

text \<open>Python's iteration over a text file: lines that keep their newline.\<close>

fun file_lines_aux :: "string \<Rightarrow> string \<Rightarrow> string list" where
  "file_lines_aux acc [] = (if acc = [] then [] else [acc])"
| "file_lines_aux acc (c # s) =
     (if c = NL then (acc @ [c]) # file_lines_aux [] s else file_lines_aux (acc @ [c]) s)"

definition file_lines :: "string \<Rightarrow> string list" where
  "file_lines s = file_lines_aux [] s"

text \<open>The two patterns are sequences of character classes, each taken once
  (\<open>One\<close>) or any number of times (\<open>Many\<close>, the regex \<open>*\<close>); \<open>re.search\<close>
  tries every start position and, for a \<open>*\<close>, every length of the run.\<close>

datatype rx_item = One string | Many string

primrec rx_here :: "rx_item list \<Rightarrow> string \<Rightarrow> bool" where
  "rx_here [] s = True"
| "rx_here (i # r) s =
     (case i of
        One cs \<Rightarrow> (case s of [] \<Rightarrow> False | c # t \<Rightarrow> c \<in> set cs \<and> rx_here r t)
      | Many cs \<Rightarrow> list_ex (\<lambda>k. rx_here r (drop k s)) [0..<Suc (length (takeWhile (\<lambda>c. c \<in> set cs) s))])"

definition re_search :: "rx_item list \<Rightarrow> string \<Rightarrow> bool" where
  "re_search p s \<longleftrightarrow> list_ex (\<lambda>i. rx_here p (drop i s)) [0..<Suc (length s)]"

definition dgt :: string where
  "dgt = ''0123456789''"

text \<open>\<open>'[NCF][PC][0-9][0-9],'\<close> and \<open>', *HWRF, *[1-9]*[13579],'\<close>.\<close>

definition ncep_rx :: "rx_item list" where
  "ncep_rx = [One ''NCF'', One ''PC'', One dgt, One dgt, One '','']"

definition hwrf_rx :: "rx_item list" where
  "hwrf_rx = [One '','', Many '' '', One ''H'', One ''W'', One ''R'', One ''F'', One '','', Many '' '',
              Many ''123456789'', One ''13579'', One '','']"

subsection \<open>\<open>datetime.strptime(dtg, '%Y%m%d%H')\<close> and \<open>strftime\<close>\<close>

text \<open>CPython's \<open>_strptime\<close> compiles the format to the regular expression
  \<open>([0-9]{4})(1[0-2]|0[1-9]|[1-9])(3[01]|[12][0-9]|0[1-9]|[1-9]| [1-9])(2[0-3]|[01][0-9]|[0-9])\<close>
  and takes its first match in backtracking order; a match that does not
  reach the end is \<open>ValueError('unconverted data remains')\<close>, and an impossible
  date is rejected by \<open>datetime_date(year, month, day)\<close>. Each directive is a
  list of alternatives, each alternative a list of character classes.\<close>

fun cls_match :: "string list \<Rightarrow> string \<Rightarrow> (string \<times> string) option" where
  "cls_match [] s = Some ([], s)"
| "cls_match (c # cs) [] = None"
| "cls_match (c # cs) (x # s) =
     (if x \<in> set c then map_option (\<lambda>(m, r). (x # m, r)) (cls_match cs s) else None)"

definition directive :: "string list list \<Rightarrow> string \<Rightarrow> (nat \<times> string) list" where
  "directive alts s =
     List.map_filter (\<lambda>a. map_option (\<lambda>(m, r). (digits_val (filter is_digit m), r)) (cls_match a s)) alts"

definition re_Y :: "string list list" where
  "re_Y = [[dgt, dgt, dgt, dgt]]"

definition re_m :: "string list list" where
  "re_m = [[''1'', ''012''], [''0'', ''123456789''], [''123456789'']]"

definition re_d :: "string list list" where
  "re_d = [[''3'', ''01''], [''12'', dgt], [''0'', ''123456789''], [''123456789''], ['' '', ''123456789'']]"

definition re_H :: "string list list" where
  "re_H = [[''2'', ''0123''], [''01'', dgt], [dgt]]"

definition ymdh_matches :: "string \<Rightarrow> (nat \<times> nat \<times> nat \<times> nat \<times> string) list" where
  "ymdh_matches s =
     concat (map (\<lambda>(y, r1). concat (map (\<lambda>(m, r2). concat (map (\<lambda>(d, r3).
       map (\<lambda>(h, r4). (y, m, d, h, r4)) (directive re_H r3)) (directive re_d r2))) (directive re_m r1)))
       (directive re_Y s))"

definition strptime_ymdh :: "string \<Rightarrow> datetime option" where
  "strptime_ymdh s =
     (case ymdh_matches s of
        [] \<Rightarrow> None
      | (y, m, d, h, r) # _ \<Rightarrow>
          if r = [] \<and> 1 \<le> y \<and> d \<le> days_in_month y m
          then Some \<lparr>year = y, month = m, day = d, hour = h, minute = 0\<rparr> else None)"

text \<open>\<open>dt.strftime('%Y%m%d%H')\<close>; glibc writes the year without padding.\<close>

definition dtg_str :: "datetime \<Rightarrow> string" where
  "dtg_str dt =
     nat_str (year dt) @ py_zfill 2 (nat_str (month dt)) @ py_zfill 2 (nat_str (day dt)) @
     py_zfill 2 (nat_str (hour dt))"

subsection \<open>The storm, the environment and the file names\<close>

record storm =
  storm_id :: string
  storm_year :: nat
  cyclone_num :: nat
  region :: string

record atcf_env =
  atcfstrms :: string
  aid_messages :: string

text \<open>What the script receives from outside: the members of the tar ball
  (\<open>None\<close> when \<open>tarfile.open\<close> raises \<open>ReadError\<close>), whether the interpolator
  request succeeds, the deck types of \<open>AtcfDeckType.values()\<close> in lower case,
  the text the deck writer produces, and the \<open>pushToLdm.sh\<close> that
  \<open>pm.getStaticFile\<close> finds at SITE and at BASE level.\<close>

record atcf_ext =
  tarball :: "(string \<times> string) list option"
  interp_ok :: bool
  deck_types :: "string list"
  deck_text :: "string \<Rightarrow> string"
  site_script :: "string option"
  base_script :: "string option"

definition lower_char :: "char \<Rightarrow> char" where
  "lower_char c = (let n = (of_char c :: nat) in if 65 \<le> n \<and> n \<le> 90 then char_of (n + 32) else c)"

definition py_lower :: "string \<Rightarrow> string" where
  "py_lower s = map lower_char s"

definition wcoss_files :: "string \<Rightarrow> string \<Rightarrow> string \<Rightarrow> string \<Rightarrow> (string \<times> string) list" where
  "wcoss_files fullPath rootDir ships_prefix strmid =
     [(''a_temp'', fullPath @ ''.temp''), (''a_supp'', fullPath @ ''.supp''),
      (''a_ncep'', fullPath @ ''.ncep''), (''a_hwrf'', fullPath @ ''.hwrf''),
      (''a_hwrfm2'', fullPath @ ''.hwrfm2''), (''a_hmon'', fullPath @ ''.hmon''),
      (''a_hmonm2'', fullPath @ ''.hmonm2''),
      (''lsdiag'', rootDir @ ships_prefix @ ''_lsdiag.dat''),
      (''ships'', rootDir @ ships_prefix @ ''ships.txt''),
      (''ec_ships'', rootDir @ ''EC_'' @ ships_prefix @ ''_ships.txt''),
      (''tcvitals'', rootDir @ strmid @ ''-tcvitals.dat''),
      (''tcv_arch'', rootDir @ strmid @ ''-tcvitals-arch.dat'')]"

definition opah_files ::
  "string \<Rightarrow> string \<Rightarrow> string \<Rightarrow> string \<Rightarrow> string \<Rightarrow> string \<Rightarrow> (string \<times> string) list" where
  "opah_files fullPath rootDir strmid full_dtg full_dtgm1 full_dtgm2 =
     [(''a_ukmogens'', fullPath @ ''.ukmogens''), (''a_fsu'', fullPath @ ''.fsu''),
      (''a_jma_m1'', fullPath @ ''_'' @ full_dtgm1 @ ''.jma.dat''),
      (''a_jma'', fullPath @ ''_'' @ full_dtg @ ''.jma.dat''),
      (''a_ctcx'', rootDir @ strmid @ ''_'' @ full_dtg @ ''.ctcx.dat''),
      (''a_ctcx_m1'', rootDir @ strmid @ ''_'' @ full_dtgm1 @ ''.ctcx.dat''),
      (''a_ctcx_m2'', rootDir @ strmid @ ''_'' @ full_dtgm2 @ ''.ctcx.dat''),
      (''a_fnmoc'', fullPath @ ''.fnmoc'')]"

subsection \<open>The helper functions of the script\<close>

text \<open>\<open>deleteLinesFromFile(fileName, strings)\<close> (lines 311-327). The outer
  loop runs over the patterns and the inner loop over the open file, so the
  first pattern exhausts the file iterator and later patterns see no lines.\<close>

fun del_items :: "rx_item list list \<Rightarrow> string list \<Rightarrow> string list \<Rightarrow> string list" where
  "del_items [] rest keep = keep"
| "del_items (p # ps) rest keep = del_items ps [] (keep @ filter (\<lambda>l. \<not> re_search p l) rest)"

definition delete_lines_from_file :: "string \<Rightarrow> rx_item list list \<Rightarrow> unit atcf" where
  "delete_lines_from_file fn pats =
     abind (read_file fn) (\<lambda>c. write_file fn (concat (del_items pats (file_lines c) [])))"

text \<open>\<open>extractLinesFromFile(inputFile, outputFile, strings)\<close> (lines 335-352):
  the lines that contain one of the strings.\<close>

definition extract_lines_from_file :: "string \<Rightarrow> string \<Rightarrow> string list \<Rightarrow> unit atcf" where
  "extract_lines_from_file inp out strs =
     abind (read_file inp)
       (\<lambda>c. write_file out (concat (filter (\<lambda>l. list_ex (\<lambda>it. str_in it l) strs) (file_lines c))))"

text \<open>\<open>concatFiles(filenames, outfile)\<close> (lines 357-365): every file is read
  before the output is opened, so the output may be one of the inputs.\<close>

fun read_lines_all :: "string list \<Rightarrow> string list atcf" where
  "read_lines_all [] = areturn []"
| "read_lines_all (f # fs) =
     abind (read_file f) (\<lambda>c. abind (read_lines_all fs) (\<lambda>r. areturn (file_lines c @ r)))"

definition concat_files :: "string list \<Rightarrow> string \<Rightarrow> unit atcf" where
  "concat_files fns out = abind (read_lines_all fns) (\<lambda>ls. write_file out (concat ls))"

text \<open>\<open>mergeFileToDB(deckFile, storm)\<close> (lines 291-305): a missing file is
  only logged.\<close>

definition merge_file_to_db :: "string \<Rightarrow> unit atcf" where
  "merge_file_to_db f s =
     (case map_of (files s) f of
        None \<Rightarrow> (Inr (), s)
      | Some c \<Rightarrow> (Inr (), s\<lparr>events := events s @ [MergeDeck f c]\<rparr>))"

text \<open>\<open>moveFile(sourceFile, dest)\<close> (lines 418-431). The comment says
  \<open>dest\<close> is a directory or a full path with file name, but the move happens
  only when \<open>os.path.isdir(dest)\<close>; an error of \<open>shutil.move\<close> is logged.\<close>

definition move_file :: "string \<Rightarrow> string \<Rightarrow> unit atcf" where
  "move_file src dest s =
     (let dest_full = (if is_dir s dest then posix_join dest (basename src) else dest)
      in if is_file s src \<and> is_dir s dest
         then (Inr (), case shutil_move src dest_full s of None \<Rightarrow> s | Some s' \<Rightarrow> s')
         else (Inr (), s))"

text \<open>\<open>extractFiles(input_tar, tempDir)\<close> (lines 275-286): the members, whose
  names are relative file names, are written into \<open>tempDir\<close>, which
  \<open>extractall\<close> creates when it is missing; it fails when \<open>tempDir\<close> is a
  file or a member would overwrite a directory.\<close>

definition extract_files :: "(string \<times> string) list option \<Rightarrow> string \<Rightarrow> unit atcf" where
  "extract_files tar tmp s =
     (case tar of
        None \<Rightarrow> (Inl ReadError, s)
      | Some ms \<Rightarrow>
          if is_file s tmp then (Inl IOError, s)
          else (let s1 = (if is_dir s tmp then s else s\<lparr>dirs := dirs s @ [tmp]\<rparr>)
                in if list_ex (\<lambda>(n, c). is_dir s1 (posix_join tmp n)) ms then (Inl IOError, s1)
                   else (Inr (), s1\<lparr>files := foldl (\<lambda>fs (n, c). AList.update (posix_join tmp n) c fs) (files s1) ms\<rparr>)))"

text \<open>\<open>interpolateADeck(storm, dtg)\<close> (lines 439-457): a failed request is
  re-raised as \<open>RuntimeException\<close>, a name the script never imports, so the
  \<open>raise\<close> itself fails with \<open>NameError\<close>.\<close>

definition interpolate_adeck :: "bool \<Rightarrow> string \<Rightarrow> unit atcf" where
  "interpolate_adeck ok dtg s =
     (let s' = s\<lparr>events := events s @ [Interpolate dtg]\<rparr> in if ok then (Inr (), s') else (Inl NameError, s'))"

text \<open>\<open>createDeckFiles(storm, outputDir)\<close> (lines 372-391): one file per deck
  type, \<open>T\<close> named \<open>.fst\<close>, then \<open>storms.txt\<close>; the text comes from the
  database.\<close>

definition deck_file_name :: "string \<Rightarrow> string \<Rightarrow> string \<Rightarrow> string" where
  "deck_file_name outdir strmid t =
     (if t = ''t'' then outdir @ ''/'' @ strmid @ ''.fst'' else outdir @ ''/'' @ t @ strmid @ ''.dat'')"

definition create_deck_files :: "string list \<Rightarrow> (string \<Rightarrow> string) \<Rightarrow> string \<Rightarrow> string \<Rightarrow> unit atcf" where
  "create_deck_files types txt strmid outdir =
     aseq (map (\<lambda>t. write_file (deck_file_name outdir strmid t) (txt t)) types @
           [write_file (outdir @ ''/storms.txt'') (txt ''storms'')])"

text \<open>\<open>sendToLdm(strmid, fileDir)\<close> (lines 401-413): the loop over the
  localization contexts \<open>[SITE, BASE]\<close> keeps the script of the last one;
  \<open>str(None)\<close> is \<open>'None'\<close>. A failing status is only logged.\<close>

definition send_to_ldm :: "string option \<Rightarrow> string option \<Rightarrow> string \<Rightarrow> string \<Rightarrow> unit atcf" where
  "send_to_ldm site base strmid dir s =
     (let script = foldl (\<lambda>_ p. case p of None \<Rightarrow> ''None'' | Some q \<Rightarrow> q) ''None'' [site, base]
      in (Inr (), s\<lparr>events := events s @ [SendToLdm script strmid dir]\<rparr>))"

subsection \<open>\<open>processATCF\<close>\<close>

text \<open>\<open>processATCF(input_tar, tempDir, storm, dtg, envCfg)\<close> (lines 79-268),
  step by step. The two \<open>except IOException\<close> clauses (lines 151, 163) and
  the one around the mogreps extraction (line 177) name a class that is
  never imported: when the guarded call raises, evaluating the clause raises
  \<open>NameError\<close>, so \<open>mergeMogreps = False\<close> and the \<open>.emx\<close> error log are never
  reached.\<close>

definition name_error_on_raise :: "'a atcf \<Rightarrow> 'a atcf" where
  "name_error_on_raise m = acatch m (\<lambda>_. araise NameError)"

text \<open>Lines 231-234: every \<open>US058MCUS*\<close> file of the temporary directory is
  merged and, when the aid-message directory exists, moved there.\<close>

definition merge_fnmoc_files :: "string \<Rightarrow> string \<Rightarrow> unit atcf" where
  "merge_fnmoc_files tmp aidsDest =
     aget (\<lambda>s0. aseq (map (\<lambda>f. abind (merge_file_to_db f) (\<lambda>_.
                             aget (\<lambda>s. if is_dir s aidsDest then move_file f aidsDest else areturn ())))
                        (glob_prefix s0 tmp ''US058MCUS'')))"

definition atcf_after_extract ::
  "atcf_env \<Rightarrow> storm \<Rightarrow> string \<Rightarrow> string \<Rightarrow> atcf_ext \<Rightarrow> datetime \<Rightarrow> unit atcf" where
  "atcf_after_extract env st dtg tmp ext dt =
     (let strmid = py_lower (storm_id st);
          shortdtg = take 8 (drop 2 dtg);
          full_dtg = dtg_str dt;
          full_dtgm1 = dtg_str (shift_minutes dt (-360));
          full_dtgm2 = dtg_str (shift_minutes dt (-720));
          year2 = take 2 (drop 2 (nat_str (storm_year st)));
          ships_prefix = shortdtg @ region st @ nat_str (cyclone_num st) @ year2;
          rootDir = tmp @ ''/'';
          fullPath = rootDir @ ''a'' @ strmid;
          wf = (\<lambda>k. the (map_of (wcoss_files fullPath rootDir ships_prefix strmid) k));
          opf = (\<lambda>k. the (map_of (opah_files fullPath rootDir strmid full_dtg full_dtgm1 full_dtgm2) k));
          ncep_files = [wf ''a_ncep'', wf ''a_hwrf'', wf ''a_hwrfm2'', wf ''a_hmon'', wf ''a_hmonm2''];
          emx_file = rootDir @ ''a'' @ strmid @ ''.emx'';
          mogreps_file = rootDir @ ''a'' @ strmid @ ''.mogreps'';
          basinPlusCycNum = region st @ '', '' @ nat_str (cyclone_num st);
          strmDest = atcfstrms env;
          aidsDest = aid_messages env @ ''/'' @ nat_str (storm_year st)
      in abind (delete_lines_from_file (wf ''a_ncep'') [ncep_rx]) (\<lambda>_.
         abind (delete_lines_from_file (wf ''a_hwrf'') [hwrf_rx]) (\<lambda>_.
         abind (name_error_on_raise (concat_files ncep_files (wf ''a_ncep''))) (\<lambda>_.
         abind (name_error_on_raise (extract_lines_from_file (wf ''a_ncep'') emx_file [''EMX''])) (\<lambda>_.
         abind (name_error_on_raise
                  (abind (extract_lines_from_file (opf ''a_ukmogens'') mogreps_file [basinPlusCycNum])
                     (\<lambda>_. areturn True))) (\<lambda>mergeMogreps.
         abind (aseq (map merge_file_to_db [wf ''a_temp'', wf ''a_supp'', wf ''a_ncep''] @
                      (if mergeMogreps then [merge_file_to_db mogreps_file] else []) @
                      map merge_file_to_db [opf ''a_fsu'', opf ''a_jma'', opf ''a_jma_m1'', opf ''a_ctcx'',
                                            opf ''a_ctcx_m1'', opf ''a_ctcx_m2''] @
                      map (\<lambda>f. move_file f strmDest)
                        [emx_file, wf ''lsdiag'', wf ''ships'', wf ''tcvitals'', wf ''tcv_arch''])) (\<lambda>_.
         abind (aget (\<lambda>s. if is_dir s aidsDest then areturn () else os_mkdir aidsDest)) (\<lambda>_.
         abind (merge_fnmoc_files tmp aidsDest) (\<lambda>_.
         abind (aget (\<lambda>s. if is_dir s aidsDest then
                  aseq (map (\<lambda>f. move_file f aidsDest)
                          [mogreps_file, opf ''a_jma'', opf ''a_jma_m1'', opf ''a_ctcx'', opf ''a_ctcx_m1'', opf ''a_ctcx_m2''] @
                        [move_file (wf ''a_temp'') (aidsDest @ ''/a'' @ strmid @ ''.nhc.'' @ full_dtg),
                         move_file (wf ''a_supp'') (aidsDest @ ''/a'' @ strmid @ ''.nhc-supp.'' @ full_dtg),
                         move_file (wf ''a_ncep'') aidsDest])
                else areturn ())) (\<lambda>_.
         abind (interpolate_adeck (interp_ok ext) dtg) (\<lambda>_.
         abind (create_deck_files (deck_types ext) (deck_text ext) strmid tmp) (\<lambda>_.
         abind (send_to_ldm (site_script ext) (base_script ext) strmid tmp) (\<lambda>_.
         rmtree tmp)))))))))))))"

definition process_atcf :: "atcf_env \<Rightarrow> storm \<Rightarrow> string \<Rightarrow> string \<Rightarrow> atcf_ext \<Rightarrow> unit atcf" where
  "process_atcf env st dtg tmp ext =
     (case strptime_ymdh dtg of
        None \<Rightarrow> araise DtgValueError
      | Some dt \<Rightarrow> abind (extract_files (tarball ext) tmp) (\<lambda>_. atcf_after_extract env st dtg tmp ext dt))"

subsection \<open>Proof vocabulary: what a step may change\<close>

named_theorems atcf_step "the steps of processATCF satisfy a reflexive and transitive relation on stores"

definition holds :: "(atcf_fs \<Rightarrow> atcf_fs \<Rightarrow> bool) \<Rightarrow> 'a atcf \<Rightarrow> bool" where
  "holds R m \<longleftrightarrow> (\<forall>s. R s (snd (m s)))"

definition refl_trans :: "(atcf_fs \<Rightarrow> atcf_fs \<Rightarrow> bool) \<Rightarrow> bool" where
  "refl_trans R \<longleftrightarrow> (\<forall>s. R s s) \<and> (\<forall>s1 s2 s3. R s1 s2 \<longrightarrow> R s2 s3 \<longrightarrow> R s1 s3)"

definition frame_rel :: "(string \<Rightarrow> bool) \<Rightarrow> atcf_fs \<Rightarrow> atcf_fs \<Rightarrow> bool" where
  "frame_rel P s s' \<longleftrightarrow> (\<forall>p. \<not> P p \<longrightarrow> map_of (files s') p = map_of (files s) p)"

text \<open>A run changes only paths below the temporary directory or directly in
  it, and paths whose file name ends in a non-digit or starts with
  \<open>US058MCUS\<close>: the names of the files it moves.\<close>

definition may_write :: "string \<Rightarrow> string \<Rightarrow> bool" where
  "may_write tmp q \<longleftrightarrow> under tmp q \<or> dirname q = tmp \<or> basename q = [] \<or>
                        \<not> is_digit (last (basename q)) \<or> starts_with ''US058MCUS'' (basename q)"

named_theorems atcf_inv "the steps of processATCF keep the store well formed"

definition fs_ok :: "atcf_fs \<Rightarrow> bool" where
  "fs_ok s \<longleftrightarrow> distinct (map fst (files s)) \<and> (\<forall>p \<in> set (map fst (files s)). \<not> is_dir s p)"

definition inv_rel :: "atcf_fs \<Rightarrow> atcf_fs \<Rightarrow> bool" where
  "inv_rel s s' \<longleftrightarrow> (fs_ok s \<longrightarrow> fs_ok s')"

subsection \<open>An example run\<close>

text \<open>Storm AL092020 at 2020-08-26 00 UTC, with a tar ball holding the
  a-decks the script edits; the example without the \<open>.hwrfm2\<close> deck is
  the run in which \<open>concatFiles\<close> fails.\<close>

definition atcf_example_storm :: storm where
  "atcf_example_storm = \<lparr>storm_id = ''AL092020'', storm_year = 2020, cyclone_num = 9, region = ''AL''\<rparr>"

definition atcf_example_env :: atcf_env where
  "atcf_example_env = \<lparr>atcfstrms = ''/atcf/strms'', aid_messages = ''/atcf/aids''\<rparr>"

definition atcf_example_tar :: "(string \<times> string) list" where
  "atcf_example_tar =
     [(''aal092020.temp'', ''AL, 09, 2020082600, 03, OFCL, 0\<newline>''),
      (''aal092020.supp'', ''AL, 09, 2020082600, 03, OFCI, 0\<newline>''),
      (''aal092020.ncep'', ''AL, 09, 2020082600, 03, NP01, 0\<newline>AL, 09, 2020082600, 03, AVNO, 0\<newline>''),
      (''aal092020.hwrf'', ''AL, 09, 2020082600, 03, HWRF,   3\<newline>AL, 09, 2020082600, 03, HWRF,   6\<newline>''),
      (''aal092020.hwrfm2'', ''''), (''aal092020.hmon'', ''AL, 09, 2020082600, 03, EMX, 0\<newline>''),
      (''aal092020.hmonm2'', ''''), (''aal092020.ukmogens'', ''AL, 9, 2020082600, 03, UKM, 0\<newline>'')]"

definition atcf_example_ext :: atcf_ext where
  "atcf_example_ext =
     \<lparr>tarball = Some atcf_example_tar, interp_ok = True, deck_types = [''a'', ''b'', ''t''],
      deck_text = (\<lambda>t. t), site_script = Some ''/site/pushToLdm.sh'', base_script = Some ''/base/pushToLdm.sh''\<rparr>"

definition atcf_example_fs :: atcf_fs where
  "atcf_example_fs = \<lparr>files = [], dirs = [''/atcf'', ''/atcf/strms'', ''/atcf/aids'', ''/tmp''], events = []\<rparr>"

subsection \<open>The monad steps\<close>

lemma holds_return [atcf_step]: "refl_trans R \<Longrightarrow> holds R (areturn a)"
  by (simp add: holds_def refl_trans_def areturn_def)

lemma holds_raise [atcf_step]: "refl_trans R \<Longrightarrow> holds R (araise e)"
  by (simp add: holds_def refl_trans_def araise_def)

lemma holds_bind [atcf_step]:
  assumes "refl_trans R" "holds R m" "\<And>a. holds R (f a)"
  shows "holds R (abind m f)"
  unfolding holds_def
proof
  fix s
  show "R s (snd (abind m f s))"
  proof (cases "m s")
    case (Pair r s')
    then have "R s s'" using assms(2) unfolding holds_def by (metis snd_conv)
    then show ?thesis using Pair assms(1,3) unfolding holds_def refl_trans_def abind_def
      by (cases r) auto
  qed
qed

lemma holds_catch [atcf_step]:
  assumes "refl_trans R" "holds R m" "\<And>e. holds R (h e)"
  shows "holds R (acatch m h)"
  unfolding holds_def
proof
  fix s
  show "R s (snd (acatch m h s))"
  proof (cases "m s")
    case (Pair r s')
    then have "R s s'" using assms(2) unfolding holds_def by (metis snd_conv)
    then show ?thesis using Pair assms(1,3) unfolding holds_def refl_trans_def acatch_def
      by (cases r) auto
  qed
qed

lemma holds_get [atcf_step]: "(\<And>s0. holds R (f s0)) \<Longrightarrow> holds R (aget f)"
  by (simp add: holds_def aget_def)

lemma holds_if [atcf_step]: "holds R m1 \<Longrightarrow> holds R m2 \<Longrightarrow> holds R (if b then m1 else m2)"
  by simp

lemma holds_aseq [atcf_step]: "refl_trans R \<Longrightarrow> \<forall>m \<in> set ms. holds R m \<Longrightarrow> holds R (aseq ms)"
  by (induction ms) (auto intro: holds_bind holds_return)

lemma holds_name_error [atcf_step]: "refl_trans R \<Longrightarrow> holds R m \<Longrightarrow> holds R (name_error_on_raise m)"
  unfolding name_error_on_raise_def by (intro holds_catch holds_raise)

subsection \<open>Frame: the paths a step may change\<close>

lemma refl_trans_frame [simp]: "refl_trans (frame_rel P)"
  by (simp add: refl_trans_def frame_rel_def)

lemma frame_files_same: "(\<And>s. files (snd (m s)) = files s) \<Longrightarrow> holds (frame_rel P) m"
  by (simp add: holds_def frame_rel_def)

lemma frame_read_file [atcf_step]: "holds (frame_rel P) (read_file p)"
  by (rule frame_files_same) (simp add: read_file_def split: option.splits)

lemma frame_write_file [atcf_step]: "P p \<Longrightarrow> holds (frame_rel P) (write_file p c)"
  by (auto simp: holds_def frame_rel_def write_file_def update_conv')

lemma frame_delete_lines [atcf_step]: "P fn \<Longrightarrow> holds (frame_rel P) (delete_lines_from_file fn pats)"
  unfolding delete_lines_from_file_def by (intro atcf_step refl_trans_frame)

lemma frame_extract_lines [atcf_step]: "P out \<Longrightarrow> holds (frame_rel P) (extract_lines_from_file inp out strs)"
  unfolding extract_lines_from_file_def by (intro atcf_step refl_trans_frame)

lemma frame_read_lines_all [atcf_step]: "holds (frame_rel P) (read_lines_all fns)"
  by (induction fns) (simp_all add: atcf_step)

lemma frame_concat_files [atcf_step]: "P out \<Longrightarrow> holds (frame_rel P) (concat_files fns out)"
  unfolding concat_files_def by (intro atcf_step refl_trans_frame)

lemma frame_merge [atcf_step]: "holds (frame_rel P) (merge_file_to_db f)"
  by (rule frame_files_same) (simp add: merge_file_to_db_def split: option.splits)

lemma frame_interpolate [atcf_step]: "holds (frame_rel P) (interpolate_adeck ok dtg)"
  by (rule frame_files_same) (simp add: interpolate_adeck_def Let_def)

lemma frame_send [atcf_step]: "holds (frame_rel P) (send_to_ldm a b strmid d)"
  by (rule frame_files_same) (simp add: send_to_ldm_def Let_def)

lemma frame_mkdir [atcf_step]: "holds (frame_rel P) (os_mkdir p)"
  by (rule frame_files_same) (simp add: os_mkdir_def)

lemma map_of_filter_keep: "\<not> Q p \<Longrightarrow> map_of (filter (\<lambda>(q, _). \<not> Q q) al) p = map_of al p"
  by (induction al) auto

lemma frame_rmtree [atcf_step]: "(\<And>q. under d q \<Longrightarrow> P q) \<Longrightarrow> holds (frame_rel P) (rmtree d)"
  unfolding holds_def frame_rel_def rmtree_def
  using map_of_filter_keep [of "under d"] by auto

lemma frame_rename:
  "os_rename src dst s = Some s' \<Longrightarrow> p \<noteq> src \<Longrightarrow> p \<noteq> dst \<Longrightarrow>
   map_of (files s') p = map_of (files s) p"
  by (auto simp: os_rename_def update_conv' delete_conv' split: option.splits if_splits)

lemma frame_move_file:
  assumes "P src" "P (posix_join dest (basename src))"
    "P (posix_join (posix_join dest (basename src)) (basename src))"
  shows "holds (frame_rel P) (move_file src dest)"
  unfolding holds_def frame_rel_def
proof (intro allI impI)
  fix s p assume np: "\<not> P p"
  let ?d = "if is_dir s dest then posix_join dest (basename src) else dest"
  have ne: "p \<noteq> src" "p \<noteq> posix_join dest (basename src)"
    "p \<noteq> posix_join (posix_join dest (basename src)) (basename src)"
    using np assms by auto
  have sm: "shutil_move src (posix_join dest (basename src)) s = Some s' \<Longrightarrow>
            map_of (files s') p = map_of (files s) p" for s'
    using ne frame_rename [of src _ s s' p] by (auto simp: shutil_move_def Let_def split: if_splits)
  show "map_of (files (snd (move_file src dest s))) p = map_of (files s) p"
    using sm by (auto simp: move_file_def Let_def split: option.splits)
qed

lemma map_of_foldl_update_other:
  "\<forall>(n, c) \<in> set ms. f n \<noteq> p \<Longrightarrow>
   map_of (foldl (\<lambda>fs (n, c). AList.update (f n) c fs) al ms) p = map_of al p"
  by (induction ms arbitrary: al) (auto simp: update_conv')

lemma frame_extract_files [atcf_step]:
  "(\<And>ms n c. tar = Some ms \<Longrightarrow> (n, c) \<in> set ms \<Longrightarrow> P (posix_join tmp n)) \<Longrightarrow>
   holds (frame_rel P) (extract_files tar tmp)"
  unfolding holds_def frame_rel_def extract_files_def Let_def
  by (auto intro!: map_of_foldl_update_other split: option.splits)

lemma frame_create_decks [atcf_step]:
  "(\<And>t. P (deck_file_name outdir strmid t)) \<Longrightarrow> P (outdir @ ''/storms.txt'') \<Longrightarrow>
   holds (frame_rel P) (create_deck_files types txt strmid outdir)"
  unfolding create_deck_files_def by (intro atcf_step refl_trans_frame) (auto intro!: frame_write_file)

subsection \<open>Paths\<close>

lemma basename_no_slash: "CHR ''/'' \<notin> set y \<Longrightarrow> basename y = y"
  unfolding basename_def by (subst takeWhile_eq_all_conv [THEN iffD2]) auto

lemma basename_append_slash: "CHR ''/'' \<notin> set y \<Longrightarrow> basename (x @ ''/'' @ y) = y"
  unfolding basename_def by (simp, subst takeWhile_append2) auto

lemma slash_notin_basename: "CHR ''/'' \<notin> set (basename p)"
  unfolding basename_def by (auto dest: set_takeWhileD)

lemma basename_posix_join: "b \<noteq> [] \<Longrightarrow> CHR ''/'' \<notin> set b \<Longrightarrow> basename (posix_join d b) = b"
proof -
  assume b: "b \<noteq> []" "CHR ''/'' \<notin> set b"
  then have nb: "\<not> starts_with ''/'' b" by (cases b) auto
  show ?thesis
  proof (cases "d = []")
    case True then show ?thesis using b nb by (simp add: posix_join_def basename_no_slash)
  next
    case False
    then have d: "d = butlast d @ [last d]" by simp
    show ?thesis
    proof (cases "last d = CHR ''/''")
      case True
      have "d @ b = butlast d @ ''/'' @ b" using d True by (metis append_Cons append_assoc append_Nil)
      then have "posix_join d b = butlast d @ ''/'' @ b" using nb True by (simp add: posix_join_def)
      then show ?thesis using b basename_append_slash [of b "butlast d"] by simp
    next
      case False
      then show ?thesis using b nb \<open>d \<noteq> []\<close> basename_append_slash [of b d]
        by (simp add: posix_join_def)
    qed
  qed
qed

lemma basename_last: "p \<noteq> [] \<Longrightarrow> last p \<noteq> CHR ''/'' \<Longrightarrow> basename p \<noteq> [] \<and> last (basename p) = last p"
proof -
  assume p: "p \<noteq> []" "last p \<noteq> CHR ''/''"
  then obtain r where r: "rev p = last p # r" by (cases "rev p") (auto simp: hd_rev [symmetric])
  show ?thesis using p by (simp only: basename_def r) simp
qed

subsection \<open>What \<open>processATCF\<close> may change\<close>

lemma starts_with_append_Cons [simp]: "starts_with (p @ [c]) (p @ c # s)"
  by (simp add: starts_with_iff)

lemma may_write_under [simp]: "may_write tmp (tmp @ CHR ''/'' # x)"
  by (simp add: may_write_def under_def)

lemma may_write_of_under: "under tmp q \<Longrightarrow> may_write tmp q"
  by (simp add: may_write_def)

lemma may_write_join: "b \<noteq> [] \<Longrightarrow> CHR ''/'' \<notin> set b \<Longrightarrow> \<not> is_digit (last b) \<Longrightarrow> may_write tmp (posix_join d b)"
  by (simp add: may_write_def basename_posix_join)

lemma frame_move_named [atcf_step]:
  assumes "x \<noteq> []" "\<not> is_digit (last x)" "last x \<noteq> CHR ''/''"
  shows "holds (frame_rel (may_write tmp)) (move_file (tmp @ CHR ''/'' # x) dest)"
proof -
  let ?b = "basename (tmp @ CHR ''/'' # x)"
  have b: "?b \<noteq> []" "last ?b = last x" using basename_last [of "tmp @ CHR ''/'' # x"] assms by auto
  show ?thesis
    by (rule frame_move_file) (use b assms slash_notin_basename in \<open>auto intro!: may_write_join may_write_under\<close>)
qed

lemma frame_move_glob:
  assumes "p \<in> set (glob_prefix s tmp ''US058MCUS'')"
  shows "holds (frame_rel (may_write tmp)) (move_file p dest)"
proof -
  have g: "dirname p = tmp" "starts_with ''US058MCUS'' (basename p)" using assms by (auto simp: glob_prefix_def)
  then have "basename p \<noteq> []" by auto
  then show ?thesis using g slash_notin_basename
    by (intro frame_move_file) (auto simp: may_write_def basename_posix_join)
qed

lemma frame_fnmoc [atcf_step]: "holds (frame_rel (may_write tmp)) (merge_fnmoc_files tmp aidsDest)"
  unfolding merge_fnmoc_files_def
  by (intro holds_get holds_aseq refl_trans_frame ballI) (auto intro!: atcf_step frame_move_glob)

lemma frame_after_extract:
  "holds (frame_rel (may_write tmp)) (atcf_after_extract env st dtg tmp ext dt)"
  unfolding atcf_after_extract_def Let_def
  by (intro atcf_step refl_trans_frame ballI)
     (auto simp: wcoss_files_def opah_files_def deck_file_name_def is_digit_def
           intro!: atcf_step may_write_of_under)

lemma lower_char_slash: "lower_char c = CHR ''/'' \<longleftrightarrow> c = CHR ''/''"
proof
  assume h: "lower_char c = CHR ''/''"
  show "c = CHR ''/''"
  proof (cases "65 \<le> (of_char c :: nat) \<and> (of_char c :: nat) \<le> 90")
    case True
    then have "(of_char (char_of (of_char c + 32 :: nat)) :: nat) = of_char (CHR ''/'')"
      using h by (simp add: lower_char_def Let_def)
    then show ?thesis using True by (simp add: of_char_of)
  next
    case False
    then show ?thesis using h by (auto simp: lower_char_def Let_def split: if_splits)
  qed
qed (simp add: lower_char_def)

lemma slash_notin_py_lower: "CHR ''/'' \<notin> set s \<Longrightarrow> CHR ''/'' \<notin> set (py_lower s)"
proof
  assume "CHR ''/'' \<in> set (py_lower s)" "CHR ''/'' \<notin> set s"
  then obtain c where "c \<in> set s" "lower_char c = CHR ''/''" by (auto simp: py_lower_def)
  then show False using \<open>CHR ''/'' \<notin> set s\<close> lower_char_slash by auto
qed

lemma zfill_nat_str_digits: "\<forall>c \<in> set (py_zfill w (nat_str n)). is_digit c"
proof -
  have "is_digit (CHR ''0'')" by (simp add: is_digit_def)
  then show ?thesis using nat_str_digits [of n] by (auto simp: py_zfill_def in_set_replicate)
qed

lemma dtg_str_digits: "\<forall>c \<in> set (dtg_str dt). is_digit c"
  using nat_str_digits [of "year dt"] zfill_nat_str_digits [of 2 "month dt"]
        zfill_nat_str_digits [of 2 "day dt"] zfill_nat_str_digits [of 2 "hour dt"]
  unfolding dtg_str_def by (simp only: set_append ball_Un)

lemma dtg_str_nonempty: "dtg_str dt \<noteq> []"
  by (simp add: dtg_str_def nat_str_nonempty)

lemma frame_process_atcf:
  assumes "tmp \<noteq> []" "last tmp \<noteq> CHR ''/''"
    and "\<forall>ms. tarball ext = Some ms \<longrightarrow> (\<forall>(n, c) \<in> set ms. \<not> starts_with ''/'' n)"
  shows "holds (frame_rel (may_write tmp)) (process_atcf env st dtg tmp ext)"
proof -
  have j: "may_write tmp (posix_join tmp n)" if "\<not> starts_with ''/'' n" for n
  proof -
    have "posix_join tmp n = tmp @ CHR ''/'' # n" using that assms(1,2) by (simp add: posix_join_def)
    then show ?thesis by simp
  qed
  have e: "holds (frame_rel (may_write tmp)) (extract_files (tarball ext) tmp)"
    by (rule frame_extract_files) (use assms(3) j in fastforce)
  show ?thesis
    unfolding process_atcf_def
    by (auto split: option.splits intro!: holds_bind holds_raise e frame_after_extract)
qed

text \<open>C27. \<open>moveFile\<close> moves only into an existing directory, so the
  calls at lines 248-251, whose destination is a full file name, never move
  anything: whatever the store holds, a run of \<open>processATCF\<close> never writes
  the aid-message copy \<open>a<storm>.nhc.<dtg>\<close> of the \<open>.temp\<close> a-deck, which
  \<open>rmtree\<close> then deletes with the temporary directory.\<close>

theorem nhc_copy_never_written:
  assumes "strptime_ymdh dtg = Some dt"
    and "N = aid_messages env @ ''/'' @ nat_str (storm_year st) @ ''/a'' @ py_lower (storm_id st) @ ''.nhc.'' @ dtg_str dt"
    and "\<not> under tmp N" "dirname N \<noteq> tmp" "CHR ''/'' \<notin> set (storm_id st)"
    and "tmp \<noteq> []" "last tmp \<noteq> CHR ''/''"
    and "\<forall>ms. tarball ext = Some ms \<longrightarrow> (\<forall>(n, c) \<in> set ms. \<not> starts_with ''/'' n)"
  shows "map_of (files (snd (process_atcf env st dtg tmp ext s))) N = map_of (files s) N"
proof -
  let ?b = "''a'' @ py_lower (storm_id st) @ ''.nhc.'' @ dtg_str dt"
  have nb: "CHR ''/'' \<notin> set ?b"
    using slash_notin_py_lower [OF assms(5)] dtg_str_digits [of dt] by (auto simp: is_digit_def)
  have "N = (aid_messages env @ ''/'' @ nat_str (storm_year st)) @ ''/'' @ ?b" using assms(2) by simp
  then have bN: "basename N = ?b" by (simp only: basename_append_slash [OF nb])
  have "is_digit (last ?b)" using dtg_str_digits [of dt] dtg_str_nonempty [of dt] by simp
  then have "\<not> may_write tmp N" using assms(3,4) bN by (simp add: may_write_def)
  then show ?thesis
    using frame_process_atcf [OF assms(6-8), of env st dtg] unfolding holds_def frame_rel_def by blast
qed

subsection \<open>The store stays a file system\<close>

lemma refl_trans_inv [simp]: "refl_trans inv_rel"
  by (simp add: refl_trans_def inv_rel_def)

lemmas [atcf_inv] = holds_return holds_raise holds_bind holds_catch holds_get holds_if holds_aseq
  holds_name_error refl_trans_inv

lemma inv_same: "(\<And>s. files (snd (m s)) = files s \<and> dirs (snd (m s)) = dirs s) \<Longrightarrow> holds inv_rel m"
  by (simp add: holds_def inv_rel_def fs_ok_def is_dir_def)

lemma set_keys_update: "set (map fst (AList.update k v al)) = insert k (set (map fst al))"
  by (induction al) auto

lemma update_keys_notin:
  "\<forall>q \<in> set al. fst q \<notin> D \<Longrightarrow> p \<notin> D \<Longrightarrow> \<forall>q \<in> set (AList.update p c al). fst q \<notin> D"
  by (induction al) auto

lemma fs_ok_update: "fs_ok s \<Longrightarrow> \<not> is_dir s p \<Longrightarrow> fs_ok (s\<lparr>files := AList.update p c (files s)\<rparr>)"
  unfolding fs_ok_def is_dir_def
  using update_keys_notin [of "files s" "set (dirs s)" p c] by (simp add: distinct_update)

lemma inv_read_file [atcf_inv]: "holds inv_rel (read_file p)"
  by (rule inv_same) (simp add: read_file_def split: option.splits)

lemma inv_write_file [atcf_inv]: "holds inv_rel (write_file p c)"
  by (auto simp: holds_def inv_rel_def write_file_def fs_ok_update)

lemma inv_delete_lines [atcf_inv]: "holds inv_rel (delete_lines_from_file fn pats)"
  unfolding delete_lines_from_file_def by (intro atcf_inv)

lemma inv_extract_lines [atcf_inv]: "holds inv_rel (extract_lines_from_file inp out strs)"
  unfolding extract_lines_from_file_def by (intro atcf_inv)

lemma inv_read_lines_all [atcf_inv]: "holds inv_rel (read_lines_all fns)"
  by (induction fns) (simp_all add: atcf_inv)

lemma inv_concat_files [atcf_inv]: "holds inv_rel (concat_files fns out)"
  unfolding concat_files_def by (intro atcf_inv)

lemma inv_merge [atcf_inv]: "holds inv_rel (merge_file_to_db f)"
  by (rule inv_same) (simp add: merge_file_to_db_def split: option.splits)

lemma inv_interpolate [atcf_inv]: "holds inv_rel (interpolate_adeck ok dtg)"
  by (rule inv_same) (simp add: interpolate_adeck_def Let_def)

lemma inv_send [atcf_inv]: "holds inv_rel (send_to_ldm a b strmid d)"
  by (rule inv_same) (simp add: send_to_ldm_def Let_def)

lemma inv_mkdir [atcf_inv]: "holds inv_rel (os_mkdir p)"
  by (auto simp: holds_def inv_rel_def os_mkdir_def fs_ok_def is_dir_def is_file_def
                 map_of_eq_None_iff)

lemma inv_rmtree [atcf_inv]: "holds inv_rel (rmtree d)"
  by (auto simp: holds_def inv_rel_def rmtree_def fs_ok_def is_dir_def distinct_map_filter)

lemma fs_ok_rename: "fs_ok s \<Longrightarrow> os_rename src dst s = Some s' \<Longrightarrow> fs_ok s'"
proof -
  assume ok: "fs_ok s" and r: "os_rename src dst s = Some s'"
  then obtain c where "s' = s\<lparr>files := AList.update dst c (AList.delete src (files s))\<rparr>" "\<not> is_dir s dst"
    by (auto simp: os_rename_def split: option.splits if_splits)
  moreover have "fs_ok (s\<lparr>files := AList.delete src (files s)\<rparr>)"
    using ok by (auto simp: fs_ok_def is_dir_def delete_keys distinct_removeAll)
  ultimately show ?thesis using fs_ok_update [of "s\<lparr>files := AList.delete src (files s)\<rparr>" dst c]
    by (simp add: is_dir_def)
qed

lemma inv_move_file [atcf_inv]: "holds inv_rel (move_file src dest)"
  unfolding holds_def inv_rel_def
proof (intro allI impI)
  fix s assume ok: "fs_ok s"
  have "shutil_move src d s = Some s' \<Longrightarrow> fs_ok s'" for d s'
    using ok fs_ok_rename by (auto simp: shutil_move_def Let_def split: if_splits)
  then show "fs_ok (snd (move_file src dest s))"
    using ok by (auto simp: move_file_def Let_def split: option.splits)
qed

lemma fs_ok_foldl_update:
  "fs_ok s \<Longrightarrow> \<forall>(n, c) \<in> set ms. \<not> is_dir s (f n) \<Longrightarrow>
   fs_ok (s\<lparr>files := foldl (\<lambda>fs (n, c). AList.update (f n) c fs) (files s) ms\<rparr>)"
proof (induction ms arbitrary: s)
  case Nil then show ?case by simp
next
  case (Cons m ms)
  obtain n c where m: "m = (n, c)" by fastforce
  let ?s = "s\<lparr>files := AList.update (f n) c (files s)\<rparr>"
  have ok: "fs_ok ?s" using Cons.prems m by (simp add: fs_ok_update)
  have "\<forall>(n, c) \<in> set ms. \<not> is_dir ?s (f n)" using Cons.prems by (simp add: is_dir_def)
  from Cons.IH [OF ok this] show ?case using m by simp
qed

lemma inv_extract_files [atcf_inv]: "holds inv_rel (extract_files tar tmp)"
  unfolding holds_def inv_rel_def
proof (intro allI impI)
  fix s assume ok: "fs_ok s"
  define s1 where "s1 = (if is_dir s tmp then s else s\<lparr>dirs := dirs s @ [tmp]\<rparr>)"
  show "fs_ok (snd (extract_files tar tmp s))"
  proof (cases tar)
    case None then show ?thesis using ok by (simp add: extract_files_def)
  next
    case (Some ms)
    show ?thesis
    proof (cases "is_file s tmp")
      case True
      then show ?thesis using ok Some by (simp add: extract_files_def)
    next
      case nf: False
      then have ok1: "fs_ok s1"
        using ok by (auto simp: s1_def fs_ok_def is_dir_def is_file_def map_of_eq_None_iff)
      show ?thesis
      proof (cases "list_ex (\<lambda>(n, c). is_dir s1 (posix_join tmp n)) ms")
        case True
        then show ?thesis using ok1 nf Some by (simp add: extract_files_def Let_def s1_def)
      next
        case False
        then have "\<forall>(n, c) \<in> set ms. \<not> is_dir s1 (posix_join tmp n)" by (auto simp: list_ex_iff)
        from fs_ok_foldl_update [OF ok1 this]
        show ?thesis using False nf Some by (simp add: extract_files_def Let_def s1_def)
      qed
    qed
  qed
qed

lemma inv_create_decks [atcf_inv]: "holds inv_rel (create_deck_files types txt strmid outdir)"
  unfolding create_deck_files_def by (intro atcf_inv ballI) (auto intro: atcf_inv)

lemma inv_fnmoc [atcf_inv]: "holds inv_rel (merge_fnmoc_files tmp aidsDest)"
  unfolding merge_fnmoc_files_def by (intro atcf_inv ballI) (auto intro!: atcf_inv)


subsection \<open>\<open>strptime\<close> reads back what \<open>strftime\<close> writes\<close>

lemma directive_m:
  assumes "1 \<le> m" "m \<le> 12"
  shows "\<exists>xs. directive re_m (py_zfill 2 (nat_str m) @ r) = (m, r) # xs"
proof -
  have "m \<in> {1,2,3,4,5,6,7,8,9,10,11,12}" using assms by (simp add: atLeastAtMost_iff) presburger
  then show ?thesis by (elim insertE) (simp_all add: directive_def re_m_def map_filter_def pystr_eval)
qed

lemma directive_d:
  assumes "1 \<le> d" "d \<le> 31"
  shows "\<exists>xs. directive re_d (py_zfill 2 (nat_str d) @ r) = (d, r) # xs"
proof -
  have "d \<in> {1,2,3,4,5,6,7,8,9,10,11,12,13,14,15,16,17,18,19,20,21,22,23,24,25,26,27,28,29,30,31}"
    using assms by (simp add: atLeastAtMost_iff) presburger
  then show ?thesis by (elim insertE) (simp_all add: directive_def re_d_def map_filter_def pystr_eval dgt_def)
qed

lemma directive_H:
  assumes "h < 24"
  shows "\<exists>xs. directive re_H (py_zfill 2 (nat_str h) @ r) = (h, r) # xs"
proof -
  have "h \<in> {0,1,2,3,4,5,6,7,8,9,10,11,12,13,14,15,16,17,18,19,20,21,22,23}"
    using assms by (simp add: atLeastAtMost_iff) presburger
  then show ?thesis by (elim insertE) (simp_all add: directive_def re_H_def map_filter_def pystr_eval dgt_def)
qed

lemma length_nat_str_ge: "10 ^ k \<le> n \<Longrightarrow> k < length (nat_str n)"
proof (induction n arbitrary: k rule: nat_str.induct)
  case (1 n)
  show ?case
  proof (cases k)
    case 0 then show ?thesis using nat_str_nonempty [of n] by simp
  next
    case (Suc k')
    have p: "10 * 10 ^ k' \<le> n" using "1.prems" Suc by simp
    then have "10 \<le> n" "10 ^ k' \<le> n div 10"
      using order_trans [of 10 "10 * 10 ^ k'" n] by (auto simp: less_eq_div_iff_mult_less_eq mult.commute)
    then show ?thesis using "1.IH" [of k'] Suc by (subst nat_str.simps) simp
  qed
qed

lemma directive_Y:
  assumes "1000 \<le> y" "y \<le> 9999"
  shows "directive re_Y (nat_str y @ r) = [(y, r)]"
proof -
  have "length (nat_str y) \<le> 4" using length_nat_str_le [of y 4] assms by simp
  moreover have "3 < length (nat_str y)" using length_nat_str_ge [of 3 y] assms by simp
  ultimately have "length (nat_str y) = Suc (Suc (Suc (Suc 0)))" by simp
  then obtain a b c d where s: "nat_str y = [a, b, c, d]" by (auto simp: length_Suc_conv)
  have dg: "is_digit a" "is_digit b" "is_digit c" "is_digit d" using nat_str_digits [of y] s by auto
  then have "a \<in> set dgt" "b \<in> set dgt" "c \<in> set dgt" "d \<in> set dgt" by (simp_all add: is_digit_def dgt_def)
  then show ?thesis using dg digits_val_nat_str [of y] s
    by (simp add: directive_def re_Y_def map_filter_def)
qed

text \<open>C29. \<open>datetime.strptime(dtg, '%Y%m%d%H')\<close> reads back every
  valid date-time group that \<open>strftime\<close> writes (years from 1000, whole
  hours), so \<open>full_dtg\<close> and the file names built from it name the cycle the
  script was given.\<close>

theorem dtg_roundtrip:
  assumes "valid_dt dt" "1000 \<le> year dt" "minute dt = 0"
  shows "strptime_ymdh (dtg_str dt) = Some dt"
proof -
  have v: "year dt \<le> 9999" "1 \<le> month dt" "month dt \<le> 12" "1 \<le> day dt"
          "day dt \<le> days_in_month (year dt) (month dt)" "hour dt < 24"
    using assms(1) by (auto simp: valid_dt_def)
  have "days_in_month (year dt) (month dt) \<le> 31"
    using v(3) by (auto simp: days_in_month_def nth_Cons split: nat.splits)
  then have d31: "day dt \<le> 31" using v(5) by simp
  let ?H = "py_zfill 2 (nat_str (hour dt))"
  let ?D = "py_zfill 2 (nat_str (day dt))"
  let ?M = "py_zfill 2 (nat_str (month dt))"
  obtain xh where h: "directive re_H (?H @ []) = (hour dt, []) # xh" using directive_H [OF v(6)] by blast
  obtain xd where d: "directive re_d (?D @ ?H) = (day dt, ?H) # xd" using directive_d [OF v(4) d31] by blast
  obtain xm where m: "directive re_m (?M @ ?D @ ?H) = (month dt, ?D @ ?H) # xm"
    using directive_m [OF v(2,3)] by blast
  have y: "directive re_Y (nat_str (year dt) @ ?M @ ?D @ ?H) = [(year dt, ?M @ ?D @ ?H)]"
    using directive_Y [OF assms(2) v(1)] by blast
  have "\<exists>rest. ymdh_matches (dtg_str dt) = (year dt, month dt, day dt, hour dt, []) # rest"
    using h d m y by (simp add: ymdh_matches_def dtg_str_def)
  then show ?thesis using assms(2,3) v(5) by (auto simp: strptime_ymdh_def)
qed

subsection \<open>\<open>deleteLinesFromFile\<close> and the HWRF pattern\<close>

lemma del_items_exhausted: "del_items ps [] keep = keep"
  by (induction ps) simp_all

lemma send_to_ldm_site_ignored: "send_to_ldm site base strmid d = send_to_ldm None base strmid d"
  by (simp add: send_to_ldm_def fun_eq_iff)




subsection \<open>Witnesses\<close>

lemma example_dtg: "strptime_ymdh ''2020082600'' = Some \<lparr>year = 2020, month = 8, day = 26, hour = 0, minute = 0\<rparr>"
  by code_simp

theorem nhc_copy_never_written_witness:
  "map_of (files (snd (process_atcf atcf_example_env atcf_example_storm ''2020082600'' ''/tmp/x''
                         atcf_example_ext atcf_example_fs))) ''/atcf/aids/2020/aal092020.nhc.2020082600'' = None"
proof -
  have "map_of (files (snd (process_atcf atcf_example_env atcf_example_storm ''2020082600'' ''/tmp/x''
                         atcf_example_ext atcf_example_fs))) ''/atcf/aids/2020/aal092020.nhc.2020082600''
        = map_of (files atcf_example_fs) ''/atcf/aids/2020/aal092020.nhc.2020082600''"
  proof (rule nhc_copy_never_written [OF example_dtg])
    show "''/atcf/aids/2020/aal092020.nhc.2020082600'' =
          aid_messages atcf_example_env @ ''/'' @ nat_str (storm_year atcf_example_storm) @ ''/a'' @
          py_lower (storm_id atcf_example_storm) @ ''.nhc.'' @
          dtg_str \<lparr>year = 2020, month = 8, day = 26, hour = 0, minute = 0\<rparr>"
      by code_simp
    show "\<not> under ''/tmp/x'' ''/atcf/aids/2020/aal092020.nhc.2020082600''" by code_simp
    show "dirname ''/atcf/aids/2020/aal092020.nhc.2020082600'' \<noteq> ''/tmp/x''" by code_simp
    show "CHR ''/'' \<notin> set (storm_id atcf_example_storm)" by code_simp
    show "''/tmp/x'' \<noteq> []" by simp
    show "last ''/tmp/x'' \<noteq> CHR ''/''" by simp
    show "\<forall>ms. tarball atcf_example_ext = Some ms \<longrightarrow> (\<forall>(n, c) \<in> set ms. \<not> starts_with ''/'' n)"
      by (simp add: atcf_example_ext_def atcf_example_tar_def)
  qed
  then show ?thesis by (simp add: atcf_example_fs_def)
qed


theorem dtg_roundtrip_witness:
  "valid_dt \<lparr>year = 2020, month = 2, day = 29, hour = 18, minute = 0\<rparr> \<and>
   strptime_ymdh (dtg_str \<lparr>year = 2020, month = 2, day = 29, hour = 18, minute = 0\<rparr>) =
     Some \<lparr>year = 2020, month = 2, day = 29, hour = 18, minute = 0\<rparr>"
proof
  show v: "valid_dt \<lparr>year = 2020, month = 2, day = 29, hour = 18, minute = 0\<rparr>" by code_simp
  show "strptime_ymdh (dtg_str \<lparr>year = 2020, month = 2, day = 29, hour = 18, minute = 0\<rparr>) =
     Some \<lparr>year = 2020, month = 2, day = 29, hour = 18, minute = 0\<rparr>"
    by (rule dtg_roundtrip [OF v]) simp_all
qed


end
