(* ===== verification/Numpy.thy ===== *)
theory Numpy
  imports Tsu_Prelude Complex_Main
begin

text \<open>
  The NumPy vocabulary of the EDEX derived-parameter functions
  (\<open>NSEA_MCP.py\<close>, \<open>NSEA_LNSVecLeft.py\<close>) and of the gridded NUCAPS decoder
  (\<open>GriddedNucapsDecoder.py\<close>). A floating-point cell is a real number or
  \<open>NaN\<close> (\<open>np.nan\<close>, the fill value of both programs); every ordered
  comparison with \<open>NaN\<close> is false and \<open>!=\<close> is true, as IEEE 754 and NumPy
  have it, and arithmetic with \<open>NaN\<close> gives \<open>NaN\<close>. Arithmetic on the
  numbers is exact: the programs compare and clamp, and the properties below
  are about which branch a value takes, which rounding does not change for
  the thresholds involved (the header of the root theory says why). An array
  is the list of its cells in C order; the element-wise operations do not
  depend on the shape.
\<close>

datatype flt = Num real | NaN

fun flt_lt :: "flt \<Rightarrow> flt \<Rightarrow> bool" where
  "flt_lt (Num a) (Num b) = (a < b)"
| "flt_lt _ _ = False"

fun flt_le :: "flt \<Rightarrow> flt \<Rightarrow> bool" where
  "flt_le (Num a) (Num b) = (a \<le> b)"
| "flt_le _ _ = False"

text \<open>\<open>x != y\<close>: true as soon as one side is \<open>NaN\<close>.\<close>

fun flt_ne :: "flt \<Rightarrow> flt \<Rightarrow> bool" where
  "flt_ne (Num a) (Num b) = (a \<noteq> b)"
| "flt_ne _ _ = True"

fun flt_add :: "flt \<Rightarrow> flt \<Rightarrow> flt" where
  "flt_add (Num a) (Num b) = Num (a + b)"
| "flt_add _ _ = NaN"

fun flt_sub :: "flt \<Rightarrow> flt \<Rightarrow> flt" where
  "flt_sub (Num a) (Num b) = Num (a - b)"
| "flt_sub _ _ = NaN"

fun flt_mul :: "flt \<Rightarrow> flt \<Rightarrow> flt" where
  "flt_mul (Num a) (Num b) = Num (a * b)"
| "flt_mul _ _ = NaN"

definition is_nan :: "flt \<Rightarrow> bool" where
  "is_nan x \<longleftrightarrow> x = NaN"

text \<open>\<open>rtn[mask(arr)] = v\<close>: the cells of \<open>rtn\<close> where the condition holds on
  the corresponding cell of \<open>arr\<close> take the value \<open>v\<close>.\<close>

definition mask_set :: "(flt \<Rightarrow> bool) \<Rightarrow> flt \<Rightarrow> flt list \<Rightarrow> flt list \<Rightarrow> flt list" where
  "mask_set cond v rtn arr = map2 (\<lambda>r x. if cond x then v else r) rtn arr"

text \<open>\<open>np.zeros(shape=arr.shape)\<close> and \<open>np.ones(n) * FILL_VAL\<close>.\<close>

definition zeros_like :: "flt list \<Rightarrow> flt list" where
  "zeros_like arr = map (\<lambda>_. Num 0) arr"

text \<open>Element-wise \<open>a + b\<close> with NumPy broadcasting on one axis: equal
  lengths, or one side of length one; anything else raises \<open>ValueError\<close>.\<close>

definition bcast_add :: "flt list \<Rightarrow> flt list \<Rightarrow> py_error + flt list" where
  "bcast_add a b =
     (if length a = length b then Inr (map2 flt_add a b)
      else if length a = 1 then Inr (map (flt_add (hd a)) b)
      else if length b = 1 then Inr (map (\<lambda>x. flt_add x (hd b)) a)
      else Inl ValueError)"

lemma length_mask_set [simp]: "length (mask_set c v rtn arr) = min (length rtn) (length arr)"
  by (simp add: mask_set_def)

lemma nth_mask_set:
  "i < length rtn \<Longrightarrow> i < length arr \<Longrightarrow> mask_set c v rtn arr ! i = (if c (arr ! i) then v else rtn ! i)"
  by (simp add: mask_set_def)

lemma mask_set_map:
  "length rtn = length arr \<Longrightarrow> mask_set c v rtn arr = map2 (\<lambda>r x. if c x then v else r) rtn arr"
  by (simp add: mask_set_def)

lemma flt_cmp_cases:
  "flt_lt x (Num b) = (case x of Num a \<Rightarrow> a < b | NaN \<Rightarrow> False)"
  "flt_lt (Num a) y = (case y of Num b \<Rightarrow> a < b | NaN \<Rightarrow> False)"
  "flt_le x (Num b) = (case x of Num a \<Rightarrow> a \<le> b | NaN \<Rightarrow> False)"
  "flt_le (Num a) y = (case y of Num b \<Rightarrow> a \<le> b | NaN \<Rightarrow> False)"
  by (cases x; cases y; simp)+

lemma flt_lt_NaN [simp]: "\<not> flt_lt NaN x" "\<not> flt_lt x NaN"
  by (cases x; simp)+

lemma flt_le_NaN [simp]: "\<not> flt_le NaN x" "\<not> flt_le x NaN"
  by (cases x; simp)+

lemma flt_ne_NaN [simp]: "flt_ne x NaN" "flt_ne NaN x"
  by (cases x; simp)+

end
