(* ===== verification/Nsea.thy ===== *)
theory Nsea
  imports Numpy
begin

text \<open>
  Two NSEA derived parameters of the EDEX cursor plugin
  (\<open>derivedParameters/functions\<close>). \<open>NSEA_MCP.py\<close> scores six convective
  fields cell by cell (\<open>MC1\<close> to \<open>MC6\<close>, each a zero array overwritten
  through boolean masks) and adds the six scores; \<open>NSEA_LNSVecLeft.py\<close>
  turns the bulk shear magnitude into the angle by which the left
  storm-motion vector leaves the shear direction. \<open>Direction.execute\<close> and
  \<open>Vector.execute\<close>, which the second function calls, are AWIPS functions
  outside this repository: the direction is a parameter and the model stops
  at the arguments handed to \<open>Vector.execute\<close>.
\<close>

subsection \<open>\<open>NSEA_MCP.py\<close>\<close>

definition mc1 :: "flt list \<Rightarrow> flt list" where
  "mc1 cCape =
     (let r = zeros_like cCape;
          r = mask_set (\<lambda>x. flt_lt x (Num 3100)) (Num 0) r cCape;
          r = mask_set (\<lambda>x. flt_le (Num 3100) x \<and> flt_lt x (Num 4000)) (Num 1) r cCape;
          r = mask_set (\<lambda>x. flt_le (Num 4000) x) (Num 2) r cCape
      in r)"

definition mc2 :: "flt list \<Rightarrow> flt list" where
  "mc2 LI =
     (let r = zeros_like LI;
          r = mask_set (\<lambda>x. flt_lt (Num (-8)) x) (Num 0) r LI;
          r = mask_set (\<lambda>x. flt_le x (Num (-8)) \<and> flt_lt (Num (-9)) x) (Num 1) r LI;
          r = mask_set (\<lambda>x. flt_le x (Num (-9)) \<and> flt_lt (Num (-10)) x) (Num 2) r LI;
          r = mask_set (\<lambda>x. flt_le x (Num (-10))) (Num 3) r LI
      in r)"

definition mc3 :: "flt list \<Rightarrow> flt list" where
  "mc3 LR =
     (let r = zeros_like LR;
          r = mask_set (\<lambda>x. flt_le x (Num (84 / 10))) (Num 0) r LR;
          r = mask_set (\<lambda>x. flt_lt (Num (84 / 10)) x) (Num 1) r LR
      in r)"

definition mc4 :: "flt list \<Rightarrow> flt list" where
  "mc4 vTot =
     (let r = zeros_like vTot;
          r = mask_set (\<lambda>x. flt_lt x (Num 27)) (Num 0) r vTot;
          r = mask_set (\<lambda>x. flt_le (Num 27) x \<and> flt_lt x (Num 28)) (Num 1) r vTot;
          r = mask_set (\<lambda>x. flt_le (Num 28) x \<and> flt_lt x (Num 29)) (Num 2) r vTot;
          r = mask_set (\<lambda>x. flt_le (Num 29) x) (Num 3) r vTot
      in r)"

definition mc5 :: "flt list \<Rightarrow> flt list" where
  "mc5 dCape =
     (let r = zeros_like dCape;
          r = mask_set (\<lambda>x. flt_lt x (Num 900)) (Num 0) r dCape;
          r = mask_set (\<lambda>x. flt_le (Num 900) x \<and> flt_lt x (Num 1100)) (Num 1) r dCape;
          r = mask_set (\<lambda>x. flt_le (Num 1100) x \<and> flt_lt x (Num 1300)) (Num 2) r dCape;
          r = mask_set (\<lambda>x. flt_le (Num 1300) x) (Num 3) r dCape
      in r)"

definition mc6 :: "flt list \<Rightarrow> flt list" where
  "mc6 PW =
     (let r = zeros_like PW;
          r = mask_set (\<lambda>x. flt_le x (Num (15 / 10))) (Num (-5)) r PW;
          r = mask_set (\<lambda>x. flt_lt (Num (15 / 10)) x) (Num 0) r PW
      in r)"

text \<open>\<open>execute(cCape, LI, LR, vTot, dCape, PW)\<close>: the sum, left to right.\<close>

definition sum_then :: "py_error + flt list \<Rightarrow> flt list \<Rightarrow> py_error + flt list" where
  "sum_then acc b = (case acc of Inl e \<Rightarrow> Inl e | Inr a \<Rightarrow> bcast_add a b)"

definition mcp_execute ::
  "flt list \<Rightarrow> flt list \<Rightarrow> flt list \<Rightarrow> flt list \<Rightarrow> flt list \<Rightarrow> flt list \<Rightarrow> py_error + flt list" where
  "mcp_execute cCape LI LR vTot dCape PW =
     sum_then (sum_then (sum_then (sum_then (bcast_add (mc1 cCape) (mc2 LI)) (mc3 LR)) (mc4 vTot)) (mc5 dCape)) (mc6 PW)"

text \<open>The scores read as the threshold tables they stand for, one cell at a
  time; a missing value (\<open>NaN\<close>) falls through every mask and scores 0.\<close>

definition score1 :: "flt \<Rightarrow> real" where
  "score1 x = (case x of NaN \<Rightarrow> 0 | Num c \<Rightarrow> if c < 3100 then 0 else if c < 4000 then 1 else 2)"

definition score2 :: "flt \<Rightarrow> real" where
  "score2 x = (case x of NaN \<Rightarrow> 0 | Num c \<Rightarrow> if -8 < c then 0 else if -9 < c then 1 else if -10 < c then 2 else 3)"

definition score3 :: "flt \<Rightarrow> real" where
  "score3 x = (case x of NaN \<Rightarrow> 0 | Num c \<Rightarrow> if c \<le> 84 / 10 then 0 else 1)"

definition score4 :: "flt \<Rightarrow> real" where
  "score4 x = (case x of NaN \<Rightarrow> 0 | Num c \<Rightarrow> if c < 27 then 0 else if c < 28 then 1 else if c < 29 then 2 else 3)"

definition score5 :: "flt \<Rightarrow> real" where
  "score5 x = (case x of NaN \<Rightarrow> 0 | Num c \<Rightarrow> if c < 900 then 0 else if c < 1100 then 1 else if c < 1300 then 2 else 3)"

definition score6 :: "flt \<Rightarrow> real" where
  "score6 x = (case x of NaN \<Rightarrow> 0 | Num c \<Rightarrow> if c \<le> 15 / 10 then -5 else 0)"

definition mcp_cell :: "flt \<Rightarrow> flt \<Rightarrow> flt \<Rightarrow> flt \<Rightarrow> flt \<Rightarrow> flt \<Rightarrow> real" where
  "mcp_cell c l r v d p = score1 c + score2 l + score3 r + score4 v + score5 d + score6 p"

subsection \<open>\<open>NSEA_LNSVecLeft.py\<close>\<close>

text \<open>\<open>calcMag = where(less(tmpMag, 30.0), NaN, 30.0/tmpMag)\<close> with
  \<open>tmpMag = blkMag * 1.94\<close>, then the two clamps to \<open>[-1, 1]\<close> that the
  comments add "just in case".\<close>

definition lns_raw :: "flt \<Rightarrow> flt" where
  "lns_raw m = (case flt_mul m (Num (194 / 100)) of
                  NaN \<Rightarrow> NaN
                | Num t \<Rightarrow> if t < 30 then NaN else Num (30 / t))"

definition lns_clamp_hi :: "flt \<Rightarrow> flt" where
  "lns_clamp_hi x = (if flt_lt (Num 1) x then Num 1 else x)"

definition lns_clamp_lo :: "flt \<Rightarrow> flt" where
  "lns_clamp_lo x = (if flt_lt x (Num (-1)) then Num (-1) else x)"

definition lns_calc_mag :: "flt list \<Rightarrow> flt list" where
  "lns_calc_mag blkMag = map (\<lambda>m. lns_clamp_lo (lns_clamp_hi (lns_raw m))) blkMag"

text \<open>\<open>degrees(arccos(calcMag))\<close>, and the arguments of
  \<open>Vector.execute(blkMag, newDir, 1)\<close> with \<open>newDir = blkShrDir - angle\<close>.\<close>

definition lns_angle :: "flt \<Rightarrow> flt" where
  "lns_angle x = (case x of NaN \<Rightarrow> NaN | Num c \<Rightarrow> Num (arccos c * 180 / pi))"

definition lns_vec_left ::
  "(flt \<Rightarrow> flt \<Rightarrow> flt) \<Rightarrow> flt list \<Rightarrow> flt list \<Rightarrow> flt list \<Rightarrow> flt list \<times> flt list" where
  "lns_vec_left direction shr_u shr_v blkMag =
     (let blkShrDir = map2 direction shr_u shr_v;
          angle = map lns_angle (lns_calc_mag blkMag)
      in (blkMag, map2 flt_sub blkShrDir angle))"

subsection \<open>Proof vocabulary\<close>

text \<open>Every cell of an array is a number between \<open>lo\<close> and \<open>hi\<close>.\<close>

definition cells_in :: "real \<Rightarrow> real \<Rightarrow> flt list \<Rightarrow> bool" where
  "cells_in lo hi xs \<longleftrightarrow> (\<forall>x \<in> set xs. \<exists>v. x = Num v \<and> lo \<le> v \<and> v \<le> hi)"

subsection \<open>The scores are the threshold tables; the sum stays in [-5, 12]\<close>


lemma mc_cells:
  "mc1 a = map (\<lambda>x. Num (score1 x)) a" "mc2 a = map (\<lambda>x. Num (score2 x)) a"
  "mc3 a = map (\<lambda>x. Num (score3 x)) a" "mc4 a = map (\<lambda>x. Num (score4 x)) a"
  "mc5 a = map (\<lambda>x. Num (score5 x)) a" "mc6 a = map (\<lambda>x. Num (score6 x)) a"
  by (auto intro!: nth_equalityI
           simp: mc1_def mc2_def mc3_def mc4_def mc5_def mc6_def zeros_like_def nth_mask_set flt_cmp_cases
                 score1_def score2_def score3_def score4_def score5_def score6_def
           split: flt.splits)

lemma cells_in_bcast:
  assumes "cells_in a1 b1 xs" "cells_in a2 b2 ys" "bcast_add xs ys = Inr zs"
  shows "cells_in (a1 + a2) (b1 + b2) zs"
proof -
  have add: "x \<in> set xs \<Longrightarrow> y \<in> set ys \<Longrightarrow> \<exists>v. flt_add x y = Num v \<and> a1 + a2 \<le> v \<and> v \<le> b1 + b2" for x y
    using assms(1,2) unfolding cells_in_def by (fastforce intro: add_mono)
  have hd: "length xs = 1 \<Longrightarrow> hd xs \<in> set xs" "length ys = 1 \<Longrightarrow> hd ys \<in> set ys"
    by (auto intro: hd_in_set)
  show ?thesis using assms(3) add hd unfolding cells_in_def bcast_add_def
    by (auto split: if_splits elim!: in_set_zipE)
qed

lemma score_bounds:
  "0 \<le> score1 x \<and> score1 x \<le> 2" "0 \<le> score2 x \<and> score2 x \<le> 3" "0 \<le> score3 x \<and> score3 x \<le> 1"
  "0 \<le> score4 x \<and> score4 x \<le> 3" "0 \<le> score5 x \<and> score5 x \<le> 3" "-5 \<le> score6 x \<and> score6 x \<le> 0"
  by (auto simp: score1_def score2_def score3_def score4_def score5_def score6_def split: flt.splits)

lemma mc_cells_in:
  "cells_in 0 2 (mc1 a)" "cells_in 0 3 (mc2 a)" "cells_in 0 1 (mc3 a)"
  "cells_in 0 3 (mc4 a)" "cells_in 0 3 (mc5 a)" "cells_in (-5) 0 (mc6 a)"
  using score_bounds by (auto simp: mc_cells cells_in_def)

lemma sum_then_Inr: "sum_then acc b = Inr zs \<Longrightarrow> \<exists>a. acc = Inr a \<and> bcast_add a b = Inr zs"
  by (cases acc) (auto simp: sum_then_def)

text \<open>C34. Whatever the inputs, and however NumPy broadcasts them, every
  cell of a successful \<open>NSEA_MCP\<close> result is a number between -5 and 12.\<close>

theorem mcp_execute_bounds:
  assumes "mcp_execute cCape LI LR vTot dCape PW = Inr out"
  shows "\<forall>x \<in> set out. \<exists>v. x = Num v \<and> -5 \<le> v \<and> v \<le> 12"
proof -
  obtain s4 where s4: "sum_then (sum_then (sum_then (bcast_add (mc1 cCape) (mc2 LI)) (mc3 LR)) (mc4 vTot)) (mc5 dCape) = Inr s4"
    "bcast_add s4 (mc6 PW) = Inr out"
    using sum_then_Inr assms unfolding mcp_execute_def by blast
  then obtain s3 where s3: "sum_then (sum_then (bcast_add (mc1 cCape) (mc2 LI)) (mc3 LR)) (mc4 vTot) = Inr s3"
    "bcast_add s3 (mc5 dCape) = Inr s4" using sum_then_Inr by blast
  then obtain s2 where s2: "sum_then (bcast_add (mc1 cCape) (mc2 LI)) (mc3 LR) = Inr s2"
    "bcast_add s2 (mc4 vTot) = Inr s3" using sum_then_Inr by blast
  then obtain s1 where s1: "bcast_add (mc1 cCape) (mc2 LI) = Inr s1" "bcast_add s1 (mc3 LR) = Inr s2"
    using sum_then_Inr by blast
  have c1: "cells_in (0 + 0) (2 + 3) s1" by (rule cells_in_bcast [OF mc_cells_in(1,2) s1(1)])
  have c2: "cells_in (0 + 0 + 0) (2 + 3 + 1) s2" by (rule cells_in_bcast [OF c1 mc_cells_in(3) s1(2)])
  have c3: "cells_in (0 + 0 + 0 + 0) (2 + 3 + 1 + 3) s3" by (rule cells_in_bcast [OF c2 mc_cells_in(4) s2(2)])
  have c4: "cells_in (0 + 0 + 0 + 0 + 0) (2 + 3 + 1 + 3 + 3) s4" by (rule cells_in_bcast [OF c3 mc_cells_in(5) s3(2)])
  have "cells_in (0 + 0 + 0 + 0 + 0 + -5) (2 + 3 + 1 + 3 + 3 + 0) out"
    by (rule cells_in_bcast [OF c4 mc_cells_in(6) s4(2)])
  then show ?thesis by (simp add: cells_in_def)
qed

text \<open>C33. On six arrays of one shape the masked assignments of
  \<open>MC1\<close> to \<open>MC6\<close> compute, cell by cell, the sum of the six threshold tables
  \<open>score1\<close> to \<open>score6\<close>: the masks of each function are disjoint and, for
  a number, exhaustive. A missing value scores 0 in every table, so a
  missing precipitable water takes no \<open>-5\<close> penalty.\<close>

theorem mcp_execute_cells:
  assumes "length LI = length cCape" "length LR = length cCape" "length vTot = length cCape"
    "length dCape = length cCape" "length PW = length cCape"
  shows "mcp_execute cCape LI LR vTot dCape PW =
         Inr (map (\<lambda>i. Num (mcp_cell (cCape ! i) (LI ! i) (LR ! i) (vTot ! i) (dCape ! i) (PW ! i)))
                  [0..<length cCape])"
  using assms
  by (auto intro!: nth_equalityI simp: mcp_execute_def sum_then_def bcast_add_def mc_cells mcp_cell_def
           algebra_simps)

subsection \<open>The clamps of \<open>NSEA_LNSVecLeft\<close>\<close>

lemma lns_raw_range: "lns_raw m = NaN \<or> (\<exists>c. lns_raw m = Num c \<and> 0 < c \<and> c \<le> 1)"
  by (cases m) (auto simp: lns_raw_def)

text \<open>C35. \<open>30.0/tmpMag\<close> is only taken where \<open>tmpMag\<close> is at least
  30, so it lies in (0, 1]: the two clamps to [-1, 1] never change a value,
  and the angle \<open>arccos(calcMag)\<close> is defined wherever it is not \<open>NaN\<close>.\<close>

theorem lns_clamps_inert:
  "lns_calc_mag blkMag = map lns_raw blkMag \<and>
   (\<forall>x \<in> set (lns_calc_mag blkMag). x = NaN \<or> (\<exists>c. x = Num c \<and> 0 < c \<and> c \<le> 1))"
proof -
  have "lns_clamp_lo (lns_clamp_hi (lns_raw m)) = lns_raw m" for m
    using lns_raw_range [of m] by (auto simp: lns_clamp_lo_def lns_clamp_hi_def)
  then show ?thesis using lns_raw_range by (auto simp: lns_calc_mag_def)
qed

subsection \<open>Witnesses\<close>

lemma mcp_example_result:
  "mcp_execute [Num 3500, Num 2000] [Num (-19 / 2), Num (-7)] [Num 9, Num 8] [Num (57 / 2), Num 26]
     [Num 1200, Num 500] [Num 1, NaN] = Inr [Num 3, Num 0]"
  by (simp add: mcp_execute_def sum_then_def bcast_add_def mc1_def mc2_def mc3_def mc4_def mc5_def mc6_def
                zeros_like_def mask_set_def)

theorem mcp_execute_bounds_witness:
  "mcp_execute [Num 3500, Num 2000] [Num (-19 / 2), Num (-7)] [Num 9, Num 8] [Num (57 / 2), Num 26]
     [Num 1200, Num 500] [Num 1, NaN] = Inr [Num 3, Num 0] \<and>
   (\<exists>v. Num 3 = Num v \<and> -5 \<le> v \<and> v \<le> 12) \<and> (\<exists>v. Num 0 = Num v \<and> -5 \<le> v \<and> v \<le> 12)"
  using mcp_execute_bounds [OF mcp_example_result] mcp_example_result by simp

theorem mcp_execute_cells_witness:
  "mcp_execute [Num 3500, Num 2000] [Num (-19 / 2), Num (-7)] [Num 9, Num 8] [Num (57 / 2), Num 26]
     [Num 1200, Num 500] [Num 1, NaN] =
   Inr [Num (mcp_cell (Num 3500) (Num (-19 / 2)) (Num 9) (Num (57 / 2)) (Num 1200) (Num 1)),
        Num (mcp_cell (Num 2000) (Num (-7)) (Num 8) (Num 26) (Num 500) NaN)]"
  using mcp_execute_cells [of "[Num (-19 / 2), Num (-7)]" "[Num 3500, Num 2000]" "[Num 9, Num 8]"
                              "[Num (57 / 2), Num 26]" "[Num 1200, Num 500]" "[Num 1, NaN]"]
  by (simp add: upt_rec)

theorem lns_clamps_inert_witness:
  "lns_calc_mag [Num 10, Num 100, NaN] = [NaN, Num (30 / 194), NaN]"
  using lns_clamps_inert [of "[Num 10, Num 100, NaN]"] by (simp add: lns_raw_def)

end
