(* ===== verification/Nucaps.thy ===== *)
theory Nucaps
  imports Numpy
begin

text \<open>
  The parts of the gridded NUCAPS decoder (\<open>GriddedNucapsDecoder.py\<close>,
  EDEX plugin \<open>griddednucaps\<close>) that decide which value a grid cell gets,
  rather than how a physical quantity is computed: the list of files the
  constructor accepts, the surface level search, the month of an
  observation and the ozone climatology lookup behind the ozone anomaly,
  the tropopause scan, the bounds check applied to every grid, and the loop
  of \<open>decode\<close> that fills the 2 m relative humidity. Reading the HDF files,
  the vertical and horizontal interpolation (\<open>scipy.interpolate.griddata\<close>)
  and the Java record construction are not modelled.
\<close>

subsection \<open>The constructor's file list\<close>

text \<open>Lines 116-130: \<open>files.strip()\<close>, then \<open>files.split(",")\<close> when something
  is left.\<close>

definition nucaps_init :: "string option \<Rightarrow> bool \<times> string list" where
  "nucaps_init files =
     (case files of
        None \<Rightarrow> (False, [])
      | Some f \<Rightarrow> (let t = py_strip f in if t = [] then (False, []) else (True, py_split t '','')))"

subsection \<open>The surface level\<close>

text \<open>\<open>findSurface(pres, surfpres)\<close> (lines 166-172): the number of levels
  more than 5 hPa above the surface.\<close>

definition find_surface :: "flt list \<Rightarrow> flt \<Rightarrow> nat" where
  "find_surface pres sp = length (filter (\<lambda>p. flt_lt (Num 0) (flt_sub sp (flt_add p (Num 5)))) pres)"

subsection \<open>The month of an observation\<close>

text \<open>CPython's \<open>_ord2ymd\<close>: the proleptic Gregorian date of a day number
  (day 1 is 0001-01-01), with Python's floor \<open>divmod\<close>; \<open>ord2ymd_md\<close> is
  its last part, month and day from the day of the year \<open>n\<close>.\<close>

definition days_before_month_tbl :: "int list" where
  "days_before_month_tbl = [-1, 0, 31, 59, 90, 120, 151, 181, 212, 243, 273, 304, 334]"

definition days_in_month_tbl :: "int list" where
  "days_in_month_tbl = [-1, 31, 28, 31, 30, 31, 30, 31, 31, 30, 31, 30, 31]"

definition ord2ymd_md :: "bool \<Rightarrow> int \<Rightarrow> int \<times> int" where
  "ord2ymd_md leap n =
     (let month = (n + 50) div 32;
          preceding = days_before_month_tbl ! nat month + (if month > 2 \<and> leap then 1 else 0)
      in if preceding > n
         then (let month' = month - 1;
                   preceding' = preceding - (days_in_month_tbl ! nat month' + (if month' = 2 \<and> leap then 1 else 0))
               in (month', n - preceding' + 1))
         else (month, n - preceding + 1))"

definition ord2ymd :: "int \<Rightarrow> int \<times> int \<times> int" where
  "ord2ymd n0 =
     (let n = n0 - 1;
          n400 = n div 146097; n = n mod 146097;
          n100 = n div 36524; n = n mod 36524;
          n4 = n div 1461; n = n mod 1461;
          n1 = n div 365; n = n mod 365;
          year = n400 * 400 + 1 + n100 * 100 + n4 * 4 + n1
      in if n1 = 4 \<or> n100 = 4 then (year - 1, 12, 31)
         else (let leap = (n1 = 3 \<and> (n4 \<noteq> 24 \<or> n100 = 3)) in (year, ord2ymd_md leap n)))"

text \<open>\<open>getMonth(time)\<close> (lines 444-446): \<open>datetime.fromtimestamp(time / 1000., utc).month - 1\<close>
  for a time in milliseconds; 719163 is the day number of 1970-01-01.\<close>

definition get_month :: "real \<Rightarrow> int" where
  "get_month t = fst (snd (ord2ymd (719163 + \<lfloor>t / 1000 / 86400\<rfloor>))) - 1"

subsection \<open>The ozone climatology and the ozone anomaly\<close>

text \<open>\<open>loadOzoneClimoData\<close> (lines 403-441): 36 latitude rows of 12 months.\<close>

definition ozone_table :: "int list list" where
  "ozone_table =
     [[311, 350, 352, 340, 324, 297, 269, 253, 243, 246, 267, 279],
      [314, 363, 361, 359, 330, 300, 269, 252, 244, 251, 270, 281],
      [319, 363, 363, 359, 330, 301, 272, 254, 248, 254, 275, 287],
      [326, 359, 361, 359, 333, 303, 275, 262, 256, 259, 279, 293],
      [330, 359, 359, 355, 332, 304, 280, 269, 262, 265, 280, 299],
      [333, 359, 359, 352, 331, 306, 286, 274, 267, 269, 283, 306],
      [332, 355, 354, 347, 329, 307, 291, 277, 270, 270, 282, 309],
      [329, 349, 348, 340, 325, 306, 290, 276, 267, 267, 279, 308],
      [321, 338, 338, 331, 318, 299, 280, 269, 262, 260, 273, 302],
      [307, 320, 324, 318, 304, 286, 266, 259, 254, 252, 265, 289],
      [284, 292, 300, 298, 286, 271, 256, 252, 248, 243, 252, 269],
      [257, 262, 272, 275, 269, 259, 251, 248, 244, 237, 237, 247],
      [234, 238, 248, 255, 256, 252, 248, 246, 242, 234, 229, 230],
      [221, 224, 234, 242, 246, 246, 245, 244, 240, 232, 224, 219],
      [215, 218, 227, 235, 240, 242, 244, 245, 241, 232, 223, 215],
      [214, 216, 224, 232, 237, 240, 244, 245, 242, 232, 223, 214],
      [215, 217, 223, 230, 234, 237, 240, 242, 240, 231, 224, 216],
      [219, 221, 226, 231, 232, 233, 236, 238, 237, 229, 225, 219],
      [223, 224, 228, 231, 230, 229, 230, 233, 233, 228, 225, 222],
      [225, 226, 228, 229, 227, 224, 225, 228, 230, 228, 227, 225],
      [227, 227, 227, 227, 223, 221, 223, 226, 230, 229, 230, 228],
      [228, 226, 226, 225, 222, 222, 225, 228, 234, 234, 233, 230],
      [228, 225, 225, 225, 224, 226, 230, 235, 242, 241, 239, 232],
      [229, 226, 227, 228, 229, 234, 239, 248, 254, 251, 247, 237],
      [232, 230, 231, 233, 239, 249, 255, 267, 271, 267, 259, 243],
      [238, 235, 236, 240, 250, 265, 275, 288, 292, 287, 274, 252],
      [248, 242, 241, 247, 259, 276, 290, 303, 308, 304, 288, 263],
      [260, 250, 247, 255, 267, 282, 298, 310, 316, 313, 298, 273],
      [269, 257, 252, 259, 270, 282, 294, 305, 314, 313, 302, 280],
      [275, 262, 257, 262, 271, 278, 281, 284, 290, 299, 299, 283],
      [274, 264, 258, 261, 269, 273, 264, 247, 242, 271, 283, 280],
      [269, 261, 257, 256, 263, 264, 247, 211, 186, 233, 254, 273],
      [264, 257, 257, 250, 254, 253, 235, 198, 150, 196, 224, 267],
      [259, 253, 252, 242, 247, 244, 226, 196, 135, 173, 205, 260],
      [258, 252, 246, 237, 238, 237, 225, 202, 134, 147, 190, 256],
      [252, 246, 237, 230, 237, 236, 225, 204, 135, 142, 187, 252]]"

text \<open>\<open>int(x)\<close> of a float truncates toward zero; \<open>int(nan)\<close> raises
  \<open>ValueError\<close>.\<close>

definition py_trunc :: "real \<Rightarrow> int" where
  "py_trunc x = (if 0 \<le> x then \<lfloor>x\<rfloor> else \<lceil>x\<rceil>)"

text \<open>\<open>getOzoneClimoValue(monthIndex, latitude)\<close> (lines 449-456).\<close>

definition oz_index :: "flt \<Rightarrow> py_error + int" where
  "oz_index lat =
     (case lat of
        NaN \<Rightarrow> Inl ValueError
      | Num l \<Rightarrow> (let i = -1 * py_trunc (l / 5) + 17;
                     i = (if i < 0 then 0 else i);
                     i = (if i > 35 then 35 else i)
                 in Inr i))"

definition oz_climo :: "int \<Rightarrow> flt \<Rightarrow> py_error + int" where
  "oz_climo m lat =
     (case oz_index lat of
        Inl e \<Rightarrow> Inl e
      | Inr i \<Rightarrow> (case py_index ozone_table i of
                    None \<Rightarrow> Inl IndexError
                  | Some row \<Rightarrow> (case py_index row m of None \<Rightarrow> Inl IndexError | Some v \<Rightarrow> Inr v)))"

text \<open>\<open>calculateOzoneAnomaly(totalOzone)\<close> (lines 459-466): the loop stops at
  the first exception.\<close>

fun seq_sum :: "(py_error + 'a) list \<Rightarrow> py_error + 'a list" where
  "seq_sum [] = Inr []"
| "seq_sum (Inl e # _) = Inl e"
| "seq_sum (Inr x # xs) = (case seq_sum xs of Inl e \<Rightarrow> Inl e | Inr ys \<Rightarrow> Inr (x # ys))"

definition oz_anomaly :: "flt list \<Rightarrow> real list \<Rightarrow> flt list \<Rightarrow> py_error + flt list" where
  "oz_anomaly total_oz obs_times lats =
     seq_sum (map (\<lambda>i. case (py_index obs_times (int i), py_index total_oz (int i)) of
                        (Some t, Some tot) \<Rightarrow>
                          (case oz_climo (get_month t) (lats ! i) of
                             Inl e \<Rightarrow> Inl e
                           | Inr c \<Rightarrow> Inr (flt_mul (flt_mul tot (Num (1 / real_of_int c))) (Num 100)))
                      | _ \<Rightarrow> Inl IndexError)
                  [0..<length lats])"

subsection \<open>The tropopause level\<close>

text \<open>\<open>calculateTropLevel\<close> (lines 469-486): for one observation, the
  threshold of its month and the scan over its levels. The test
  \<open>O3_MR[i, k] != FILL_VAL\<close> compares with \<open>NaN\<close> and is always true.\<close>

definition oz_thresh :: "int \<Rightarrow> flt" where
  "oz_thresh month = Num (91 + 28 * sin (pi * real_of_int (month - 2) / 6))"

definition trop_step :: "flt \<Rightarrow> flt \<Rightarrow> flt \<times> flt \<Rightarrow> flt" where
  "trop_step thresh acc op =
     (let (o3, p) = op in if flt_ne o3 NaN then (if flt_le thresh o3 then p else acc) else NaN)"

definition trop_scan :: "flt \<Rightarrow> flt list \<Rightarrow> flt list \<Rightarrow> flt" where
  "trop_scan thresh o3 pres = foldl (trop_step thresh) NaN (zip o3 pres)"

definition trop_level :: "real list \<Rightarrow> flt list list \<Rightarrow> flt list list \<Rightarrow> flt list" where
  "trop_level obs_times o3 pres =
     map (\<lambda>i. trop_scan (oz_thresh (get_month (obs_times ! i))) (o3 ! i) (pres ! i)) [0..<length obs_times]"

text \<open>The level the scan is meant to find: the pressure of the last level
  whose ozone reaches the threshold, \<open>NaN\<close> when there is none.\<close>

definition trop_ref :: "flt \<Rightarrow> flt list \<Rightarrow> flt list \<Rightarrow> flt" where
  "trop_ref thresh o3 pres =
     (let ps = map snd (filter (\<lambda>(oz, p). flt_le thresh oz) (zip o3 pres)) in if ps = [] then NaN else last ps)"

subsection \<open>The bounds check of every grid\<close>

text \<open>\<open>grossBoundsChecking(min, max, grid)\<close> (lines 531-535): the second
  mask is taken on the grid the first one changed.\<close>

definition gross_bounds :: "real \<Rightarrow> real \<Rightarrow> flt list \<Rightarrow> flt list" where
  "gross_bounds lo hi grid =
     (let g1 = mask_set (\<lambda>x. flt_lt (Num hi) x) NaN grid grid
      in mask_set (\<lambda>x. flt_lt x (Num lo)) NaN g1 g1)"

subsection \<open>The 2 m relative humidity of \<open>decode\<close>\<close>

text \<open>Lines 572-580: \<open>rh2m\<close> starts as fill values, the loop
  \<open>for i in range(nobs - 1)\<close> writes the value computed for observation
  \<open>i\<close> (the conversions \<open>convert_cd2mr_simple\<close> and
  \<open>convert_mr2rh_single\<close> are the parameter \<open>f\<close>), and values above 100
  become 100.\<close>

definition rh2m_loop :: "nat \<Rightarrow> (nat \<Rightarrow> flt) \<Rightarrow> flt list" where
  "rh2m_loop nobs f = foldl (\<lambda>r i. r[i := f i]) (replicate nobs NaN) [0..<nobs - 1]"

definition rh2m_clamp :: "flt list \<Rightarrow> flt list" where
  "rh2m_clamp rh = mask_set (\<lambda>x. flt_lt (Num 100) x) (Num 100) rh rh"

subsection \<open>The ozone climatology lookup\<close>

lemma py_trunc_zero: "-1 < x \<Longrightarrow> x < 1 \<Longrightarrow> py_trunc x = 0"
  by (auto simp: py_trunc_def floor_eq_iff ceiling_eq_iff)

lemma py_trunc_ge: "-18 < x \<Longrightarrow> -17 \<le> py_trunc x"
  by (auto simp: py_trunc_def le_ceiling_iff)

lemma oz_index_range: "oz_index (Num l) = Inr i \<Longrightarrow> 0 \<le> i \<and> i \<le> 35"
  by (auto simp: oz_index_def Let_def)

text \<open>C36. \<open>int(latitude / 5)\<close> truncates toward zero, so the
  climatology row 17 covers the ten degrees from 5S to 5N, every latitude
  above 90S falls in rows 0 to 34, and row 35 is read only at exactly 90S.\<close>

theorem oz_index_bins:
  "(\<forall>l. -5 < l \<and> l < 5 \<longrightarrow> oz_index (Num l) = Inr 17) \<and>
   (\<forall>l. -90 < l \<longrightarrow> oz_index (Num l) \<noteq> Inr 35) \<and> oz_index (Num (-90)) = Inr 35"
proof (intro conjI allI impI)
  fix l :: real assume "-5 < l \<and> l < 5"
  then have "py_trunc (l / 5) = 0" by (intro py_trunc_zero) auto
  then show "oz_index (Num l) = Inr 17" by (simp add: oz_index_def)
next
  fix l :: real assume "-90 < l"
  then have "-17 \<le> py_trunc (l / 5)" by (intro py_trunc_ge) auto
  then show "oz_index (Num l) \<noteq> Inr 35" by (auto simp: oz_index_def Let_def)
next
  show "oz_index (Num (-90)) = Inr 35" by (simp add: oz_index_def py_trunc_def)
qed

lemma ozone_table_shape: "length ozone_table = 36 \<and> (\<forall>row \<in> set ozone_table. length row = 12 \<and> (\<forall>v \<in> set row. 134 \<le> v \<and> v \<le> 363))"
  by (simp add: ozone_table_def)

lemma oz_climo_in_table:
  assumes "0 \<le> m" "m < 12"
  shows "\<exists>v. oz_climo m (Num l) = Inr v \<and> 134 \<le> v \<and> v \<le> 363"
proof -
  obtain i where i: "oz_index (Num l) = Inr i" by (simp add: oz_index_def Let_def)
  then have r: "0 \<le> i" "i \<le> 35" using oz_index_range by auto
  let ?row = "ozone_table ! nat i"
  have row: "?row \<in> set ozone_table" using r ozone_table_shape by (intro nth_mem) auto
  then have "py_index ozone_table i = Some ?row" using r ozone_table_shape by (simp add: py_index_def)
  moreover have "py_index ?row m = Some (?row ! nat m)" using assms row ozone_table_shape by (simp add: py_index_def)
  moreover have "?row ! nat m \<in> set ?row" using assms row ozone_table_shape by (intro nth_mem) auto
  ultimately show ?thesis using i row ozone_table_shape by (auto simp: oz_climo_def)
qed

lemma ord2ymd_md_month:
  assumes "0 \<le> n" "n < 365"
  shows "1 \<le> fst (ord2ymd_md leap n) \<and> fst (ord2ymd_md leap n) \<le> 12"
proof -
  have m: "1 \<le> (n + 50) div 32" "(n + 50) div 32 \<le> 12" using assms by simp_all
  show ?thesis
  proof (cases "(n + 50) div 32 = 1")
    case True
    then show ?thesis using assms by (simp add: ord2ymd_md_def days_before_month_tbl_def)
  next
    case False
    then show ?thesis using m by (simp add: ord2ymd_md_def Let_def)
  qed
qed

lemma ord2ymd_month: "1 \<le> fst (snd (ord2ymd n)) \<and> fst (snd (ord2ymd n)) \<le> 12"
  unfolding ord2ymd_def Let_def using ord2ymd_md_month by simp

lemma get_month_range: "0 \<le> get_month t \<and> get_month t < 12"
  using ord2ymd_month [of "719163 + \<lfloor>t / 1000 / 86400\<rfloor>"] by (simp add: get_month_def)

text \<open>C37. For every observation time and latitude, \<open>getMonth\<close> gives a
  month index in 0..11 and \<open>getOzoneClimoValue\<close> a table value between 134
  and 363: the ozone anomaly never raises \<open>IndexError\<close> and never divides
  by zero.\<close>

theorem oz_climo_of_observation:
  "\<exists>v. oz_climo (get_month t) (Num l) = Inr v \<and> 134 \<le> v \<and> v \<le> 363"
  using oz_climo_in_table get_month_range by blast

subsection \<open>The tropopause scan and the bounds check\<close>

lemma foldl_trop:
  "foldl (trop_step th) acc xs =
   (let ps = map snd (filter (\<lambda>(oz, p). flt_le th oz) xs) in if ps = [] then acc else last ps)"
proof (induction xs arbitrary: acc)
  case Nil then show ?case by simp
next
  case (Cons x xs)
  obtain oz p where x: "x = (oz, p)" by fastforce
  show ?case using Cons [of "trop_step th acc x"] x by (simp add: trop_step_def Let_def)
qed

text \<open>C38. The tropopause scan returns the pressure of the last level
  whose ozone reaches the month's threshold, or \<open>NaN\<close> when none does: the
  \<open>!= FILL_VAL\<close> test compares with \<open>NaN\<close>, is always true, and its
  \<open>else\<close> branch never runs.\<close>

theorem trop_scan_last_level: "trop_scan th o3 pres = trop_ref th o3 pres"
  unfolding trop_scan_def trop_ref_def foldl_trop by (rule refl)

lemma gross_bounds_nth:
  "i < length g \<Longrightarrow>
   gross_bounds lo hi g ! i = (if flt_lt (Num hi) (g ! i) \<or> flt_lt (g ! i) (Num lo) then NaN else g ! i)"
  by (simp add: gross_bounds_def Let_def nth_mask_set)

text \<open>C39. \<open>grossBoundsChecking(min, max, grid)\<close> keeps the shape,
  leaves every cell inside \<open>[min, max]\<close> unchanged and turns every other
  cell into \<open>NaN\<close>.\<close>

theorem gross_bounds_range:
  "length (gross_bounds lo hi g) = length g \<and>
   (\<forall>x \<in> set (gross_bounds lo hi g). x = NaN \<or> (\<exists>v. x = Num v \<and> lo \<le> v \<and> v \<le> hi)) \<and>
   (\<forall>i < length g. \<forall>v. g ! i = Num v \<and> lo \<le> v \<and> v \<le> hi \<longrightarrow> gross_bounds lo hi g ! i = g ! i)"
proof (intro conjI)
  show l: "length (gross_bounds lo hi g) = length g" by (simp add: gross_bounds_def Let_def)
  have "gross_bounds lo hi g ! i = NaN \<or> (\<exists>v. gross_bounds lo hi g ! i = Num v \<and> lo \<le> v \<and> v \<le> hi)"
    if "i < length g" for i
    using that by (cases "g ! i") (auto simp: gross_bounds_nth)
  then show "\<forall>x \<in> set (gross_bounds lo hi g). x = NaN \<or> (\<exists>v. x = Num v \<and> lo \<le> v \<and> v \<le> hi)"
    using l by (metis in_set_conv_nth)
  show "\<forall>i < length g. \<forall>v. g ! i = Num v \<and> lo \<le> v \<and> v \<le> hi \<longrightarrow> gross_bounds lo hi g ! i = g ! i"
    by (auto simp: gross_bounds_nth)
qed

subsection \<open>The 2 m relative humidity\<close>

lemma length_foldl_update: "length (foldl (\<lambda>r i. r[i := f i]) r0 xs) = length r0"
  by (induction xs arbitrary: r0) auto

lemma foldl_update_upt:
  "k \<le> length r0 \<Longrightarrow> j < length r0 \<Longrightarrow>
   foldl (\<lambda>r i. r[i := f i]) r0 [0..<k] ! j = (if j < k then f j else r0 ! j)"
  by (induction k) (auto simp: nth_list_update length_foldl_update)

text \<open>C40. The loop \<open>for i in range(nobs - 1)\<close> of \<open>decode\<close> writes
  the 2 m relative humidity of every observation but the last, which stays
  \<open>NaN\<close> whatever the data.\<close>

theorem rh2m_last_unset:
  assumes "0 < nobs"
  shows "rh2m_clamp (rh2m_loop nobs f) ! (nobs - 1) = NaN \<and> (\<forall>i < nobs - 1. rh2m_loop nobs f ! i = f i)"
proof -
  have l: "length (rh2m_loop nobs f) = nobs" by (simp add: rh2m_loop_def length_foldl_update)
  have e: "j < nobs \<Longrightarrow> rh2m_loop nobs f ! j = (if j < nobs - 1 then f j else NaN)" for j
    by (simp add: rh2m_loop_def foldl_update_upt)
  show ?thesis using assms l e [of "nobs - 1"] e by (simp add: rh2m_clamp_def nth_mask_set)
qed

text \<open>Only the whole list is stripped: a space after a comma stays in the
  file name that \<open>h5py.File\<close> is asked to open.\<close>

lemma nucaps_init_keeps_spaces: "nucaps_init (Some '' a.h5, b.h5 '') = (True, [''a.h5'', '' b.h5''])"
  by code_simp

subsection \<open>Witnesses\<close>

theorem oz_index_bins_witness: "oz_index (Num 2) = Inr 17 \<and> oz_index (Num (-87)) \<noteq> Inr 35"
  using oz_index_bins by simp

theorem gross_bounds_range_witness:
  "length (gross_bounds 0 110 [Num 50, Num 120, NaN]) = 3 \<and> gross_bounds 0 110 [Num 50, Num 120, NaN] ! 0 = Num 50"
  using gross_bounds_range [of 0 110 "[Num 50, Num 120, NaN]"] by simp

theorem rh2m_last_unset_witness:
  "rh2m_clamp (rh2m_loop 3 (\<lambda>i. Num (50 * real i))) ! 2 = NaN \<and>
   rh2m_loop 3 (\<lambda>i. Num (50 * real i)) ! 1 = Num 50"
  using rh2m_last_unset [of 3 "\<lambda>i. Num (50 * real i)"] by simp

theorem trop_scan_last_level_witness:
  "trop_scan (Num 100) [Num 120, Num 80, Num 150, Num 90] [Num 500, Num 400, Num 300, Num 200] = Num 300"
  using trop_scan_last_level [of "Num 100" "[Num 120, Num 80, Num 150, Num 90]" "[Num 500, Num 400, Num 300, Num 200]"]
  by (simp add: trop_ref_def)

end
