(* ===== verification/Spec2Isabelle.thy ===== *)
theory Spec2Isabelle
  imports Hazard ZoneExpand BulletinParser Scenario AreaDescription Daylight Config Composer AutoFill Tracker Bmh Arrivals Earthquake Atcf Nsea Nucaps
begin

text \<open>
  \<^bold>\<open>A verification library for the Tsunami EAS GUI (nwr_tsu.py) and the
  Python scripts of the EDEX plugins.\<close>

  The program (\<open>src/apps/TsunamiEasGui/bin/nwr_tsu.py\<close>) turns a tsunami
  bulletin of the warning centre into a radio script. Its core is a pipeline
  of text processing with a little persisted state:
  \<^item> start-up imports the site configuration (\<open>config_tsu.py\<close>), fills in the
    defaults of optional variables, reads the forecast points and computes
    the local time zone with \<open>daylightMe\<close>;
  \<^item> \<open>grabTWC\<close> splits the bulletin into \<open>$$\<close> segments, finds the VTEC
    line of each, expands the condensed zone ranges, collects the zones of the
    office per hazard, parses arrival times and the earthquake paragraph,
    converts the earthquake time to local time, and returns the \<open>info\<close>
    dictionary with a notice in \<open>info["extra"]\<close>; any exception gives the
    failure notice;
  \<^item> \<open>autoFill\<close> decides the hazard scenario (asking the operator through
    \<open>comboOption\<close> when hazards combine), asks \<open>breakpointMe\<close>/\<open>zonelistFull\<close>
    for the area phrase, composes the statement (\<open>statementMake\<close>,
    \<open>cleanStatement\<close>, or the two-hazard text) and applies the test wording;
  \<^item> \<open>sendtoRadio\<close> writes the BMH script (\<open>crsCodeme\<close>) and keeps
    \<open>data/last_issued.txt\<close>, one record per hazard, to warn of an earlier
    broadcast that may still be playing; \<open>clearTrack\<close> resets it.

  Theories, in the order of the pipeline (each opens with what it models):
  \<^item> \<open>Tsu_Prelude\<close>: Python's string, list and number operations as
    executable HOL functions (\<open>py_replace\<close>, \<open>str_in\<close>, \<open>py_find\<close>,
    \<open>py_split\<close>, \<open>py_join\<close>, \<open>py_splitlines\<close>, \<open>py_upper\<close>, \<open>py_strip\<close>,
    \<open>py_zfill\<close>, \<open>nat_str\<close>, \<open>digits_val\<close>, \<open>py_int\<close>, \<open>py_index\<close>), with
    their shared lemmas (split/join round trips, number text round trip);
  \<^item> \<open>Hazard\<close>: hazards (an \<open>enum\<close> instance, so per-hazard data compares
    by evaluation), issuance status and the \<open>info\<close> record;
  \<^item> \<open>ZoneExpand\<close> (C1, C2), \<open>BulletinParser\<close> (C3-C6): the zone path of
    \<open>grabTWC\<close> with its invariant (sorted, duplicate-free, configured zones);
  \<^item> \<open>Arrivals\<close> (C21), \<open>Earthquake\<close> (C14, C18): the arrival tables and
    paragraphs, the earthquake paragraph and time conversion, and the whole
    \<open>grab_twc_full\<close>, which refines the zone path whenever it raises nothing;
  \<^item> \<open>Scenario\<close> (C7, C8), \<open>AreaDescription\<close> (C9-C12), \<open>Composer\<close>,
    \<open>AutoFill\<close> (C23): \<open>autoFill\<close> and what it calls;
  \<^item> \<open>Daylight\<close> (C15-C17): \<open>daylightMe\<close> with CPython's calendar
    arithmetic, refining the daylight-saving rule;
  \<^item> \<open>Config\<close> (C19, C20): the configuration record, the three shipped
    configuration files and the start-up code;
  \<^item> \<open>Tracker\<close> (C22, C24-C26): the issuance file as a state, sends and
    resets as an inductive reachability relation, and its invariant;
  \<^item> \<open>Bmh\<close>: the BMH script;
  \<^item> this theory (C13): the area phrase of a parsed hazard.

  The other programs of the repository that are Python:
  \<^item> \<open>Atcf\<close> (C27-C32): the ATCF script
    (\<open>src/edex/gov.noaa.nws.ocp.edex.plugin.atcf/.../ProcessAtcfFiles.py\<close>)
    over an explicit file store (paths to contents, directories, and the log
    of calls into Java and LDM) in a state and exception monad, so a failing
    step keeps what was done before it. \<open>datetime.strptime(dtg,
    '%Y%m%d%H')\<close> is CPython's \<open>_strptime\<close>: one regular expression per
    directive, tried in the backtracking order of \<open>re\<close>, first match, then
    the unconverted-data and calendar checks; \<open>strftime('%Y')\<close> is glibc's
    (no padding of the year). Frame lemmas (\<open>holds\<close>, collected as
    \<open>atcf_step\<close>) say which paths each step may write; the store invariant
    \<open>fs_ok\<close> (distinct keys, no file inside a file) is kept by every step;
  \<^item> \<open>Numpy\<close>: a NumPy cell is a real or \<open>NaN\<close>, comparisons with \<open>NaN\<close> are
    false and \<open>!=\<close> is true, masked assignment and one-axis broadcasting.
    Arithmetic is exact: the claims are about which branch or mask a cell
    takes; the thresholds are exact in binary floating point, the MCP scores
    are small integers whose sums are exact, and \<open>latitude / 5\<close> is exact
    at the band edges (IEEE division is correctly rounded), so rounding
    changes no branch the claims speak of;
  \<^item> \<open>Nsea\<close> (C33-C35): \<open>NSEA_MCP.py\<close> and \<open>NSEA_LNSVecLeft.py\<close> of the
    EDEX cursor plugin's derived parameters;
  \<^item> \<open>Nucaps\<close> (C36-C40): the cell-deciding parts of
    \<open>GriddedNucapsDecoder.py\<close>: the constructor's file list, the surface
    search, \<open>getMonth\<close> with CPython's \<open>_ord2ymd\<close>, the ozone climatology
    table and its lookup, the tropopause scan, the bounds check and the 2 m
    relative humidity loop.

  Modelling choices. Globals the functions read (\<open>zone_ids\<close>,
  \<open>arrival_list\<close>, the configuration, the clock) are parameters; exceptions
  are \<open>Inl\<close> values of \<open>py_error + _\<close> (\<open>atcf_error + _\<close> for the ATCF
  script), caught where the code catches them; dictionaries are association
  lists (\<open>AList.update\<close> keeps the position of a key, as Python does);
  regular expressions are the deterministic scans they amount to on ASCII
  text, with the order of alternatives of the Python engine, or a
  backtracking matcher over literal and repeated character classes
  (\<open>rx_here\<close>). Every loop is structural recursion or a \<open>function\<close> with a
  \<open>measure\<close>, so all definitions are total and executable; the only bounded
  loop of the source, the sixteen-day Sunday search of \<open>daylightMe\<close>, is
  shown to stop within fourteen days (C16). \<open>time.mktime\<close> and
  \<open>datetime.fromtimestamp\<close> are taken on a UTC clock, as on AWIPS.

  Not modelled: the Tk GUI of \<open>nwr_tsu.py\<close> and its call-backs
  (\<open>changeZone\<close>, menus, templates of the Templates menu: \<open>fillWWA\<close>,
  \<open>fillWhat\<close>, \<open>fillCombo\<close>, the placeholder part of \<open>statementMake\<close>),
  printing, spelling, logging, reading the bulletin from a file or the text
  database, and the transmitter call; in the ATCF script, the Java services
  it calls (the deck database, the interpolator, the deck writer), which are
  recorded as events, and \<open>tarfile\<close>, taken as the list of its members; in
  the NUCAPS decoder, reading HDF5 files, the physical conversions and
  \<open>scipy\<close> interpolation; in the NSEA functions, \<open>Direction\<close> and
  \<open>Vector\<close>, AWIPS functions outside the repository. The Java and
  JavaScript code of the repository is outside the embedding.
\<close>

subsection \<open>Properties across components\<close>

lemma distinct_subset_length_eq:
  assumes "distinct xs" "distinct ys" "set xs \<subseteq> set ys"
  shows "length xs = length ys \<longleftrightarrow> set xs = set ys"
proof -
  have "card (set xs) = length xs" "card (set ys) = length ys"
    using assms(1,2) by (simp_all add: distinct_card)
  with assms(3) show ?thesis
    by (metis card_subset_eq finite_set)
qed

text \<open>
  C13. With breakpoints switched off (line 353 empties \<open>breakpoint_list\<close>)
  and distinct configured zones, the area phrase \<open>breakpointMe\<close> gives a
  single hazard parsed by \<open>grabTWC\<close> is the local phrase exactly when the
  hazard's zones are the whole configured set and a local phrase is
  configured, and the list of the hazard's zone names otherwise: the length
  comparison of the code is set equality on the parser's output.
\<close>

theorem area_local_phrase_iff_full:
  assumes "distinct ids"
  shows "breakpoint_me zl ids lp [] act (grab_twc ids t) (DSingle h) =
           Inr (AreaOut ((\<lambda>_. [])(h := (if set (zones (grab_twc ids t) h) = set ids \<and> lp \<noteq> []
                                        then lp else zonelist_full zl (zones (grab_twc ids t) h)))))"
proof -
  have "distinct (zones (grab_twc ids t) h)" "set (zones (grab_twc ids t) h) \<subseteq> set ids"
    using grab_twc_zones_ok [of ids t] by (simp_all add: zones_ok_def)
  with assms have eq: "length (zones (grab_twc ids t) h) = length ids \<longleftrightarrow> set (zones (grab_twc ids t) h) = set ids"
    by (simp add: distinct_subset_length_eq)
  show ?thesis
    by (simp add: breakpoint_me_def Let_def eq del: set_eq_subset)
qed

theorem area_local_phrase_iff_full_witness:
  "breakpoint_me names_lox ids_lox ''the coast'' [] DNone (grab_twc ids_lox ''$$\<newline>CAZ039>041-091300-\<newline>/O.NEW.PAAQ.TS.W.0001.000000T0000Z-000000T0000Z/\<newline>$$'') (DSingle Warning) =
     Inr (AreaOut ((\<lambda>_. [])(Warning := (if set (zones (grab_twc ids_lox ''$$\<newline>CAZ039>041-091300-\<newline>/O.NEW.PAAQ.TS.W.0001.000000T0000Z-000000T0000Z/\<newline>$$'') Warning) = set ids_lox
                                         then ''the coast''
                                         else zonelist_full names_lox (zones (grab_twc ids_lox ''$$\<newline>CAZ039>041-091300-\<newline>/O.NEW.PAAQ.TS.W.0001.000000T0000Z-000000T0000Z/\<newline>$$'') Warning)))))"
proof -
  have "distinct ids_lox" by (simp add: ids_lox_def)
  from area_local_phrase_iff_full [OF this, of names_lox "''the coast''" DNone "''$$\<newline>CAZ039>041-091300-\<newline>/O.NEW.PAAQ.TS.W.0001.000000T0000Z-000000T0000Z/\<newline>$$''" Warning]
  show ?thesis by simp
qed

end
